theory Spec2Isabelle
  imports Main "HOL-Library.Word"
begin

section \<open>The xclbin container codec (XclBinClass.cxx)\<close>

text \<open>
  A shallow embedding of \<^verbatim>\<open>src/runtime_src/tools/xclbinutil/XclBinClass.cxx\<close>.
  A byte is a \<^typ>\<open>char\<close>, a file or a buffer is a \<^typ>\<open>string\<close>, a C++ exception is
  the \<open>Inl\<close> side of a sum.
\<close>

subsection \<open>Exceptions\<close>

datatype xcl_error =
    runtime_error string            \<comment> \<open>\<^verbatim>\<open>std::runtime_error(errMsg)\<close>\<close>
  | XET_MISSING_SECTION string      \<comment> \<open>\<^verbatim>\<open>XUtil::XclBinUtilException(XET_MISSING_SECTION, errMsg)\<close>\<close>
  | invalid_argument                \<comment> \<open>\<^verbatim>\<open>std::invalid_argument\<close>, thrown by \<^verbatim>\<open>std::stoi\<close>\<close>
  | out_of_range                    \<comment> \<open>\<^verbatim>\<open>std::out_of_range\<close>, thrown by \<^verbatim>\<open>std::stoi\<close>\<close>
  | ptree_bad_path string           \<comment> \<open>\<^verbatim>\<open>boost::property_tree::ptree_bad_path\<close>: no node of that key\<close>
  | ptree_bad_data string           \<comment> \<open>\<^verbatim>\<open>boost::property_tree::ptree_bad_data\<close>: the data does not convert\<close>
  | json_parser_error string nat    \<comment> \<open>\<^verbatim>\<open>boost::property_tree::json_parser_error\<close>: message and line\<close>
  | null_dereference                \<comment> \<open>a member call through a null \<^verbatim>\<open>Section*\<close>\<close>

subsection \<open>Library functions the code calls\<close>

text \<open>\<^verbatim>\<open>boost::split(tokens, s, boost::is_any_of(d))\<close> with the default
  \<^verbatim>\<open>token_compress_off\<close>: one token per delimiter plus one; the empty input gives one
  empty token.\<close>

fun boost_split :: "string \<Rightarrow> string \<Rightarrow> string \<Rightarrow> string list" where
  "boost_split ds tok [] = [rev tok]"
| "boost_split ds tok (c # cs) =
     (if c \<in> set ds then rev tok # boost_split ds [] cs
      else boost_split ds (c # tok) cs)"

definition isspace :: "char \<Rightarrow> bool" where
  "isspace c \<longleftrightarrow> c \<in> set [CHR 0x20, CHR 0x09, CHR 0x0A, CHR 0x0B, CHR 0x0C, CHR 0x0D]"

definition isdigit :: "char \<Rightarrow> bool" where
  "isdigit c \<longleftrightarrow> 48 \<le> (of_char c :: nat) \<and> (of_char c :: nat) \<le> 57"

text \<open>The value of a run of decimal digits, most significant first.\<close>

definition digits_value :: "string \<Rightarrow> nat" where
  "digits_value ds = foldl (\<lambda>acc c. 10 * acc + (of_char c - 48)) 0 ds"

text \<open>\<^verbatim>\<open>std::stoi(str)\<close>: base 10, leading white space skipped, an optional sign, then the
  longest run of digits; trailing characters are ignored. No digit at all raises
  \<^verbatim>\<open>std::invalid_argument\<close>, a value that does not fit an \<^verbatim>\<open>int\<close> raises
  \<^verbatim>\<open>std::out_of_range\<close>.\<close>

definition stoi :: "string \<Rightarrow> xcl_error + int" where
  "stoi str =
     (let s1 = dropWhile isspace str;
          neg = (case s1 of [] \<Rightarrow> False | c # _ \<Rightarrow> c = CHR ''-'');
          s2 = (case s1 of [] \<Rightarrow> [] | c # r \<Rightarrow> if c = CHR ''-'' \<or> c = CHR ''+'' then r else s1);
          ds = takeWhile isdigit s2;
          v = (if neg then - int (digits_value ds) else int (digits_value ds))
      in if ds = [] then Inl invalid_argument
         else if v < - (2 ^ 31) \<or> 2 ^ 31 - 1 < v then Inl out_of_range
         else Inr v)"

subsection \<open>The version string of the header\<close>

text \<open>\<^verbatim>\<open>getVersionMajorMinorPath(_pVersion, _major, _minor, _patch)\<close>. The three reference
  parameters come in with their current values and are returned next to the \<^verbatim>\<open>bool\<close>; the
  casts \<^verbatim>\<open>(uint8_t)\<close> and \<^verbatim>\<open>(uint16_t)\<close> keep the low bits.\<close>

definition getVersionMajorMinorPath ::
  "string \<Rightarrow> 8 word \<Rightarrow> 8 word \<Rightarrow> 16 word \<Rightarrow> xcl_error + (bool \<times> 8 word \<times> 8 word \<times> 16 word)" where
  "getVersionMajorMinorPath sVersion cur_major cur_minor cur_patch =
     (let tokens = boost_split ''.'' [] sVersion in
      if length tokens = 1 then
        (case stoi (tokens ! 0) of Inl e \<Rightarrow> Inl e
         | Inr p \<Rightarrow> Inr (True, 0, 0, word_of_int p))
      else if length tokens = 3 then
        (case stoi (tokens ! 0) of Inl e \<Rightarrow> Inl e
         | Inr a \<Rightarrow>
        (case stoi (tokens ! 1) of Inl e \<Rightarrow> Inl e
         | Inr b \<Rightarrow>
        (case stoi (tokens ! 2) of Inl e \<Rightarrow> Inl e
         | Inr c \<Rightarrow> Inr (True, word_of_int a, word_of_int b, word_of_int c))))
      else Inr (False, cur_major, cur_minor, cur_patch))"

subsection \<open>Bytes and fixed-width fields\<close>

type_synonym bytes = string

text \<open>An unsigned integer of \<open>n\<close> bytes as it lies in memory and in the file (the byte
  order is the build machine's, little-endian), and its value read back.\<close>

fun le_bytes :: "nat \<Rightarrow> nat \<Rightarrow> bytes" where
  "le_bytes 0 v = []"
| "le_bytes (Suc n) v = char_of (v mod 256) # le_bytes n (v div 256)"

fun le_value :: "bytes \<Rightarrow> nat" where
  "le_value [] = 0"
| "le_value (c # cs) = of_char c + 256 * le_value cs"

text \<open>A \<^verbatim>\<open>char[n]\<close> member: exactly \<open>n\<close> bytes.\<close>

definition fixed :: "nat \<Rightarrow> bytes \<Rightarrow> bytes" where
  "fixed n bs = take n bs @ replicate (n - length bs) (CHR 0x00)"

definition field :: "nat \<Rightarrow> nat \<Rightarrow> bytes \<Rightarrow> bytes" where
  "field off n bs = take n (drop off bs)"

text \<open>A \<^verbatim>\<open>char[]\<close> member read as a C string: the bytes before the first NUL.\<close>

definition c_str :: "bytes \<Rightarrow> string" where
  "c_str bs = takeWhile (\<lambda>c. c \<noteq> CHR 0x00) bs"

subsection \<open>The structures of the file format\<close>

text \<open>
  Modelled from the spec: the declarations of \<^verbatim>\<open>struct axlf_section_header\<close>,
  \<^verbatim>\<open>struct axlf_header\<close> and \<^verbatim>\<open>struct axlf\<close> (\<^verbatim>\<open>xclbin.h\<close>) are not part of the
  sources at hand. The members are the ones \<^verbatim>\<open>XclBinClass.cxx\<close> reads and writes and the
  spec's data model lists (magic, signature length, key block, unique id; length, time
  stamps, version with 8 + 8 + 16 bits, mode, action mask, feature ROM UUID, platform
  name, container UUID of 16 bytes, debug binary name, section count; a section header
  with kind, name, 64-bit offset and 64-bit size). They lie in memory in declaration
  order with natural alignment, \<^verbatim>\<open>struct axlf\<close> ending in an array of one section header.
\<close>

record axlf_section_header =
  m_sectionKind :: "32 word"
  m_sectionName :: bytes         \<comment> \<open>\<^verbatim>\<open>char[16]\<close>\<close>
  m_sectionOffset :: "64 word"
  m_sectionSize :: "64 word"

record axlf_header =
  m_length :: "64 word"
  m_timeStamp :: "64 word"
  m_featureRomTimeStamp :: "64 word"
  m_versionPatch :: "16 word"
  m_versionMajor :: "8 word"
  m_versionMinor :: "8 word"
  m_mode :: "16 word"
  m_actionMask :: "16 word"
  rom_uuid :: bytes              \<comment> \<open>\<^verbatim>\<open>unsigned char[16]\<close>\<close>
  m_platformVBNV :: bytes        \<comment> \<open>\<^verbatim>\<open>unsigned char[64]\<close>\<close>
  uuid :: bytes                  \<comment> \<open>16 bytes\<close>
  m_debug_bin :: bytes           \<comment> \<open>\<^verbatim>\<open>char[16]\<close>\<close>
  m_numSections :: "32 word"

record axlf =
  m_magic :: bytes               \<comment> \<open>\<^verbatim>\<open>char[8]\<close>\<close>
  m_signature_length :: "32 word"  \<comment> \<open>\<^verbatim>\<open>int32_t\<close>, read with \<open>sint\<close>\<close>
  reserved :: bytes              \<comment> \<open>\<^verbatim>\<open>unsigned char[28]\<close>\<close>
  m_keyBlock :: bytes            \<comment> \<open>\<^verbatim>\<open>unsigned char[256]\<close>\<close>
  m_uniqueId :: "64 word"
  m_header :: axlf_header
  m_sections_1 :: axlf_section_header   \<comment> \<open>\<^verbatim>\<open>m_sections[1]\<close>, the array of one section header\<close>

definition sizeof_axlf_section_header :: nat where
  "sizeof_axlf_section_header = 40"

definition sizeof_axlf_header :: nat where
  "sizeof_axlf_header = 152"

definition sizeof_axlf :: nat where
  "sizeof_axlf = 496"

text \<open>The object representation of each structure: what \<^verbatim>\<open>write((char*)&x, n)\<close> puts
  into a file and what \<^verbatim>\<open>read((char*)&x, n)\<close> fills.\<close>

definition section_header_bytes :: "axlf_section_header \<Rightarrow> bytes" where
  "section_header_bytes sh =
     le_bytes 4 (unat (m_sectionKind sh)) @ fixed 16 (m_sectionName sh) @
     replicate 4 (CHR 0x00) @
     le_bytes 8 (unat (m_sectionOffset sh)) @ le_bytes 8 (unat (m_sectionSize sh))"

definition section_header_of_bytes :: "bytes \<Rightarrow> axlf_section_header" where
  "section_header_of_bytes bs =
     \<lparr> m_sectionKind = word_of_nat (le_value (field 0 4 bs)),
       m_sectionName = field 4 16 bs,
       m_sectionOffset = word_of_nat (le_value (field 24 8 bs)),
       m_sectionSize = word_of_nat (le_value (field 32 8 bs)) \<rparr>"

definition axlf_header_bytes :: "axlf_header \<Rightarrow> bytes" where
  "axlf_header_bytes h =
     le_bytes 8 (unat (m_length h)) @ le_bytes 8 (unat (m_timeStamp h)) @
     le_bytes 8 (unat (m_featureRomTimeStamp h)) @
     le_bytes 2 (unat (m_versionPatch h)) @ le_bytes 1 (unat (m_versionMajor h)) @
     le_bytes 1 (unat (m_versionMinor h)) @
     le_bytes 2 (unat (m_mode h)) @ le_bytes 2 (unat (m_actionMask h)) @
     fixed 16 (rom_uuid h) @ fixed 64 (m_platformVBNV h) @ fixed 16 (uuid h) @
     fixed 16 (m_debug_bin h) @ le_bytes 4 (unat (m_numSections h)) @
     replicate 4 (CHR 0x00)"

definition axlf_header_of_bytes :: "bytes \<Rightarrow> axlf_header" where
  "axlf_header_of_bytes bs =
     \<lparr> m_length = word_of_nat (le_value (field 0 8 bs)),
       m_timeStamp = word_of_nat (le_value (field 8 8 bs)),
       m_featureRomTimeStamp = word_of_nat (le_value (field 16 8 bs)),
       m_versionPatch = word_of_nat (le_value (field 24 2 bs)),
       m_versionMajor = word_of_nat (le_value (field 26 1 bs)),
       m_versionMinor = word_of_nat (le_value (field 27 1 bs)),
       m_mode = word_of_nat (le_value (field 28 2 bs)),
       m_actionMask = word_of_nat (le_value (field 30 2 bs)),
       rom_uuid = field 32 16 bs,
       m_platformVBNV = field 48 64 bs,
       uuid = field 112 16 bs,
       m_debug_bin = field 128 16 bs,
       m_numSections = word_of_nat (le_value (field 144 4 bs)) \<rparr>"

definition axlf_bytes :: "axlf \<Rightarrow> bytes" where
  "axlf_bytes x =
     fixed 8 (m_magic x) @ le_bytes 4 (unat (m_signature_length x)) @
     fixed 28 (reserved x) @ fixed 256 (m_keyBlock x) @
     le_bytes 8 (unat (m_uniqueId x)) @ axlf_header_bytes (m_header x) @
     section_header_bytes (m_sections_1 x)"

definition axlf_of_bytes :: "bytes \<Rightarrow> axlf" where
  "axlf_of_bytes bs =
     \<lparr> m_magic = field 0 8 bs,
       m_signature_length = word_of_nat (le_value (field 8 4 bs)),
       reserved = field 12 28 bs,
       m_keyBlock = field 40 256 bs,
       m_uniqueId = word_of_nat (le_value (field 296 8 bs)),
       m_header = axlf_header_of_bytes (field 304 152 bs),
       m_sections_1 = section_header_of_bytes (field 456 40 bs) \<rparr>"

text \<open>The members with a fixed number of bytes have that number of bytes.\<close>

definition wf_section_header :: "axlf_section_header \<Rightarrow> bool" where
  "wf_section_header sh \<longleftrightarrow> length (m_sectionName sh) = 16"

definition wf_axlf_header :: "axlf_header \<Rightarrow> bool" where
  "wf_axlf_header h \<longleftrightarrow>
     length (rom_uuid h) = 16 \<and> length (m_platformVBNV h) = 64 \<and>
     length (uuid h) = 16 \<and> length (m_debug_bin h) = 16"

definition wf_axlf :: "axlf \<Rightarrow> bool" where
  "wf_axlf x \<longleftrightarrow>
     length (m_magic x) = 8 \<and> length (reserved x) = 28 \<and> length (m_keyBlock x) = 256 \<and>
     wf_axlf_header (m_header x) \<and> wf_section_header (m_sections_1 x)"

text \<open>The structures after \<^verbatim>\<open>= {0}\<close>.\<close>

definition zero_section_header :: axlf_section_header where
  "zero_section_header =
     \<lparr> m_sectionKind = 0, m_sectionName = replicate 16 (CHR 0x00),
       m_sectionOffset = 0, m_sectionSize = 0 \<rparr>"

definition zero_axlf :: axlf where
  "zero_axlf =
     \<lparr> m_magic = replicate 8 (CHR 0x00), m_signature_length = 0,
       reserved = replicate 28 (CHR 0x00), m_keyBlock = replicate 256 (CHR 0x00),
       m_uniqueId = 0,
       m_header =
         \<lparr> m_length = 0, m_timeStamp = 0, m_featureRomTimeStamp = 0,
           m_versionPatch = 0, m_versionMajor = 0, m_versionMinor = 0,
           m_mode = 0, m_actionMask = 0,
           rom_uuid = replicate 16 (CHR 0x00), m_platformVBNV = replicate 64 (CHR 0x00),
           uuid = replicate 16 (CHR 0x00), m_debug_bin = replicate 16 (CHR 0x00),
           m_numSections = 0 \<rparr>,
       m_sections_1 = zero_section_header \<rparr>"

subsection \<open>File streams\<close>

text \<open>A \<^verbatim>\<open>std::fstream\<close> on a file: the bytes of the file and the file position (a file
  buffer has one position for reading and writing). Writing overwrites from the position
  on and extends the file at its end.\<close>

record fstream =
  buf :: bytes
  pos :: nat

definition stream_write :: "bytes \<Rightarrow> fstream \<Rightarrow> fstream" where
  "stream_write bs f =
     \<lparr> buf = fixed (pos f) (buf f) @ bs @ drop (pos f + length bs) (buf f),
       pos = pos f + length bs \<rparr>"

text \<open>\<^verbatim>\<open>seekg(off); read(p, n)\<close> on an input file: the bytes delivered; their number is
  \<^verbatim>\<open>gcount()\<close>.\<close>

definition stream_read :: "bytes \<Rightarrow> nat \<Rightarrow> nat \<Rightarrow> bytes" where
  "stream_read file off n = take n (drop off file)"

subsection \<open>Formatted numbers\<close>

definition digit_char :: "nat \<Rightarrow> char" where
  "digit_char d = (if d < 10 then char_of (48 + d) else char_of (87 + d))"

function format_u :: "nat \<Rightarrow> string" where
  "format_u n = (if n < 10 then [digit_char n] else format_u (n div 10) @ [digit_char (n mod 10)])"
  by pat_completeness auto
termination
  by (relation "measure id") auto

function format_x :: "nat \<Rightarrow> string" where
  "format_x n = (if n < 16 then [digit_char n] else format_x (n div 16) @ [digit_char (n mod 16)])"
  by pat_completeness auto
termination
  by (relation "measure id") auto

declare format_u.simps [simp del] format_x.simps [simp del]

text \<open>\<^verbatim>\<open>"%d"\<close> of a signed value.\<close>

definition format_d :: "int \<Rightarrow> string" where
  "format_d i = (if i < 0 then CHR ''-'' # format_u (nat (- i)) else format_u (nat i))"

subsection \<open>Property trees and their JSON text\<close>

text \<open>A \<^verbatim>\<open>boost::property_tree::ptree\<close>: a data string and an ordered list of keyed
  children. Every key this code uses is a single path component.\<close>

datatype ptree = PTree (pt_data: string) (pt_children: "(string \<times> ptree) list")

definition pt_empty :: ptree where
  "pt_empty = PTree [] []"

fun pt_find :: "string \<Rightarrow> (string \<times> ptree) list \<Rightarrow> ptree option" where
  "pt_find k [] = None"
| "pt_find k ((k', c) # cs) = (if k' = k then Some c else pt_find k cs)"

fun pt_set_first :: "string \<Rightarrow> string \<Rightarrow> (string \<times> ptree) list \<Rightarrow> (string \<times> ptree) list" where
  "pt_set_first k v [] = []"
| "pt_set_first k v ((k', c) # cs) =
     (if k' = k then (k', PTree v (pt_children c)) # cs else (k', c) # pt_set_first k v cs)"

text \<open>\<^verbatim>\<open>pt.put(key, value)\<close>: the first child of that key gets the value, a new child is
  appended when there is none.\<close>

definition pt_put :: "string \<Rightarrow> string \<Rightarrow> ptree \<Rightarrow> ptree" where
  "pt_put k v t =
     (case pt_find k (pt_children t) of
        None \<Rightarrow> PTree (pt_data t) (pt_children t @ [(k, PTree v [])])
      | Some _ \<Rightarrow> PTree (pt_data t) (pt_set_first k v (pt_children t)))"

text \<open>\<^verbatim>\<open>pt.add_child(key, child)\<close> and \<^verbatim>\<open>pt.push_back(make_pair(key, child))\<close>: a new last
  child, whatever keys are there.\<close>

definition pt_add_child :: "string \<Rightarrow> ptree \<Rightarrow> ptree \<Rightarrow> ptree" where
  "pt_add_child k c t = PTree (pt_data t) (pt_children t @ [(k, c)])"

definition hex_upper :: "nat \<Rightarrow> char" where
  "hex_upper d = (if d < 10 then char_of (48 + d) else char_of (55 + d))"

text \<open>\<^verbatim>\<open>create_escapes\<close> of the JSON writer.\<close>

definition create_escape :: "char \<Rightarrow> string" where
  "create_escape c =
     (let n = (of_char c :: nat) in
      if n = 0x20 \<or> n = 0x21 \<or> (0x23 \<le> n \<and> n \<le> 0x2E) \<or> (0x30 \<le> n \<and> n \<le> 0x5B) \<or> 0x5D \<le> n
      then [c]
      else if n = 0x08 then [CHR 0x5C, CHR ''b'']
      else if n = 0x0C then [CHR 0x5C, CHR ''f'']
      else if n = 0x0A then [CHR 0x5C, CHR ''n'']
      else if n = 0x0D then [CHR 0x5C, CHR ''r'']
      else if n = 0x09 then [CHR 0x5C, CHR ''t'']
      else if c = CHR ''/'' then [CHR 0x5C, CHR ''/'']
      else if n = 0x22 then [CHR 0x5C, CHR 0x22]
      else if n = 0x5C then [CHR 0x5C, CHR 0x5C]
      else [CHR 0x5C, CHR ''u'', CHR ''0'', CHR ''0'', hex_upper (n div 16), hex_upper (n mod 16)])"

definition create_escapes :: "string \<Rightarrow> string" where
  "create_escapes s = concat (map create_escape s)"

definition json_nl :: "bool \<Rightarrow> string" where
  "json_nl pretty = (if pretty then [CHR 0x0A] else [])"

definition json_indent :: "bool \<Rightarrow> nat \<Rightarrow> string" where
  "json_indent pretty indent = (if pretty then replicate (4 * indent) (CHR 0x20) else [])"

text \<open>The members of an array or object: a comma after each but the last, a line end
  after each when printing pretty.\<close>

fun json_items :: "bool \<Rightarrow> string list \<Rightarrow> string" where
  "json_items pretty [] = []"
| "json_items pretty [x] = x @ json_nl pretty"
| "json_items pretty (x # y # zs) = x @ '','' @ json_nl pretty @ json_items pretty (y # zs)"

text \<open>\<^verbatim>\<open>write_json_helper(stream, pt, indent, pretty)\<close>: below the root a node without
  children is a string, a node whose children all have the empty key is an array, any
  other node (and the root) is an object.\<close>

fun write_json_helper :: "bool \<Rightarrow> nat \<Rightarrow> ptree \<Rightarrow> string" where
  "write_json_helper pretty indent (PTree d cs) =
     (if 0 < indent \<and> cs = [] then [CHR 0x22] @ create_escapes d @ [CHR 0x22]
      else if 0 < indent \<and> (\<forall>kc \<in> set cs. fst kc = []) then
        ''['' @ json_nl pretty @
        json_items pretty
          (map (\<lambda>kc. json_indent pretty (indent + 1) @
                      write_json_helper pretty (indent + 1) (snd kc)) cs) @
        json_indent pretty indent @ '']''
      else
        ''{'' @ json_nl pretty @
        json_items pretty
          (map (\<lambda>kc. json_indent pretty (indent + 1) @
                      [CHR 0x22] @ create_escapes (fst kc) @ [CHR 0x22] @ '':'' @
                      (if pretty then '' '' else []) @
                      write_json_helper pretty (indent + 1) (snd kc)) cs) @
        json_indent pretty indent @ ''}'')"

text \<open>\<^verbatim>\<open>verify_json\<close>: the root carries no data and no node has both data and children.\<close>

fun verify_json :: "nat \<Rightarrow> ptree \<Rightarrow> bool" where
  "verify_json depth (PTree d cs) =
     ((depth = 0 \<longrightarrow> d = []) \<and> (d \<noteq> [] \<longrightarrow> cs = []) \<and>
      (\<forall>kc \<in> set cs. verify_json (depth + 1) (snd kc)))"

subsection \<open>Hexadecimal buffers\<close>

text \<open>Modelled from the spec: \<^verbatim>\<open>XUtil::binaryBufferToHexString\<close> and
  \<^verbatim>\<open>XUtil::hexStringToBinaryBuffer\<close> are not part of the sources at hand; UUID and key
  block fields are hex-encoded in the mirror and hex-decoded from it, two digits a byte,
  into a buffer of the given size.\<close>

definition hex_byte :: "char \<Rightarrow> string" where
  "hex_byte c = [digit_char (of_char c div 16), digit_char (of_char c mod 16)]"

definition binaryBufferToHexString :: "bytes \<Rightarrow> string" where
  "binaryBufferToHexString bs = concat (map hex_byte bs)"

definition hex2char :: "char \<Rightarrow> nat option" where
  "hex2char c =
     (let n = (of_char c :: nat) in
      if 48 \<le> n \<and> n \<le> 57 then Some (n - 48)
      else if 97 \<le> n \<and> n \<le> 102 then Some (n - 87)
      else if 65 \<le> n \<and> n \<le> 70 then Some (n - 55)
      else None)"

fun hex_pairs :: "string \<Rightarrow> bytes option" where
  "hex_pairs (a # b # rest) =
     (case (hex2char a, hex2char b, hex_pairs rest) of
        (Some x, Some y, Some bs) \<Rightarrow> Some (char_of (16 * x + y) # bs)
      | _ \<Rightarrow> None)"
| "hex_pairs [] = Some []"
| "hex_pairs [a] = None"

definition hexStringToBinaryBuffer :: "string \<Rightarrow> nat \<Rightarrow> xcl_error + bytes" where
  "hexStringToBinaryBuffer inputString bufferSize =
     (if length inputString \<noteq> bufferSize * 2
      then Inl (runtime_error ''Error: hexStringToBinaryBuffer - Input string is not the same size as the given buffer'')
      else case hex_pairs inputString of
             None \<Rightarrow> Inl (runtime_error ''Error: hexStringToBinaryBuffer - Input string is not hexadecimal'')
           | Some bs \<Rightarrow> Inr bs)"

subsection \<open>Reading JSON text\<close>

text \<open>\<^verbatim>\<open>boost::property_tree::read_json\<close>, as a recursive-descent parser: an object becomes
  a node with one keyed child per member, an array a node whose children have the empty
  key, a string a node with that data, a number or one of \<^verbatim>\<open>true\<close>, \<^verbatim>\<open>false\<close>, \<^verbatim>\<open>null\<close> a node
  with the literal's text as data. A failure carries the message and the input left at
  the fault, from which the line is counted.\<close>

definition is_json_ws :: "char \<Rightarrow> bool" where
  "is_json_ws c \<longleftrightarrow> c = CHR 0x20 \<or> c = CHR 0x09 \<or> c = CHR 0x0A \<or> c = CHR 0x0D"

definition skip_ws :: "string \<Rightarrow> string" where
  "skip_ws s = dropWhile is_json_ws s"

fun hex_value :: "string \<Rightarrow> nat option" where
  "hex_value [] = Some 0"
| "hex_value (c # cs) =
     (case (hex2char c, hex_value cs) of
        (Some d, Some v) \<Rightarrow> Some (d * 16 ^ length cs + v)
      | _ \<Rightarrow> None)"

text \<open>A code point of the basic plane as UTF-8.\<close>

definition utf8_encode :: "nat \<Rightarrow> string" where
  "utf8_encode cp =
     (if cp < 0x80 then [char_of cp]
      else if cp < 0x800 then [char_of (0xC0 + cp div 64), char_of (0x80 + cp mod 64)]
      else [char_of (0xE0 + cp div 4096), char_of (0x80 + cp div 64 mod 64),
            char_of (0x80 + cp mod 64)])"

text \<open>The characters of a string after its opening quote, up to the closing quote.\<close>

fun parse_string :: "string \<Rightarrow> (string \<times> string) + (string \<times> string)" where
  "parse_string [] = Inl (''unterminated string'', [])"
| "parse_string (c # cs) =
     (if c = CHR 0x22 then Inr ([], cs)
      else if c = CHR 0x5C then
        (case cs of
           [] \<Rightarrow> Inl (''invalid escape sequence'', [])
         | e # es \<Rightarrow>
             if e = CHR ''u'' then
               (if length es < 4 then Inl (''invalid escape sequence'', es)
                else case hex_value (take 4 es) of
                       None \<Rightarrow> Inl (''invalid escape sequence'', es)
                     | Some cp \<Rightarrow>
                         if 0xD800 \<le> cp \<and> cp < 0xE000 then Inl (''invalid codepoint, stray surrogate'', es)
                         else (case parse_string (drop 4 es) of
                                 Inl err \<Rightarrow> Inl err
                               | Inr (str, rest) \<Rightarrow> Inr (utf8_encode cp @ str, rest)))
             else
               (case (if e = CHR 0x22 then Some (CHR 0x22)
                      else if e = CHR 0x5C then Some (CHR 0x5C)
                      else if e = CHR ''/'' then Some (CHR ''/'')
                      else if e = CHR ''b'' then Some (CHR 0x08)
                      else if e = CHR ''f'' then Some (CHR 0x0C)
                      else if e = CHR ''n'' then Some (CHR 0x0A)
                      else if e = CHR ''r'' then Some (CHR 0x0D)
                      else if e = CHR ''t'' then Some (CHR 0x09)
                      else None) of
                  None \<Rightarrow> Inl (''invalid escape sequence'', e # es)
                | Some x \<Rightarrow>
                    (case parse_string es of
                       Inl err \<Rightarrow> Inl err
                     | Inr (str, rest) \<Rightarrow> Inr (x # str, rest))))
      else if (of_char c :: nat) < 0x20 then Inl (''invalid code sequence'', c # cs)
      else
        (case parse_string cs of
           Inl err \<Rightarrow> Inl err
         | Inr (str, rest) \<Rightarrow> Inr (c # str, rest)))"

text \<open>A number: an optional minus, an integer part without a leading zero, an optional
  fraction, an optional exponent. The result is its text and the input after it.\<close>

definition parse_number :: "string \<Rightarrow> (string \<times> string) option" where
  "parse_number s =
     (let sign = (if s \<noteq> [] \<and> hd s = CHR ''-'' then ''-'' else []);
          s1 = drop (length sign) s;
          ip = takeWhile isdigit s1;
          s2 = drop (length ip) s1;
          frac = (if s2 \<noteq> [] \<and> hd s2 = CHR ''.'' \<and> takeWhile isdigit (tl s2) \<noteq> []
                  then CHR ''.'' # takeWhile isdigit (tl s2) else []);
          s3 = drop (length frac) s2;
          esign = (if s3 \<noteq> [] \<and> (hd s3 = CHR ''e'' \<or> hd s3 = CHR ''E'') \<and> tl s3 \<noteq> [] \<and>
                     (hd (tl s3) = CHR ''+'' \<or> hd (tl s3) = CHR ''-'')
                   then take 2 s3
                   else if s3 \<noteq> [] \<and> (hd s3 = CHR ''e'' \<or> hd s3 = CHR ''E'') then take 1 s3
                   else []);
          ex = (if esign \<noteq> [] \<and> takeWhile isdigit (drop (length esign) s3) \<noteq> []
                then esign @ takeWhile isdigit (drop (length esign) s3) else []);
          s4 = drop (length ex) s3
      in if ip = [] \<or> (hd ip = CHR ''0'' \<and> length ip \<noteq> 1) then None
         else Some (sign @ ip @ frac @ ex, s4))"

definition parse_literal :: "string \<Rightarrow> (string \<times> string) option" where
  "parse_literal s =
     (if take 4 s = ''true'' then Some (''true'', drop 4 s)
      else if take 5 s = ''false'' then Some (''false'', drop 5 s)
      else if take 4 s = ''null'' then Some (''null'', drop 4 s)
      else parse_number s)"

text \<open>Values, the members of an object after its opening brace or a comma, and the
  elements of an array likewise. The first argument bounds the depth of the descent;
  the length of the text is always enough.\<close>

fun parse_value :: "nat \<Rightarrow> string \<Rightarrow> (string \<times> string) + (ptree \<times> string)"
  and parse_members :: "nat \<Rightarrow> string \<Rightarrow> (string \<times> string) + ((string \<times> ptree) list \<times> string)"
  and parse_elements :: "nat \<Rightarrow> string \<Rightarrow> (string \<times> string) + ((string \<times> ptree) list \<times> string)"
  where
  "parse_value 0 s = Inl (''nesting too deep'', s)"
| "parse_value (Suc n) s =
     (case skip_ws s of
        [] \<Rightarrow> Inl (''expected value'', [])
      | c # r \<Rightarrow>
          if c = CHR ''{'' then
            (if skip_ws r \<noteq> [] \<and> hd (skip_ws r) = CHR ''}'' then Inr (PTree [] [], tl (skip_ws r))
             else case parse_members n r of
                    Inl err \<Rightarrow> Inl err
                  | Inr (ms, rest) \<Rightarrow> Inr (PTree [] ms, rest))
          else if c = CHR ''['' then
            (if skip_ws r \<noteq> [] \<and> hd (skip_ws r) = CHR '']'' then Inr (PTree [] [], tl (skip_ws r))
             else case parse_elements n r of
                    Inl err \<Rightarrow> Inl err
                  | Inr (es, rest) \<Rightarrow> Inr (PTree [] es, rest))
          else if c = CHR 0x22 then
            (case parse_string r of
               Inl err \<Rightarrow> Inl err
             | Inr (str, rest) \<Rightarrow> Inr (PTree str [], rest))
          else
            (case parse_literal (c # r) of
               None \<Rightarrow> Inl (''expected value'', c # r)
             | Some (lit, rest) \<Rightarrow> Inr (PTree lit [], rest)))"
| "parse_members 0 s = Inl (''nesting too deep'', s)"
| "parse_members (Suc n) s =
     (case skip_ws s of
        [] \<Rightarrow> Inl (''expected key string'', [])
      | c # r \<Rightarrow>
          if c \<noteq> CHR 0x22 then Inl (''expected key string'', c # r)
          else
            (case parse_string r of
               Inl err \<Rightarrow> Inl err
             | Inr (key, r1) \<Rightarrow>
                 if skip_ws r1 = [] \<or> hd (skip_ws r1) \<noteq> CHR '':'' then Inl (''expected colon'', skip_ws r1)
                 else
                   (case parse_value n (tl (skip_ws r1)) of
                      Inl err \<Rightarrow> Inl err
                    | Inr (v, r2) \<Rightarrow>
                        if skip_ws r2 \<noteq> [] \<and> hd (skip_ws r2) = CHR '','' then
                          (case parse_members n (tl (skip_ws r2)) of
                             Inl err \<Rightarrow> Inl err
                           | Inr (ms, rest) \<Rightarrow> Inr ((key, v) # ms, rest))
                        else if skip_ws r2 \<noteq> [] \<and> hd (skip_ws r2) = CHR ''}'' then
                          Inr ([(key, v)], tl (skip_ws r2))
                        else Inl (''expected closing brace or comma'', skip_ws r2))))"
| "parse_elements 0 s = Inl (''nesting too deep'', s)"
| "parse_elements (Suc n) s =
     (case parse_value n s of
        Inl err \<Rightarrow> Inl err
      | Inr (v, r2) \<Rightarrow>
          if skip_ws r2 \<noteq> [] \<and> hd (skip_ws r2) = CHR '','' then
            (case parse_elements n (tl (skip_ws r2)) of
               Inl err \<Rightarrow> Inl err
             | Inr (es, rest) \<Rightarrow> Inr (([], v) # es, rest))
          else if skip_ws r2 \<noteq> [] \<and> hd (skip_ws r2) = CHR '']'' then
            Inr ([([], v)], tl (skip_ws r2))
          else Inl (''expected closing bracket or comma'', skip_ws r2))"

text \<open>The line of a fault: one more than the line ends before it.\<close>

definition line_of :: "string \<Rightarrow> string \<Rightarrow> nat" where
  "line_of text rest = 1 + count_list (take (length text - length rest) text) (CHR 0x0A)"

definition read_json :: "string \<Rightarrow> xcl_error + ptree" where
  "read_json text =
     (case parse_value (Suc (length text)) text of
        Inl (msg, rest) \<Rightarrow> Inl (json_parser_error msg (line_of text rest))
      | Inr (pt, rest) \<Rightarrow>
          if skip_ws rest \<noteq> [] then Inl (json_parser_error ''garbage after data'' (line_of text (skip_ws rest)))
          else Inr pt)"

subsection \<open>Reading values out of a property tree\<close>

text \<open>\<^verbatim>\<open>pt.get<std::string>(key)\<close>: the data of the first child of that key.\<close>

definition pt_get :: "string \<Rightarrow> ptree \<Rightarrow> xcl_error + string" where
  "pt_get k t =
     (case pt_find k (pt_children t) of
        None \<Rightarrow> Inl (ptree_bad_path k)
      | Some c \<Rightarrow> Inr (pt_data c))"

text \<open>The stream translator of \<^verbatim>\<open>get<T>\<close> for a signed integer type: white space, an
  optional sign, digits, white space, and nothing else; the value has to lie in the range
  of the type, given by its bounds.\<close>

definition stream_int :: "int \<Rightarrow> int \<Rightarrow> string \<Rightarrow> int option" where
  "stream_int lo hi s =
     (let s1 = dropWhile isspace s;
          neg = (s1 \<noteq> [] \<and> hd s1 = CHR ''-'');
          s2 = (if s1 \<noteq> [] \<and> (hd s1 = CHR ''-'' \<or> hd s1 = CHR ''+'') then tl s1 else s1);
          ds = takeWhile isdigit s2;
          rest = dropWhile isspace (drop (length ds) s2);
          v = (if neg then - int (digits_value ds) else int (digits_value ds))
      in if ds = [] \<or> rest \<noteq> [] \<or> v < lo \<or> hi < v then None else Some v)"

text \<open>The same for an unsigned type of \<open>w\<close> bits: the digits have to give a value of the
  type, and a minus sign negates it in the arithmetic of the type (\<^verbatim>\<open>-1\<close> reads as
  \<open>2^w - 1\<close>).\<close>

definition stream_uint :: "nat \<Rightarrow> string \<Rightarrow> nat option" where
  "stream_uint w s =
     (let s1 = dropWhile isspace s;
          neg = (s1 \<noteq> [] \<and> hd s1 = CHR ''-'');
          s2 = (if s1 \<noteq> [] \<and> (hd s1 = CHR ''-'' \<or> hd s1 = CHR ''+'') then tl s1 else s1);
          ds = takeWhile isdigit s2;
          rest = dropWhile isspace (drop (length ds) s2);
          v = digits_value ds
      in if ds = [] \<or> rest \<noteq> [] \<or> 2 ^ w \<le> v then None
         else Some (if neg then (2 ^ w - v) mod 2 ^ w else v))"

text \<open>\<^verbatim>\<open>pt.get<T>(key)\<close> and \<^verbatim>\<open>pt.get<T>(key, default)\<close> for a signed integer type, and
  \<^verbatim>\<open>pt.get<T>(key)\<close> for an unsigned one.\<close>

definition pt_get_int :: "int \<Rightarrow> int \<Rightarrow> string \<Rightarrow> ptree \<Rightarrow> xcl_error + int" where
  "pt_get_int lo hi k t =
     (case pt_find k (pt_children t) of
        None \<Rightarrow> Inl (ptree_bad_path k)
      | Some c \<Rightarrow>
          (case stream_int lo hi (pt_data c) of
             None \<Rightarrow> Inl (ptree_bad_data k)
           | Some v \<Rightarrow> Inr v))"

definition pt_get_int_default :: "int \<Rightarrow> int \<Rightarrow> string \<Rightarrow> int \<Rightarrow> ptree \<Rightarrow> int" where
  "pt_get_int_default lo hi k dflt t =
     (case pt_get_int lo hi k t of Inl e \<Rightarrow> dflt | Inr v \<Rightarrow> v)"

definition pt_get_uint :: "nat \<Rightarrow> string \<Rightarrow> ptree \<Rightarrow> xcl_error + nat" where
  "pt_get_uint w k t =
     (case pt_find k (pt_children t) of
        None \<Rightarrow> Inl (ptree_bad_path k)
      | Some c \<Rightarrow>
          (case stream_uint w (pt_data c) of
             None \<Rightarrow> Inl (ptree_bad_data k)
           | Some v \<Rightarrow> Inr v))"

text \<open>Modelled from the spec: \<^verbatim>\<open>XUtil::stringToUInt64(string, forceHex)\<close> is not part of the
  sources at hand; it decodes the decimal and hex numeric fields of the mirror. A text
  is read as hex when that is forced or when it starts with \<^verbatim>\<open>0x\<close>, as decimal
  otherwise; a text without a digit is an error.\<close>

definition is_hex_digit :: "char \<Rightarrow> bool" where
  "is_hex_digit c \<longleftrightarrow> hex2char c \<noteq> None"

definition hex_digits_value :: "string \<Rightarrow> nat" where
  "hex_digits_value ds = foldl (\<lambda>acc c. 16 * acc + the (hex2char c)) 0 ds"

definition stringToUInt64 :: "string \<Rightarrow> bool \<Rightarrow> xcl_error + 64 word" where
  "stringToUInt64 sInteger bForceHex =
     (let has0x = (2 < length sInteger \<and> take 2 sInteger = ''0x'');
          ds = (if bForceHex \<or> has0x
                then takeWhile is_hex_digit (if has0x then drop 2 sInteger else sInteger)
                else takeWhile isdigit sInteger)
      in if ds = []
         then Inl (runtime_error (''ERROR: Invalid integer string in JSON file: '' @ [CHR 0x27] @
                                  sInteger @ [CHR 0x27]))
         else Inr (word_of_nat (if bForceHex \<or> has0x then hex_digits_value ds
                                else digits_value ds)))"

subsection \<open>Helpers of XclBinUtilities\<close>

text \<open>Modelled from the spec: \<^verbatim>\<open>XUtil::bytesToAlign\<close> is not part of the sources at
  hand; it is the padding needed to reach the next multiple of 8.\<close>

definition bytesToAlign :: "nat \<Rightarrow> nat" where
  "bytesToAlign offset = (if offset mod 8 \<noteq> 0 then 8 - offset mod 8 else 0)"

text \<open>Modelled from the spec: \<^verbatim>\<open>XUtil::safeStringCopy(dest, source, bufferSize)\<close> is not
  part of the sources at hand; it is a direct string copy with truncation to the fixed
  field width, the buffer filled up with NUL and always ending in one.\<close>

definition safeStringCopy :: "string \<Rightarrow> nat \<Rightarrow> bytes" where
  "safeStringCopy source bufferSize = fixed bufferSize (take (bufferSize - 1) source)"

subsection \<open>Sections\<close>

datatype FormatType = FT_UNDEFINED | FT_UNKNOWN | FT_RAW | FT_JSON | FT_HTML | FT_TXT

text \<open>
  Modelled from the spec: class \<^verbatim>\<open>Section\<close> (\<^verbatim>\<open>Section.h\<close>, \<^verbatim>\<open>Section.cxx\<close> and the classes
  of the section kinds) is not part of the sources at hand. A section is a kind tag, a
  display name, an optional index name and its payload buffer; its size is the number
  of bytes of the buffer.
\<close>

record Section =
  m_eKind :: "32 word"
  m_sIndexName :: string
  m_name :: string
  m_pBuffer :: bytes

text \<open>
  What \<^verbatim>\<open>XclBinClass.cxx\<close> asks of class \<^verbatim>\<open>Section\<close> by kind is a parameter of the
  model: which kinds the factory has a constructor for, the table of kind names, which
  kinds take an index and how a kind shows its payload as JSON.
\<close>

record Section_class =
  hasCtor :: "32 word \<Rightarrow> bool"
  translateSectionKindStrToKind :: "string \<Rightarrow> xcl_error + 32 word"
  supportsSectionIndex :: "32 word \<Rightarrow> bool"
  doesSupportAddFormatType :: "32 word \<Rightarrow> FormatType \<Rightarrow> bool"
  doesSupportDumpFormatType :: "32 word \<Rightarrow> FormatType \<Rightarrow> bool"
  marshalToJSON :: "32 word \<Rightarrow> bytes \<Rightarrow> xcl_error + ptree"

text \<open>\<^verbatim>\<open>Section::createSectionObjectOfKind(kind, indexName = "")\<close>: a new empty section, or
  the null pointer (\<open>None\<close>).\<close>

definition createSectionObjectOfKind :: "Section_class \<Rightarrow> 32 word \<Rightarrow> string \<Rightarrow> Section option" where
  "createSectionObjectOfKind K eKind sIndexName =
     (if hasCtor K eKind
      then Some \<lparr> m_eKind = eKind, m_sIndexName = sIndexName, m_name = [], m_pBuffer = [] \<rparr>
      else None)"

text \<open>\<^verbatim>\<open>initXclBinSectionHeader\<close> fills kind, name and size of a zeroed table entry.\<close>

definition initXclBinSectionHeader :: "Section \<Rightarrow> axlf_section_header" where
  "initXclBinSectionHeader s =
     \<lparr> m_sectionKind = m_eKind s,
       m_sectionName = safeStringCopy (m_name s) 16,
       m_sectionOffset = 0,
       m_sectionSize = word_of_nat (length (m_pBuffer s)) \<rparr>"

definition writeXclBinSectionBuffer :: "Section \<Rightarrow> fstream \<Rightarrow> fstream" where
  "writeXclBinSectionBuffer s f = stream_write (m_pBuffer s) f"

text \<open>\<^verbatim>\<open>getPayload(pt)\<close> on an empty tree.\<close>

definition getPayload :: "Section_class \<Rightarrow> Section \<Rightarrow> xcl_error + ptree" where
  "getPayload K s = marshalToJSON K (m_eKind s) (m_pBuffer s)"

text \<open>\<^verbatim>\<open>readXclBinBinary(stream, sectionHeader)\<close>: the section takes its name from the table
  entry and re-reads its payload from the file at the recorded offset and size.\<close>

definition Section_readXclBinBinary ::
  "bytes \<Rightarrow> axlf_section_header \<Rightarrow> Section \<Rightarrow> xcl_error + Section" where
  "Section_readXclBinBinary file sh s =
     (let data = stream_read file (unat (m_sectionOffset sh)) (unat (m_sectionSize sh)) in
      if length data \<noteq> unat (m_sectionSize sh)
      then Inl (runtime_error ''ERROR: Input stream for the binary buffer is smaller then the expected size.'')
      else Inr (s \<lparr> m_name := c_str (m_sectionName sh), m_pBuffer := data \<rparr>))"

subsection \<open>The container\<close>

text \<open>\<^verbatim>\<open>struct SchemaVersion\<close>: three \<^verbatim>\<open>unsigned int\<close>.\<close>

record SchemaVersion =
  major :: "32 word"
  minor :: "32 word"
  patch :: "32 word"

text \<open>Class \<^verbatim>\<open>XclBin\<close>. The vector \<^verbatim>\<open>m_sections\<close> owns its sections: a \<^verbatim>\<open>Section*\<close> into
  the container is the position of the section in the vector, the null pointer is
  \<open>None\<close>.\<close>

record XclBin =
  m_xclBinHeader :: axlf
  m_sections :: "Section list"
  m_SchemaVersionMirrorWrite :: SchemaVersion

definition set_numSections :: "32 word \<Rightarrow> axlf \<Rightarrow> axlf" where
  "set_numSections n x = x \<lparr> m_header := (m_header x) \<lparr> m_numSections := n \<rparr> \<rparr>"

text \<open>\<^verbatim>\<open>XclBin::addSection(Section*)\<close>.\<close>

definition addSection :: "Section option \<Rightarrow> XclBin \<Rightarrow> XclBin" where
  "addSection pSection xb =
     (case pSection of
        None \<Rightarrow> xb
      | Some s \<Rightarrow>
          xb \<lparr> m_sections := m_sections xb @ [s],
               m_xclBinHeader :=
                 set_numSections (word_of_nat (length (m_sections xb @ [s]))) (m_xclBinHeader xb) \<rparr>)"

text \<open>\<^verbatim>\<open>XclBin::findSection(kind, indexName = "")\<close>: the first section of that kind and
  index name.\<close>

fun findSection_from :: "nat \<Rightarrow> Section list \<Rightarrow> 32 word \<Rightarrow> string \<Rightarrow> nat option" where
  "findSection_from index [] eKind indexName = None"
| "findSection_from index (s # ss) eKind indexName =
     (if m_eKind s = eKind \<and> m_sIndexName s = indexName then Some index
      else findSection_from (index + 1) ss eKind indexName)"

definition findSection :: "XclBin \<Rightarrow> 32 word \<Rightarrow> string \<Rightarrow> nat option" where
  "findSection xb eKind indexName = findSection_from 0 (m_sections xb) eKind indexName"

text \<open>\<^verbatim>\<open>XclBin::removeSection(const Section*)\<close>: a pointer that is not in the vector (a
  position past its end) is a missing section. \<open>kindName\<close> and \<open>eKind\<close> stand for
  \<^verbatim>\<open>getSectionKindAsString()\<close> and \<^verbatim>\<open>getSectionKind()\<close> of the section pointed to.\<close>

definition removeSection_ptr ::
  "string \<Rightarrow> 32 word \<Rightarrow> nat option \<Rightarrow> XclBin \<Rightarrow> xcl_error + XclBin" where
  "removeSection_ptr kindName eKind pSection xb =
     (case pSection of
        None \<Rightarrow> Inr xb
      | Some index \<Rightarrow>
          if index < length (m_sections xb) then
            (let secs = take index (m_sections xb) @ drop (index + 1) (m_sections xb) in
             Inr (xb \<lparr> m_sections := secs,
                       m_xclBinHeader :=
                         set_numSections (word_of_nat (length secs)) (m_xclBinHeader xb) \<rparr>))
          else Inl (XET_MISSING_SECTION
                 (''ERROR: Section '' @ [CHR 0x27] @ kindName @ [CHR 0x27] @ '' ('' @
                  format_d (sint eKind) @ '') not found'')))"

text \<open>\<^verbatim>\<open>std::string::find_first_of(delimiters, 0)\<close>: the position of the first character that
  is one of the delimiters, \<open>None\<close> for \<^verbatim>\<open>npos\<close>.\<close>

fun find_first_of :: "string \<Rightarrow> string \<Rightarrow> nat option" where
  "find_first_of [] ds = None"
| "find_first_of (c # cs) ds =
     (if c \<in> set ds then Some 0 else map_option Suc (find_first_of cs ds))"

text \<open>\<^verbatim>\<open>XclBin::removeSection(const std::string&)\<close>.\<close>

definition removeSection :: "Section_class \<Rightarrow> string \<Rightarrow> XclBin \<Rightarrow> xcl_error + XclBin" where
  "removeSection K sSectionToRemove xb =
     (case (case find_first_of sSectionToRemove ''['' of
              None \<Rightarrow> Inr (sSectionToRemove, [])
            | Some sectionIndex \<Rightarrow>
                if CHR '']'' \<noteq> last sSectionToRemove
                then Inl (runtime_error
                       (''Error: Expected format <section>[<section_index>] when using a section index.  Received: ''
                        @ sSectionToRemove @ ''.''))
                else Inr (take sectionIndex sSectionToRemove,
                          butlast (drop (sectionIndex + 1) sSectionToRemove))) of
        Inl e \<Rightarrow> Inl e
      | Inr (sectionName, sectionIndexName) \<Rightarrow>
     (case translateSectionKindStrToKind K sectionName of
        Inl e \<Rightarrow> Inl e
      | Inr eKind \<Rightarrow>
          if supportsSectionIndex K eKind \<and> sectionIndexName = []
          then Inl (runtime_error
                 (''ERROR: Section '' @ [CHR 0x27] @ sectionName @ [CHR 0x27] @
                  '' can only be deleted with indexes.''))
          else if \<not> supportsSectionIndex K eKind \<and> sectionIndexName \<noteq> []
          then Inl (runtime_error
                 (''ERROR: Section '' @ [CHR 0x27] @ sectionName @ [CHR 0x27] @
                  '' cannot be deleted with index values (not supported).''))
          else
            (case findSection xb eKind sectionIndexName of
               None \<Rightarrow> Inl (XET_MISSING_SECTION
                        (''ERROR: Section '' @ [CHR 0x27] @ sSectionToRemove @ [CHR 0x27] @
                         '' is not part of the xclbin archive.''))
             | Some index \<Rightarrow> removeSection_ptr sectionName eKind (Some index) xb)))"

subsection \<open>The mirror of the header\<close>

text \<open>Modelled from the spec: the functions \<^verbatim>\<open>FormattedOutput::get...AsString\<close> are not
  part of the sources at hand. The mirror holds the header fields human-readable or
  hex-encoded: the UUIDs and the key block in hex, the numeric fields in decimal (the
  unique id in hex), the strings as they are; each is what \<^verbatim>\<open>readXclBinHeader\<close> decodes.\<close>

definition getMagicAsString :: "axlf \<Rightarrow> string" where
  "getMagicAsString x = c_str (m_magic x)"

definition getSignatureLengthAsString :: "axlf \<Rightarrow> string" where
  "getSignatureLengthAsString x = format_d (sint (m_signature_length x))"

definition getKeyBlockAsString :: "axlf \<Rightarrow> string" where
  "getKeyBlockAsString x = binaryBufferToHexString (fixed 256 (m_keyBlock x))"

definition getUniqueIdAsString :: "axlf \<Rightarrow> string" where
  "getUniqueIdAsString x = format_x (unat (m_uniqueId x))"

definition getTimeStampAsString :: "axlf \<Rightarrow> string" where
  "getTimeStampAsString x = format_u (unat (m_timeStamp (m_header x)))"

definition getFeatureRomTimeStampAsString :: "axlf \<Rightarrow> string" where
  "getFeatureRomTimeStampAsString x = format_u (unat (m_featureRomTimeStamp (m_header x)))"

definition getVersionAsString :: "axlf \<Rightarrow> string" where
  "getVersionAsString x =
     format_u (unat (m_versionMajor (m_header x))) @ ''.'' @
     format_u (unat (m_versionMinor (m_header x))) @ ''.'' @
     format_u (unat (m_versionPatch (m_header x)))"

definition getModeAsString :: "axlf \<Rightarrow> string" where
  "getModeAsString x = format_u (unat (m_mode (m_header x)))"

definition getFeatureRomUuidAsString :: "axlf \<Rightarrow> string" where
  "getFeatureRomUuidAsString x = binaryBufferToHexString (fixed 16 (rom_uuid (m_header x)))"

definition getPlatformVbnvAsString :: "axlf \<Rightarrow> string" where
  "getPlatformVbnvAsString x = c_str (m_platformVBNV (m_header x))"

definition getXclBinUuidAsString :: "axlf \<Rightarrow> string" where
  "getXclBinUuidAsString x = binaryBufferToHexString (fixed 16 (uuid (m_header x)))"

definition getDebugBinAsString :: "axlf \<Rightarrow> string" where
  "getDebugBinAsString x = c_str (m_debug_bin (m_header x))"

text \<open>\<^verbatim>\<open>XclBin::addHeaderMirrorData\<close>. Each value goes in through \<^verbatim>\<open>c_str()\<close>.\<close>

definition addHeaderMirrorData :: "axlf \<Rightarrow> ptree \<Rightarrow> ptree" where
  "addHeaderMirrorData x pt_header =
     (pt_put ''DebugBin'' (c_str (getDebugBinAsString x))
     (pt_put ''XclBinUUID'' (c_str (getXclBinUuidAsString x))
     (pt_put ''PlatformVBNV'' (c_str (getPlatformVbnvAsString x))
     (pt_put ''FeatureRomUUID'' (c_str (getFeatureRomUuidAsString x))
     (pt_put ''Mode'' (c_str (getModeAsString x))
     (pt_put ''Version'' (c_str (getVersionAsString x))
     (pt_put ''FeatureRomTimeStamp'' (c_str (getFeatureRomTimeStampAsString x))
     (pt_put ''TimeStamp'' (c_str (getTimeStampAsString x))
     (pt_put ''UniqueID'' (c_str (getUniqueIdAsString x))
     (pt_put ''KeyBlock'' (c_str (getKeyBlockAsString x))
     (pt_put ''SignatureLength'' (c_str (getSignatureLengthAsString x))
     (pt_put ''Magic'' (c_str (getMagicAsString x)) pt_header))))))))))))"

text \<open>\<^verbatim>\<open>XclBin::addPTreeSchemaVersion\<close>; the numbers are printed with \<^verbatim>\<open>%d\<close>.\<close>

definition addPTreeSchemaVersion :: "ptree \<Rightarrow> SchemaVersion \<Rightarrow> ptree" where
  "addPTreeSchemaVersion pt schemaVersion =
     pt_add_child ''schema_version''
       (pt_put ''patch'' (format_d (sint (patch schemaVersion)))
       (pt_put ''minor'' (format_d (sint (minor schemaVersion)))
       (pt_put ''major'' (format_d (sint (major schemaVersion))) pt_empty))) pt"

subsection \<open>Writing the container\<close>

text \<open>\<^verbatim>\<open>XclBin::writeXclBinBinaryHeader\<close>: the header without its array of section
  headers, and the header's entry of the mirror.\<close>

definition writeXclBinBinaryHeader :: "XclBin \<Rightarrow> fstream \<Rightarrow> ptree \<Rightarrow> fstream \<times> ptree" where
  "writeXclBinBinaryHeader xb ostream mirroredData =
     (stream_write
        (take (sizeof_axlf - sizeof_axlf_section_header) (axlf_bytes (m_xclBinHeader xb))) ostream,
      pt_add_child ''header'' (addHeaderMirrorData (m_xclBinHeader xb) pt_empty) mirroredData)"

text \<open>The first loop of \<^verbatim>\<open>writeXclBinBinarySections\<close>: sizes and offsets of the table
  entries, in 64-bit arithmetic.\<close>

fun populate_section_headers :: "64 word \<Rightarrow> Section list \<Rightarrow> axlf_section_header list" where
  "populate_section_headers currentOffset [] = []"
| "populate_section_headers currentOffset (s # ss) =
     (let aligned = currentOffset + word_of_nat (bytesToAlign (unat currentOffset));
          sh = (initXclBinSectionHeader s) \<lparr> m_sectionOffset := aligned \<rparr>
      in sh # populate_section_headers (aligned + m_sectionSize sh) ss)"

text \<open>The mirror entry of one section.\<close>

definition section_mirror :: "Section_class \<Rightarrow> Section \<Rightarrow> axlf_section_header \<Rightarrow> xcl_error + ptree" where
  "section_mirror K s sh =
     (let pt_sectionHeader =
            pt_put ''Size'' (''0x'' @ format_x (unat (m_sectionSize sh)))
           (pt_put ''Offset'' (''0x'' @ format_x (unat (m_sectionOffset sh)))
           (pt_put ''Name'' (c_str (m_sectionName sh))
           (pt_put ''Kind'' (format_d (sint (m_sectionKind sh))) pt_empty)))
      in case (if doesSupportAddFormatType K (m_eKind s) FT_JSON \<and>
                  doesSupportDumpFormatType K (m_eKind s) FT_JSON
               then getPayload K s else Inr pt_empty) of
           Inl e \<Rightarrow> Inl e
         | Inr pt_Payload \<Rightarrow>
             Inr (if length (pt_children pt_Payload) \<noteq> 0
                  then pt_add_child ''payload'' pt_Payload pt_sectionHeader
                  else pt_sectionHeader))"

text \<open>The second loop: padding, the check of the position against the table entry (the
  position is held in an \<^verbatim>\<open>unsigned int\<close>), the payload, the mirror entry.\<close>

fun write_sections ::
  "Section_class \<Rightarrow> (Section \<times> axlf_section_header) list \<Rightarrow> fstream \<Rightarrow> ptree \<Rightarrow>
   xcl_error + (fstream \<times> ptree)" where
  "write_sections K [] ostream mirroredData = Inr (ostream, mirroredData)"
| "write_sections K ((s, sh) # rest) ostream mirroredData =
     (let runningOffset = pos ostream mod 2 ^ 32;
          bytePadding = bytesToAlign runningOffset;
          ostream1 = (if bytePadding \<noteq> 0
                      then stream_write (replicate bytePadding (CHR 0x00)) ostream
                      else ostream);
          runningOffset1 = (runningOffset + bytePadding) mod 2 ^ 32
      in if runningOffset1 \<noteq> unat (m_sectionOffset sh)
         then Inl (runtime_error
                (''ERROR: Expected offset (0x'' @ format_x (unat (m_sectionOffset sh)) @
                 '') does not match actual (0x'' @ format_x runningOffset1 @ '')''))
         else
           (let ostream2 = writeXclBinSectionBuffer s ostream1 in
            case section_mirror K s sh of
              Inl e \<Rightarrow> Inl e
            | Inr pt_sectionHeader \<Rightarrow>
                write_sections K rest ostream2
                  (pt_add_child ''section_header'' pt_sectionHeader mirroredData)))"

text \<open>\<^verbatim>\<open>XclBin::writeXclBinBinarySections\<close>.\<close>

definition section_headers_of :: "XclBin \<Rightarrow> axlf_section_header list" where
  "section_headers_of xb =
     populate_section_headers
       (word_of_nat (sizeof_axlf - sizeof_axlf_section_header +
                     sizeof_axlf_section_header * length (m_sections xb)))
       (m_sections xb)"

definition writeXclBinBinarySections ::
  "Section_class \<Rightarrow> XclBin \<Rightarrow> fstream \<Rightarrow> ptree \<Rightarrow> xcl_error + (fstream \<times> ptree)" where
  "writeXclBinBinarySections K xb ostream mirroredData =
     (if m_sections xb = [] then Inr (ostream, mirroredData)
      else
        (let sectionHeader = section_headers_of xb;
             ostream1 = stream_write (concat (map section_header_bytes sectionHeader)) ostream
         in write_sections K (zip (m_sections xb) sectionHeader) ostream1 mirroredData))"

definition MIRROR_DATA_START :: string where
  "MIRROR_DATA_START = ''XCLBIN_MIRROR_DATA_START''"

definition MIRROR_DATA_END :: string where
  "MIRROR_DATA_END = ''XCLBIN_MIRROR_DATA_END''"

text \<open>\<^verbatim>\<open>boost::property_tree::write_json(stream, pt, pretty)\<close>: the text and a line end; a
  tree that JSON cannot hold is an error.\<close>

definition write_json :: "bool \<Rightarrow> ptree \<Rightarrow> xcl_error + string" where
  "write_json pretty pt =
     (if \<not> verify_json 0 pt
      then Inl (json_parser_error ''ptree contains data that cannot be represented in JSON format'' 0)
      else Inr (write_json_helper pretty 0 pt @ [CHR 0x0A]))"

text \<open>\<^verbatim>\<open>XclBin::writeXclBinBinaryMirrorData\<close>.\<close>

definition writeXclBinBinaryMirrorData :: "fstream \<Rightarrow> ptree \<Rightarrow> xcl_error + fstream" where
  "writeXclBinBinaryMirrorData ostream mirroredData =
     (case write_json False mirroredData of
        Inl e \<Rightarrow> Inl e
      | Inr text \<Rightarrow>
          Inr (stream_write MIRROR_DATA_END
                (stream_write text (stream_write MIRROR_DATA_START ostream))))"

text \<open>\<^verbatim>\<open>XclBin::updateUUID\<close>: the two 64-bit values of the random generator, each printed as
  16 hex digits, make the 16 bytes of the UUID.\<close>

definition hex16 :: "64 word \<Rightarrow> string" where
  "hex16 r = (let s = format_x (unat r) in replicate (16 - length s) (CHR ''0'') @ s)"

definition set_uuid :: "bytes \<Rightarrow> axlf \<Rightarrow> axlf" where
  "set_uuid u x = x \<lparr> m_header := (m_header x) \<lparr> uuid := u \<rparr> \<rparr>"

definition updateUUID :: "64 word \<times> 64 word \<Rightarrow> XclBin \<Rightarrow> xcl_error + XclBin" where
  "updateUUID rnd xb =
     (case hexStringToBinaryBuffer (hex16 (fst rnd) @ hex16 (snd rnd)) 16 of
        Inl e \<Rightarrow> Inl e
      | Inr u \<Rightarrow> Inr (xb \<lparr> m_xclBinHeader := set_uuid u (m_xclBinHeader xb) \<rparr>))"

definition set_length :: "64 word \<Rightarrow> axlf \<Rightarrow> axlf" where
  "set_length n x = x \<lparr> m_header := (m_header x) \<lparr> m_length := n \<rparr> \<rparr>"

text \<open>\<^verbatim>\<open>XclBin::writeXclBinBinary\<close>. Whether the file opens is the environment's answer
  \<open>is_open\<close>; \<open>rnd\<close> are the values the random generator gives. The result is the
  container as the call leaves it and the bytes of the file.\<close>

definition writeXclBinBinary ::
  "Section_class \<Rightarrow> string \<Rightarrow> bool \<Rightarrow> bool \<Rightarrow> 64 word \<times> 64 word \<Rightarrow> XclBin \<Rightarrow>
   xcl_error + (XclBin \<times> bytes)" where
  "writeXclBinBinary K binaryFileName is_open bSkipUUIDInsertion rnd xb =
     (if binaryFileName = [] then Inl (runtime_error ''ERROR: Missing file name to write to.'')
      else if \<not> is_open
      then Inl (runtime_error (''ERROR: Unable to open the file for writing: '' @ binaryFileName))
      else
       (case (if bSkipUUIDInsertion then Inr xb else updateUUID rnd xb) of
          Inl e \<Rightarrow> Inl e
        | Inr xb1 \<Rightarrow>
       (let mirroredData = addPTreeSchemaVersion pt_empty (m_SchemaVersionMirrorWrite xb1);
            hw = writeXclBinBinaryHeader xb1 \<lparr> buf = [], pos = 0 \<rparr> mirroredData
        in case writeXclBinBinarySections K xb1 (fst hw) (snd hw) of
             Inl e \<Rightarrow> Inl e
           | Inr sw \<Rightarrow>
          (case writeXclBinBinaryMirrorData (fst sw) (snd sw) of
             Inl e \<Rightarrow> Inl e
           | Inr ofXclBin \<Rightarrow>
               (let streamSize = length (buf ofXclBin);
                    xb2 = xb1 \<lparr> m_xclBinHeader :=
                                  set_length (word_of_nat streamSize) (m_xclBinHeader xb1) \<rparr>;
                    hw2 = writeXclBinBinaryHeader xb2 (ofXclBin \<lparr> pos := 0 \<rparr>) pt_empty
                in Inr (xb2, buf (fst hw2)))))))"

subsection \<open>Reading the container\<close>

text \<open>\<^verbatim>\<open>XclBin::readXclBinBinaryHeader\<close>: \<^verbatim>\<open>sizeof(axlf)\<close> bytes from the start of the file,
  then the check of the magic.\<close>

definition readXclBinBinaryHeader :: "bytes \<Rightarrow> xcl_error + axlf" where
  "readXclBinBinaryHeader file =
     (let bs = stream_read file 0 sizeof_axlf in
      if length bs \<noteq> sizeof_axlf
      then Inl (runtime_error ''ERROR: Input stream is smaller than the expected header size.'')
      else
        (let x = axlf_of_bytes bs in
         if getMagicAsString x \<noteq> ''xclbin2''
         then Inl (runtime_error ''ERROR: The XCLBIN appears to be corrupted (header start key value is not what is expected).'')
         else Inr x))"

text \<open>The loop of \<^verbatim>\<open>XclBin::readXclBinBinarySections\<close> over the indices of the table.\<close>

fun read_sections :: "Section_class \<Rightarrow> bytes \<Rightarrow> nat list \<Rightarrow> XclBin \<Rightarrow> xcl_error + XclBin" where
  "read_sections K file [] xb = Inr xb"
| "read_sections K file (index # rest) xb =
     (let sectionOffset = sizeof_axlf + index * sizeof_axlf_section_header - sizeof_axlf_section_header;
          bs = stream_read file sectionOffset sizeof_axlf_section_header
      in if length bs \<noteq> sizeof_axlf_section_header
         then Inl (runtime_error ''ERROR: Input stream is smaller than the expected section header size.'')
         else
           (let sectionHeader = section_header_of_bytes bs in
            case createSectionObjectOfKind K (m_sectionKind sectionHeader) [] of
              None \<Rightarrow> read_sections K file rest xb
            | Some pSection \<Rightarrow>
                (case Section_readXclBinBinary file sectionHeader pSection of
                   Inl e \<Rightarrow> Inl e
                 | Inr s \<Rightarrow> read_sections K file rest (addSection (Some s) xb))))"

definition readXclBinBinarySections :: "Section_class \<Rightarrow> bytes \<Rightarrow> XclBin \<Rightarrow> xcl_error + XclBin" where
  "readXclBinBinarySections K file xb =
     (let numberOfSections = unat (m_numSections (m_header (m_xclBinHeader xb)))
      in read_sections K file [0 ..< numberOfSections] xb)"

subsection \<open>Reading the container from its mirror\<close>

text \<open>Modelled from the spec: \<^verbatim>\<open>XUtil::findBytesInStream(stream, searchString, foundOffset)\<close>
  is not part of the sources at hand; it scans the stream byte by byte from its position
  for the sentinel and gives the number of bytes before the first occurrence.\<close>

fun find_bytes :: "bytes \<Rightarrow> string \<Rightarrow> nat option" where
  "find_bytes [] searchString = (if searchString = [] then Some 0 else None)"
| "find_bytes (c # cs) searchString =
     (if take (length searchString) (c # cs) = searchString then Some 0
      else map_option Suc (find_bytes cs searchString))"

definition findBytesInStream :: "bytes \<Rightarrow> nat \<Rightarrow> string \<Rightarrow> nat option" where
  "findBytesInStream file position searchString = find_bytes (drop position file) searchString"

text \<open>\<^verbatim>\<open>XclBin::findAndReadMirrorData\<close>.\<close>

definition findAndReadMirrorData :: "bytes \<Rightarrow> xcl_error + ptree" where
  "findAndReadMirrorData file =
     (case findBytesInStream file 0 MIRROR_DATA_START of
        None \<Rightarrow>
          Inl (runtime_error
            (''ERROR: Mirror backup data not found in given file.'' @ [CHR 0x0A] @
             ''       The given archive image does not contain any metadata to'' @ [CHR 0x0A] @
             ''       migrate the data image to the current format.'' @ [CHR 0x0A] @
             ''       The lack of metadata is usually the result of attempting'' @ [CHR 0x0A] @
             ''       to migrate a pre-2018.3 archive.''))
      | Some found \<Rightarrow>
          (let startOffset = (found mod 2 ^ 32 + length MIRROR_DATA_START) mod 2 ^ 32 in
           case findBytesInStream file startOffset MIRROR_DATA_END of
             None \<Rightarrow> Inl (runtime_error ''ERROR: Mirror backup data not well formed in given file.'')
           | Some bufferSize \<Rightarrow>
               (let memBuffer = stream_read file startOffset (bufferSize mod 2 ^ 32) in
                case read_json memBuffer of
                  Inl (json_parser_error msg line) \<Rightarrow>
                    Inl (runtime_error
                      (''ERROR: Parsing mirror metadata in the xclbin archive on line '' @
                       format_u line @ '': '' @ msg))
                | Inl e \<Rightarrow> Inl e
                | Inr mirrorData \<Rightarrow> Inr mirrorData)))"

text \<open>\<^verbatim>\<open>XclBin::readXclBinHeader\<close>: the header is cleared and the mirrored fields are decoded
  one after the other; the first failure ends the call.\<close>

definition bind :: "xcl_error + 'a \<Rightarrow> ('a \<Rightarrow> xcl_error + 'b) \<Rightarrow> xcl_error + 'b" where
  "bind r f = (case r of Inl e \<Rightarrow> Inl e | Inr v \<Rightarrow> f v)"

definition readXclBinHeader :: "ptree \<Rightarrow> xcl_error + axlf" where
  "readXclBinHeader ptHeader =
     bind (pt_get ''Magic'' ptHeader) (\<lambda>sMagic.
     bind (pt_get ''KeyBlock'' ptHeader) (\<lambda>sKeyBlock.
     bind (hexStringToBinaryBuffer sKeyBlock 256) (\<lambda>keyBlock.
     bind (pt_get ''UniqueID'' ptHeader) (\<lambda>sUniqueID.
     bind (stringToUInt64 sUniqueID True) (\<lambda>uniqueId.
     bind (pt_get ''TimeStamp'' ptHeader) (\<lambda>sTimeStamp.
     bind (stringToUInt64 sTimeStamp False) (\<lambda>timeStamp.
     bind (pt_get ''FeatureRomTimeStamp'' ptHeader) (\<lambda>sFeatureRomTimeStamp.
     bind (stringToUInt64 sFeatureRomTimeStamp False) (\<lambda>featureRomTimeStamp.
     bind (pt_get ''Version'' ptHeader) (\<lambda>sVersion.
     bind (getVersionMajorMinorPath (c_str sVersion) 0 0 0) (\<lambda>(ok, vmajor, vminor, vpatch).
     bind (pt_get_uint 16 ''Mode'' ptHeader) (\<lambda>mode.
     bind (pt_get ''FeatureRomUUID'' ptHeader) (\<lambda>sFeatureRomUUID.
     bind (hexStringToBinaryBuffer sFeatureRomUUID 16) (\<lambda>romUuid.
     bind (pt_get ''PlatformVBNV'' ptHeader) (\<lambda>sPlatformVBNV.
     bind (pt_get ''XclBinUUID'' ptHeader) (\<lambda>sXclBinUUID.
     bind (hexStringToBinaryBuffer sXclBinUUID 16) (\<lambda>xclBinUuid.
     bind (pt_get ''DebugBin'' ptHeader) (\<lambda>sDebugBin.
       Inr (zero_axlf
              \<lparr> m_magic := safeStringCopy sMagic 8,
                m_signature_length :=
                  word_of_int (pt_get_int_default (- (2 ^ 31)) (2 ^ 31 - 1) ''SignatureLength'' (- 1) ptHeader),
                m_keyBlock := keyBlock,
                m_uniqueId := uniqueId,
                m_header := (m_header zero_axlf)
                  \<lparr> m_timeStamp := timeStamp,
                    m_featureRomTimeStamp := featureRomTimeStamp,
                    m_versionPatch := vpatch,
                    m_versionMajor := vmajor,
                    m_versionMinor := vminor,
                    m_mode := word_of_nat mode,
                    rom_uuid := romUuid,
                    m_platformVBNV := safeStringCopy sPlatformVBNV 64,
                    uuid := xclBinUuid,
                    m_debug_bin := safeStringCopy sDebugBin 16 \<rparr> \<rparr>)))))))))))))))))))"

text \<open>Modelled from the spec: \<^verbatim>\<open>Section::readXclBinBinary(stream, ptSection)\<close> is not part
  of the sources at hand; the section takes its name from the mirror entry and re-reads
  its binary payload from the original stream at the recorded offset and size.\<close>

definition Section_readXclBinBinary_mirror ::
  "bytes \<Rightarrow> ptree \<Rightarrow> Section \<Rightarrow> xcl_error + Section" where
  "Section_readXclBinBinary_mirror file ptSection s =
     bind (pt_get ''Name'' ptSection) (\<lambda>name.
     bind (pt_get ''Size'' ptSection) (\<lambda>sSize.
     bind (stringToUInt64 sSize False) (\<lambda>imageSize.
     bind (pt_get ''Offset'' ptSection) (\<lambda>sOffset.
     bind (stringToUInt64 sOffset False) (\<lambda>offset.
       (let data = stream_read file (unat offset) (unat imageSize) in
        if length data \<noteq> unat imageSize
        then Inl (runtime_error ''ERROR: Input stream for the binary buffer is smaller then the expected size.'')
        else Inr (s \<lparr> m_name := name, m_pBuffer := data \<rparr>)))))))"

text \<open>\<^verbatim>\<open>XclBin::readXclBinSection\<close>. The section object is used without a check against
  the null pointer.\<close>

definition readXclBinSection :: "Section_class \<Rightarrow> bytes \<Rightarrow> ptree \<Rightarrow> XclBin \<Rightarrow> xcl_error + XclBin" where
  "readXclBinSection K file ptSection xb =
     bind (pt_get_uint 32 ''Kind'' ptSection) (\<lambda>eKind.
       case createSectionObjectOfKind K (word_of_nat eKind) [] of
         None \<Rightarrow> Inl null_dereference
       | Some pSection \<Rightarrow>
           bind (Section_readXclBinBinary_mirror file ptSection pSection) (\<lambda>s.
             Inr (addSection (Some s) xb)))"

text \<open>\<^verbatim>\<open>XclBin::readXclBinaryMirrorImage\<close>: the entries of the mirror in their order.\<close>

fun readXclBinaryMirrorImage ::
  "Section_class \<Rightarrow> bytes \<Rightarrow> (string \<times> ptree) list \<Rightarrow> XclBin \<Rightarrow> xcl_error + XclBin" where
  "readXclBinaryMirrorImage K file [] xb = Inr xb"
| "readXclBinaryMirrorImage K file ((key, entry) # rest) xb =
     (if key = ''schema_version'' then readXclBinaryMirrorImage K file rest xb
      else if key = ''header'' then
        bind (readXclBinHeader entry) (\<lambda>x.
          readXclBinaryMirrorImage K file rest (xb \<lparr> m_xclBinHeader := x \<rparr>))
      else if key = ''section_header'' then
        bind (readXclBinSection K file entry xb) (\<lambda>xb1.
          readXclBinaryMirrorImage K file rest xb1)
      else readXclBinaryMirrorImage K file rest xb)"

text \<open>\<^verbatim>\<open>XclBin::readXclBinBinary\<close>. The file the name opens is \<open>file\<close>, \<open>None\<close> when it
  does not open.\<close>

definition readXclBinBinary ::
  "Section_class \<Rightarrow> string \<Rightarrow> bytes option \<Rightarrow> bool \<Rightarrow> XclBin \<Rightarrow> xcl_error + XclBin" where
  "readXclBinBinary K binaryFileName file bMigrate xb =
     (if binaryFileName = [] then Inl (runtime_error ''ERROR: Missing file name to read from.'')
      else case file of
        None \<Rightarrow> Inl (runtime_error (''ERROR: Unable to open the file for reading: '' @ binaryFileName))
      | Some ifXclBin \<Rightarrow>
          if bMigrate then
            bind (findAndReadMirrorData ifXclBin) (\<lambda>pt_mirrorData.
              readXclBinaryMirrorImage K ifXclBin (pt_children pt_mirrorData) xb)
          else
            bind (readXclBinBinaryHeader ifXclBin) (\<lambda>x.
              readXclBinBinarySections K ifXclBin (xb \<lparr> m_xclBinHeader := x \<rparr>)))"

subsection \<open>The layout as the spec states it\<close>

text \<open>The size of a payload padded to a multiple of 8, and the spec's formula for the
  offset of payload \<open>i\<close>: the size of the header, the size of the table and the padded
  sizes of the payloads before it.\<close>

definition padded_size :: "nat \<Rightarrow> nat" where
  "padded_size n = n + bytesToAlign n"

definition spec_offset :: "Section list \<Rightarrow> nat \<Rightarrow> nat" where
  "spec_offset ss i =
     (sizeof_axlf - sizeof_axlf_section_header) + sizeof_axlf_section_header * length ss +
     sum_list (map (\<lambda>s. padded_size (length (m_pBuffer s))) (take i ss))"

text \<open>The offsets of the payloads written from position \<open>p\<close> on, and the bytes written.\<close>

fun offsets_from :: "nat \<Rightarrow> Section list \<Rightarrow> nat list" where
  "offsets_from p [] = []"
| "offsets_from p (s # ss) =
     (p + bytesToAlign p) # offsets_from (p + bytesToAlign p + length (m_pBuffer s)) ss"

fun payload_bytes :: "nat \<Rightarrow> Section list \<Rightarrow> bytes" where
  "payload_bytes p [] = []"
| "payload_bytes p (s # ss) =
     replicate (bytesToAlign p) (CHR 0x00) @ m_pBuffer s @
     payload_bytes (p + bytesToAlign p + length (m_pBuffer s)) ss"

text \<open>The output stream as \<^verbatim>\<open>writeXclBinBinary\<close> hands it to \<^verbatim>\<open>writeXclBinBinarySections\<close>:
  a new file with the header written.\<close>

definition header_written :: "XclBin \<Rightarrow> fstream" where
  "header_written xb = fst (writeXclBinBinaryHeader xb \<lparr> buf = [], pos = 0 \<rparr> pt_empty)"

text \<open>The mirror before the sections are written, and the mirror the write accumulates:
  schema version, header, and the entry of each section in order.\<close>

definition first_mirror :: "XclBin \<Rightarrow> ptree" where
  "first_mirror xb =
     pt_add_child ''header'' (addHeaderMirrorData (m_xclBinHeader xb) pt_empty)
       (addPTreeSchemaVersion pt_empty (m_SchemaVersionMirrorWrite xb))"

definition written_mirror :: "Section_class \<Rightarrow> XclBin \<Rightarrow> ptree" where
  "written_mirror K xb =
     PTree [] (pt_children (first_mirror xb) @
               map (\<lambda>z. (''section_header'', projr (section_mirror K (fst z) (snd z))))
                   (zip (m_sections xb) (section_headers_of xb)))"

subsection \<open>A concrete instance\<close>

text \<open>Modelled from the spec: the enumerators of \<^verbatim>\<open>enum axlf_section_kind\<close> (\<^verbatim>\<open>xclbin.h\<close>)
  are not part of the sources at hand; the spec names the kinds.\<close>

definition BITSTREAM :: "32 word" where "BITSTREAM = 0"
definition DEBUG_DATA :: "32 word" where "DEBUG_DATA = 4"
definition MEM_TOPOLOGY :: "32 word" where "MEM_TOPOLOGY = 6"
definition KEYVALUE_METADATA :: "32 word" where "KEYVALUE_METADATA = 15"
definition SOFT_KERNEL :: "32 word" where "SOFT_KERNEL = 23"

text \<open>A small table of section kinds to run the model on: four kinds with a
  constructor, of which only \<^verbatim>\<open>SOFT_KERNEL\<close> takes an index.\<close>

definition small_class :: Section_class where
  "small_class =
     \<lparr> hasCtor = (\<lambda>k. k \<in> set [BITSTREAM, DEBUG_DATA, MEM_TOPOLOGY, SOFT_KERNEL]),
       translateSectionKindStrToKind =
         (\<lambda>s. if s = ''BITSTREAM'' then Inr BITSTREAM
              else if s = ''DEBUG_DATA'' then Inr DEBUG_DATA
              else if s = ''MEM_TOPOLOGY'' then Inr MEM_TOPOLOGY
              else if s = ''SOFT_KERNEL'' then Inr SOFT_KERNEL
              else Inl (runtime_error
                     (''ERROR: Section '' @ [CHR 0x27] @ s @ [CHR 0x27] @
                      '' isn'' @ [CHR 0x27] @ ''t a valid section name.''))),
       supportsSectionIndex = (\<lambda>k. k = SOFT_KERNEL),
       doesSupportAddFormatType = (\<lambda>k f. f = FT_RAW),
       doesSupportDumpFormatType = (\<lambda>k f. f = FT_RAW),
       marshalToJSON = (\<lambda>k b. Inr pt_empty) \<rparr>"

text \<open>\<^verbatim>\<open>XclBin::initializeHeader\<close>. The two calls of \<^verbatim>\<open>time(nullptr)\<close> and the generated
  \<^verbatim>\<open>xrt_build_version\<close> are parameters; the \<^verbatim>\<open>bool\<close> of the version parser is not looked
  at.\<close>

definition initializeHeader :: "64 word \<Rightarrow> 64 word \<Rightarrow> string \<Rightarrow> xcl_error + axlf" where
  "initializeHeader now1 now2 xrt_build_version =
     (let x = zero_axlf
                \<lparr> m_magic := safeStringCopy ''xclbin2'' 8,
                  m_signature_length := - 1,
                  reserved := replicate 28 (CHR 0xFF),
                  m_keyBlock := replicate 256 (CHR 0xFF),
                  m_uniqueId := now1 \<rparr>;
          h = (m_header x) \<lparr> m_timeStamp := now2 \<rparr>
      in case getVersionMajorMinorPath xrt_build_version
                (m_versionMajor h) (m_versionMinor h) (m_versionPatch h) of
           Inl e \<Rightarrow> Inl e
         | Inr (ok, vmajor, vminor, vpatch) \<Rightarrow>
             Inr (x \<lparr> m_header := h \<lparr> m_versionMajor := vmajor, m_versionMinor := vminor,
                                     m_versionPatch := vpatch \<rparr> \<rparr>))"

text \<open>The constructor \<^verbatim>\<open>XclBin::XclBin()\<close>.\<close>

definition XclBin_new :: "64 word \<Rightarrow> 64 word \<Rightarrow> string \<Rightarrow> xcl_error + XclBin" where
  "XclBin_new now1 now2 xrt_build_version =
     (case initializeHeader now1 now2 xrt_build_version of
        Inl e \<Rightarrow> Inl e
      | Inr x \<Rightarrow> Inr \<lparr> m_xclBinHeader = x, m_sections = [],
                       m_SchemaVersionMirrorWrite = \<lparr> major = 1, minor = 0, patch = 0 \<rparr> \<rparr>)"

text \<open>A container of three sections, the last one indexed.\<close>

definition small_xclbin :: XclBin where
  "small_xclbin =
     \<lparr> m_xclBinHeader = set_numSections 3 (zero_axlf \<lparr> m_magic := safeStringCopy ''xclbin2'' 8 \<rparr>),
       m_sections =
         [ \<lparr> m_eKind = BITSTREAM, m_sIndexName = [], m_name = ''bits'', m_pBuffer = ''abcde'' \<rparr>,
           \<lparr> m_eKind = DEBUG_DATA, m_sIndexName = [], m_name = ''dbg'', m_pBuffer = [] \<rparr>,
           \<lparr> m_eKind = SOFT_KERNEL, m_sIndexName = ''k1'', m_name = ''kernel'', m_pBuffer = ''0123456789'' \<rparr> ],
       m_SchemaVersionMirrorWrite = \<lparr> major = 1, minor = 0, patch = 0 \<rparr> \<rparr>"

text \<open>A file whose header counts one section and whose one table entry is of a kind
  without a constructor.\<close>

definition unknown_kind_header :: axlf where
  "unknown_kind_header =
     (set_numSections 1 (zero_axlf \<lparr> m_magic := safeStringCopy ''xclbin2'' 8 \<rparr>))
       \<lparr> m_sections_1 :=
           \<lparr> m_sectionKind = 99, m_sectionName = safeStringCopy ''x'' 16,
             m_sectionOffset = 496, m_sectionSize = 4 \<rparr> \<rparr>"

definition unknown_kind_file :: bytes where
  "unknown_kind_file = axlf_bytes unknown_kind_header @ ''data''"

definition empty_xclbin :: XclBin where
  "empty_xclbin =
     \<lparr> m_xclBinHeader = zero_axlf \<lparr> m_magic := safeStringCopy ''xclbin2'' 8 \<rparr>,
       m_sections = [],
       m_SchemaVersionMirrorWrite = \<lparr> major = 1, minor = 0, patch = 0 \<rparr> \<rparr>"

subsection \<open>Occurrences of a byte sequence\<close>








section \<open>Properties\<close>

subsection \<open>The version string parser\<close>

lemma boost_split_no_delim:
  "set s \<inter> set ds = {} \<Longrightarrow> boost_split ds tok s = [rev tok @ s]"
  by (induction s arbitrary: tok) auto

lemma boost_split_delim:
  "set a \<inter> set ds = {} \<Longrightarrow> d \<in> set ds \<Longrightarrow>
   boost_split ds tok (a @ d # rest) = (rev tok @ a) # boost_split ds [] rest"
  by (induction a arbitrary: tok) auto

lemma length_boost_split:
  "length (boost_split ds tok s) = Suc (length (filter (\<lambda>c. c \<in> set ds) s))"
  by (induction s arbitrary: tok) auto

lemma count_list_as_filter: "count_list s d = length (filter (\<lambda>c. c \<in> set [d]) s)"
  by (induction s) auto

text \<open>
  Claim C6. The parser of the header's version string accepts a text without a dot, read as
  one integer (the patch number, with major and minor set to 0), and a text of three
  dot-separated tokens, read as major, minor and patch. Any other number of tokens (any
  number of dots other than 0 or 2) makes it fail: it returns \<^verbatim>\<open>false\<close> and leaves the
  three outputs as they were.
\<close>

theorem getVersionMajorMinorPath_token_count:
  "(CHR ''.'' \<notin> set s \<and> stoi s = Inr p \<longrightarrow>
      getVersionMajorMinorPath s cur_major cur_minor cur_patch = Inr (True, 0, 0, word_of_int p))
   \<and> (CHR ''.'' \<notin> set t0 \<union> set t1 \<union> set t2 \<and>
        stoi t0 = Inr a \<and> stoi t1 = Inr b \<and> stoi t2 = Inr c \<longrightarrow>
      getVersionMajorMinorPath (t0 @ ''.'' @ t1 @ ''.'' @ t2) cur_major cur_minor cur_patch =
        Inr (True, word_of_int a, word_of_int b, word_of_int c))
   \<and> (count_list s CHR ''.'' \<noteq> 0 \<and> count_list s CHR ''.'' \<noteq> 2 \<longrightarrow>
      getVersionMajorMinorPath s cur_major cur_minor cur_patch = Inr (False, cur_major, cur_minor, cur_patch))"
proof (intro conjI impI)
  assume "CHR ''.'' \<notin> set s \<and> stoi s = Inr p"
  then show "getVersionMajorMinorPath s cur_major cur_minor cur_patch = Inr (True, 0, 0, word_of_int p)"
    by (simp add: getVersionMajorMinorPath_def boost_split_no_delim)
next
  assume h: "CHR ''.'' \<notin> set t0 \<union> set t1 \<union> set t2 \<and>
        stoi t0 = Inr a \<and> stoi t1 = Inr b \<and> stoi t2 = Inr c"
  then have "boost_split ''.'' [] (t0 @ ''.'' @ t1 @ ''.'' @ t2) = [t0, t1, t2]"
    by (simp add: boost_split_delim boost_split_no_delim)
  with h show "getVersionMajorMinorPath (t0 @ ''.'' @ t1 @ ''.'' @ t2) cur_major cur_minor cur_patch =
        Inr (True, word_of_int a, word_of_int b, word_of_int c)"
    by (simp add: getVersionMajorMinorPath_def)
next
  assume h: "count_list s CHR ''.'' \<noteq> 0 \<and> count_list s CHR ''.'' \<noteq> 2"
  have "length (boost_split ''.'' [] s) = Suc (count_list s CHR ''.'')"
    by (simp only: length_boost_split count_list_as_filter)
  with h show "getVersionMajorMinorPath s cur_major cur_minor cur_patch = Inr (False, cur_major, cur_minor, cur_patch)"
    by (simp add: getVersionMajorMinorPath_def)
qed

theorem getVersionMajorMinorPath_token_count_witness:
  "getVersionMajorMinorPath ''634'' 9 9 9 = Inr (True, 0, 0, 634)
   \<and> getVersionMajorMinorPath (''2'' @ ''.'' @ ''11'' @ ''.'' @ ''634'') 9 9 9 = Inr (True, 2, 11, 634)
   \<and> getVersionMajorMinorPath ''2.11'' 9 9 9 = Inr (False, 9, 9, 9)"
proof -
  have s1: "stoi ''634'' = Inr 634" and s2: "stoi ''2'' = Inr 2" and s3: "stoi ''11'' = Inr 11"
    by (simp_all add: stoi_def isspace_def isdigit_def digits_value_def)
  have a: "CHR ''.'' \<notin> set ''634'' \<and> stoi ''634'' = Inr 634"
    using s1 by simp
  have b: "CHR ''.'' \<notin> set ''2'' \<union> set ''11'' \<union> set ''634'' \<and>
        stoi ''2'' = Inr 2 \<and> stoi ''11'' = Inr 11 \<and> stoi ''634'' = Inr 634"
    using s1 s2 s3 by simp
  have c: "count_list ''2.11'' CHR ''.'' \<noteq> 0 \<and> count_list ''2.11'' CHR ''.'' \<noteq> 2"
    by simp
  note t1 = getVersionMajorMinorPath_token_count
    [where s = "''634''" and p = 634 and ?t0.0 = "''2''" and ?t1.0 = "''11''" and ?t2.0 = "''634''"
       and a = 2 and b = 11 and c = 634 and cur_major = 9 and cur_minor = 9 and cur_patch = 9]
  note t2 = getVersionMajorMinorPath_token_count
    [where s = "''2.11''" and cur_major = 9 and cur_minor = 9 and cur_patch = 9]
  from t1 a b have "getVersionMajorMinorPath ''634'' 9 9 9 = Inr (True, 0, 0, word_of_int 634)"
    and "getVersionMajorMinorPath (''2'' @ ''.'' @ ''11'' @ ''.'' @ ''634'') 9 9 9
          = Inr (True, word_of_int 2, word_of_int 11, word_of_int 634)"
    by blast+
  moreover from t2 c have "getVersionMajorMinorPath ''2.11'' 9 9 9 = Inr (False, 9, 9, 9)"
    by blast
  ultimately show ?thesis by simp
qed
subsection \<open>Object representations\<close>

lemma length_le_bytes [simp]: "length (le_bytes n v) = n"
  by (induction n arbitrary: v) auto

lemma le_value_le_bytes: "le_value (le_bytes n v) = v mod 256 ^ n"
proof (induction n arbitrary: v)
  case 0
  then show ?case by simp
next
  case (Suc n)
  have "v mod 256 + 256 * (v div 256 mod 256 ^ n) = v mod (256 * 256 ^ n)"
    by (simp add: mod_mult2_eq)
  with Suc show ?case by simp
qed

lemma word_of_le_bytes:
  "2 ^ LENGTH('a::len) = (256::nat) ^ n \<Longrightarrow> word_of_nat (le_value (le_bytes n (unat (w :: 'a word)))) = w"
proof -
  assume a: "2 ^ LENGTH('a::len) = (256::nat) ^ n"
  have "unat w < 2 ^ LENGTH('a)" by (rule unsigned_less)
  with a have "unat w mod 256 ^ n = unat w" by simp
  then show ?thesis by (simp add: le_value_le_bytes)
qed

lemma word64_le [simp]: "word_of_nat (le_value (le_bytes 8 (unat (w :: 64 word)))) = w"
  by (rule word_of_le_bytes) simp
lemma word32_le [simp]: "word_of_nat (le_value (le_bytes 4 (unat (w :: 32 word)))) = w"
  by (rule word_of_le_bytes) simp
lemma word16_le [simp]: "word_of_nat (le_value (le_bytes 2 (unat (w :: 16 word)))) = w"
  by (rule word_of_le_bytes) simp
lemma word8_le [simp]: "word_of_nat (le_value (le_bytes (Suc 0) (unat (w :: 8 word)))) = w"
  by (rule word_of_le_bytes) simp

lemma length_fixed [simp]: "length (fixed n bs) = n"
  by (simp add: fixed_def)

lemma fixed_id: "length bs = n \<Longrightarrow> fixed n bs = bs"
  by (simp add: fixed_def)

lemma field_skip: "length a \<le> off \<Longrightarrow> field off n (a @ b) = field (off - length a) n b"
  by (simp add: field_def)

lemma field_hit: "length a = n \<Longrightarrow> field 0 n (a @ b) = a"
  by (simp add: field_def)

lemma field_hit_end: "length a = n \<Longrightarrow> field 0 n a = a"
  by (simp add: field_def)

lemma length_section_header_bytes [simp]: "length (section_header_bytes sh) = 40"
  by (simp add: section_header_bytes_def)

lemma section_header_of_bytes_image:
  "wf_section_header sh \<Longrightarrow> section_header_of_bytes (section_header_bytes sh @ rest) = sh"
  by (simp add: section_header_of_bytes_def section_header_bytes_def wf_section_header_def
      field_skip field_hit fixed_id del: le_bytes.simps)

lemma length_axlf_header_bytes [simp]: "length (axlf_header_bytes h) = 152"
  by (simp add: axlf_header_bytes_def)

lemma axlf_header_of_bytes_image:
  "wf_axlf_header h \<Longrightarrow> axlf_header_of_bytes (axlf_header_bytes h @ rest) = h"
  by (simp add: axlf_header_of_bytes_def axlf_header_bytes_def wf_axlf_header_def
      field_skip field_hit fixed_id del: le_bytes.simps)

lemma length_axlf_bytes [simp]: "length (axlf_bytes x) = 496"
  by (simp add: axlf_bytes_def)


lemma field_whole: "length a = n \<Longrightarrow> field 0 n (a @ b) = a"
  by (simp add: field_def)

lemma axlf_of_bytes_image:
  assumes "wf_axlf x"
  shows "axlf_of_bytes (axlf_bytes x @ rest) = x"
proof -
  have h: "field 304 152 (axlf_bytes x @ rest) = axlf_header_bytes (m_header x)"
    by (simp add: axlf_bytes_def field_skip field_hit del: le_bytes.simps)
  have s: "field 456 40 (axlf_bytes x @ rest) = section_header_bytes (m_sections_1 x)"
    by (simp add: axlf_bytes_def field_skip field_hit del: le_bytes.simps)
  have h': "axlf_header_of_bytes (axlf_header_bytes (m_header x)) = m_header x"
    using axlf_header_of_bytes_image [of "m_header x" "[]"] assms by (simp add: wf_axlf_def)
  have s': "section_header_of_bytes (section_header_bytes (m_sections_1 x)) = m_sections_1 x"
    using section_header_of_bytes_image [of "m_sections_1 x" "[]"] assms by (simp add: wf_axlf_def)
  show ?thesis
    unfolding axlf_of_bytes_def h s h' s'
    using assms
    by (simp add: axlf_bytes_def wf_axlf_def field_skip field_hit fixed_id del: le_bytes.simps)
qed

subsection \<open>Removing a section by name\<close>

lemma find_first_of_none:
  "set s \<inter> set ds = {} \<Longrightarrow> find_first_of s ds = None"
  by (induction s) auto

lemma find_first_of_some:
  "set a \<inter> set ds = {} \<Longrightarrow> d \<in> set ds \<Longrightarrow> find_first_of (a @ d # r) ds = Some (length a)"
  by (induction a) auto

lemma findSection_from_none:
  "\<forall>s \<in> set ss. \<not> (m_eKind s = k \<and> m_sIndexName s = x) \<Longrightarrow> findSection_from i ss k x = None"
  by (induction ss arbitrary: i) auto

lemma findSection_from_first:
  "\<forall>s \<in> set pre. \<not> (m_eKind s = k \<and> m_sIndexName s = x) \<Longrightarrow>
   m_eKind sec = k \<Longrightarrow> m_sIndexName sec = x \<Longrightarrow>
   findSection_from i (pre @ sec # post) k x = Some (i + length pre)"
  by (induction pre arbitrary: i) auto

lemma parse_plain:
  "CHR ''['' \<notin> set name \<Longrightarrow> find_first_of name ''['' = None"
  by (rule find_first_of_none) simp

lemma parse_indexed:
  "CHR ''['' \<notin> set name \<Longrightarrow> find_first_of (name @ ''['' @ x @ '']'') ''['' = Some (length name)"
  using find_first_of_some [of name "''[''" "CHR ''[''" "x @ '']''"] by simp

text \<open>
  Claim C7. Removing a section by its name string: an optional \<^verbatim>\<open>Name[Index]\<close> suffix is
  parsed; a name with an opening bracket that does not end in a closing bracket fails
  with the format error; an index on a kind that does not take one, and no index on a
  kind that needs one, fail with the index errors; otherwise the first section of that
  kind and index name is removed and the section count updated, and when there is no
  such section the operation fails with the missing-section exception.
\<close>

theorem removeSection_by_name:
  "(find_first_of s ''['' \<noteq> None \<and> last s \<noteq> CHR '']'' \<longrightarrow>
      removeSection K s xb = Inl (runtime_error
        (''Error: Expected format <section>[<section_index>] when using a section index.  Received: ''
         @ s @ ''.'')))
   \<and> (CHR ''['' \<notin> set name \<and> x \<noteq> [] \<and> translateSectionKindStrToKind K name = Inr k \<and>
        \<not> supportsSectionIndex K k \<longrightarrow>
      removeSection K (name @ ''['' @ x @ '']'') xb = Inl (runtime_error
        (''ERROR: Section '' @ [CHR 0x27] @ name @ [CHR 0x27] @
         '' cannot be deleted with index values (not supported).'')))
   \<and> (CHR ''['' \<notin> set name \<and> translateSectionKindStrToKind K name = Inr k \<and>
        supportsSectionIndex K k \<longrightarrow>
      removeSection K name xb = Inl (runtime_error
        (''ERROR: Section '' @ [CHR 0x27] @ name @ [CHR 0x27] @
         '' can only be deleted with indexes.'')))
   \<and> (CHR ''['' \<notin> set name \<and> translateSectionKindStrToKind K name = Inr k \<and>
        (supportsSectionIndex K k \<longleftrightarrow> x \<noteq> []) \<and>
        req = (if x = [] then name else name @ ''['' @ x @ '']'') \<longrightarrow>
        ((\<forall>sec \<in> set (m_sections xb). \<not> (m_eKind sec = k \<and> m_sIndexName sec = x)) \<longrightarrow>
           removeSection K req xb = Inl (XET_MISSING_SECTION
             (''ERROR: Section '' @ [CHR 0x27] @ req @ [CHR 0x27] @
              '' is not part of the xclbin archive.'')))
        \<and> (\<forall>pre sec post.
             m_sections xb = pre @ sec # post \<and> m_eKind sec = k \<and> m_sIndexName sec = x \<and>
             (\<forall>s' \<in> set pre. \<not> (m_eKind s' = k \<and> m_sIndexName s' = x)) \<longrightarrow>
             removeSection K req xb =
               Inr (xb \<lparr> m_sections := pre @ post,
                         m_xclBinHeader :=
                           set_numSections (word_of_nat (length (pre @ post))) (m_xclBinHeader xb) \<rparr>)))"
proof (intro conjI impI allI)
  assume "find_first_of s ''['' \<noteq> None \<and> last s \<noteq> CHR '']''"
  then show "removeSection K s xb = Inl (runtime_error
        (''Error: Expected format <section>[<section_index>] when using a section index.  Received: ''
         @ s @ ''.''))"
    by (auto simp: removeSection_def)
next
  assume h: "CHR ''['' \<notin> set name \<and> x \<noteq> [] \<and> translateSectionKindStrToKind K name = Inr k \<and>
        \<not> supportsSectionIndex K k"
  then show "removeSection K (name @ ''['' @ x @ '']'') xb = Inl (runtime_error
        (''ERROR: Section '' @ [CHR 0x27] @ name @ [CHR 0x27] @
         '' cannot be deleted with index values (not supported).''))"
    using parse_indexed [of name x]
    by (simp add: removeSection_def butlast_append)
next
  assume h: "CHR ''['' \<notin> set name \<and> translateSectionKindStrToKind K name = Inr k \<and>
        supportsSectionIndex K k"
  then show "removeSection K name xb = Inl (runtime_error
        (''ERROR: Section '' @ [CHR 0x27] @ name @ [CHR 0x27] @
         '' can only be deleted with indexes.''))"
    using parse_plain [of name]
    by (simp add: removeSection_def)
next
  assume h: "CHR ''['' \<notin> set name \<and> translateSectionKindStrToKind K name = Inr k \<and>
        (supportsSectionIndex K k \<longleftrightarrow> x \<noteq> []) \<and>
        req = (if x = [] then name else name @ ''['' @ x @ '']'')"
    and n: "\<forall>sec \<in> set (m_sections xb). \<not> (m_eKind sec = k \<and> m_sIndexName sec = x)"
  have "findSection xb k x = None"
    using n by (simp add: findSection_def findSection_from_none)
  with h show "removeSection K req xb = Inl (XET_MISSING_SECTION
             (''ERROR: Section '' @ [CHR 0x27] @ req @ [CHR 0x27] @
              '' is not part of the xclbin archive.''))"
    using parse_plain [of name] parse_indexed [of name x]
    by (cases "x = []") (simp_all add: removeSection_def butlast_append)
next
  fix pre sec post
  assume h: "CHR ''['' \<notin> set name \<and> translateSectionKindStrToKind K name = Inr k \<and>
        (supportsSectionIndex K k \<longleftrightarrow> x \<noteq> []) \<and>
        req = (if x = [] then name else name @ ''['' @ x @ '']'')"
    and m: "m_sections xb = pre @ sec # post \<and> m_eKind sec = k \<and> m_sIndexName sec = x \<and>
             (\<forall>s' \<in> set pre. \<not> (m_eKind s' = k \<and> m_sIndexName s' = x))"
  have "findSection xb k x = Some (length pre)"
    using m findSection_from_first [of pre k x sec 0 post] by (simp add: findSection_def)
  with h m show "removeSection K req xb =
               Inr (xb \<lparr> m_sections := pre @ post,
                         m_xclBinHeader :=
                           set_numSections (word_of_nat (length (pre @ post))) (m_xclBinHeader xb) \<rparr>)"
    using parse_plain [of name] parse_indexed [of name x]
    by (cases "x = []") (simp_all add: removeSection_def removeSection_ptr_def butlast_append)
qed

lemmas small_defs = small_class_def small_xclbin_def BITSTREAM_def DEBUG_DATA_def
  MEM_TOPOLOGY_def SOFT_KERNEL_def

theorem removeSection_by_name_witness:
  "removeSection small_class ''BITSTREAM[x'' small_xclbin = Inl (runtime_error
      (''Error: Expected format <section>[<section_index>] when using a section index.  Received: ''
       @ ''BITSTREAM[x'' @ ''.''))
   \<and> removeSection small_class (''BITSTREAM'' @ ''['' @ ''x'' @ '']'') small_xclbin = Inl (runtime_error
      (''ERROR: Section '' @ [CHR 0x27] @ ''BITSTREAM'' @ [CHR 0x27] @
       '' cannot be deleted with index values (not supported).''))
   \<and> removeSection small_class ''SOFT_KERNEL'' small_xclbin = Inl (runtime_error
      (''ERROR: Section '' @ [CHR 0x27] @ ''SOFT_KERNEL'' @ [CHR 0x27] @
       '' can only be deleted with indexes.''))
   \<and> removeSection small_class ''MEM_TOPOLOGY'' small_xclbin = Inl (XET_MISSING_SECTION
      (''ERROR: Section '' @ [CHR 0x27] @ ''MEM_TOPOLOGY'' @ [CHR 0x27] @
       '' is not part of the xclbin archive.''))
   \<and> removeSection small_class ''SOFT_KERNEL[k1]'' small_xclbin =
       Inr (small_xclbin \<lparr> m_sections := take 2 (m_sections small_xclbin),
              m_xclBinHeader := set_numSections 2 (m_xclBinHeader small_xclbin) \<rparr>)"
proof -
  note T = removeSection_by_name [where K = small_class and xb = small_xclbin]
  have h1: "find_first_of ''BITSTREAM[x'' ''['' \<noteq> None \<and> last ''BITSTREAM[x'' \<noteq> CHR '']''"
    by simp
  have h2: "CHR ''['' \<notin> set ''BITSTREAM'' \<and> ''x'' \<noteq> [] \<and>
        translateSectionKindStrToKind small_class ''BITSTREAM'' = Inr BITSTREAM \<and>
        \<not> supportsSectionIndex small_class BITSTREAM"
    by (simp add: small_defs)
  have h3: "CHR ''['' \<notin> set ''SOFT_KERNEL'' \<and>
        translateSectionKindStrToKind small_class ''SOFT_KERNEL'' = Inr SOFT_KERNEL \<and>
        supportsSectionIndex small_class SOFT_KERNEL"
    by (simp add: small_defs)
  have h4: "CHR ''['' \<notin> set ''MEM_TOPOLOGY'' \<and>
        translateSectionKindStrToKind small_class ''MEM_TOPOLOGY'' = Inr MEM_TOPOLOGY \<and>
        (supportsSectionIndex small_class MEM_TOPOLOGY \<longleftrightarrow> ([]::string) \<noteq> []) \<and>
        ''MEM_TOPOLOGY'' = (if ([]::string) = [] then ''MEM_TOPOLOGY'' else ''MEM_TOPOLOGY'' @ ''['' @ [] @ '']'')"
    by (simp add: small_defs)
  have h4a: "\<forall>sec \<in> set (m_sections small_xclbin). \<not> (m_eKind sec = MEM_TOPOLOGY \<and> m_sIndexName sec = [])"
    by (simp add: small_defs)
  have h5: "CHR ''['' \<notin> set ''SOFT_KERNEL'' \<and>
        translateSectionKindStrToKind small_class ''SOFT_KERNEL'' = Inr SOFT_KERNEL \<and>
        (supportsSectionIndex small_class SOFT_KERNEL \<longleftrightarrow> ''k1'' \<noteq> []) \<and>
        ''SOFT_KERNEL[k1]'' = (if ''k1'' = [] then ''SOFT_KERNEL'' else ''SOFT_KERNEL'' @ ''['' @ ''k1'' @ '']'')"
    by (simp add: small_defs)
  have h5a: "m_sections small_xclbin = take 2 (m_sections small_xclbin) @ (m_sections small_xclbin ! 2) # [] \<and>
      m_eKind (m_sections small_xclbin ! 2) = SOFT_KERNEL \<and> m_sIndexName (m_sections small_xclbin ! 2) = ''k1'' \<and>
      (\<forall>s' \<in> set (take 2 (m_sections small_xclbin)). \<not> (m_eKind s' = SOFT_KERNEL \<and> m_sIndexName s' = ''k1''))"
    by (simp add: small_defs)
  note a = T [where s = "''BITSTREAM[x''", THEN conjunct1, THEN mp, OF h1]
  note b = T [where name = "''BITSTREAM''" and x = "''x''" and k = BITSTREAM,
              THEN conjunct2, THEN conjunct1, THEN mp, OF h2]
  note c = T [where name = "''SOFT_KERNEL''" and k = SOFT_KERNEL,
              THEN conjunct2, THEN conjunct2, THEN conjunct1, THEN mp, OF h3]
  note d = T [where name = "''MEM_TOPOLOGY''" and k = MEM_TOPOLOGY and x = "[]"
                and req = "''MEM_TOPOLOGY''",
              THEN conjunct2, THEN conjunct2, THEN conjunct2, THEN mp, OF h4,
              THEN conjunct1, THEN mp, OF h4a]
  note e = T [where name = "''SOFT_KERNEL''" and k = SOFT_KERNEL and x = "''k1''"
                and req = "''SOFT_KERNEL[k1]''",
              THEN conjunct2, THEN conjunct2, THEN conjunct2, THEN mp, OF h5,
              THEN conjunct2, THEN spec, THEN spec, THEN spec, THEN mp, OF h5a]
  have l: "take 2 (m_sections small_xclbin) @ [] = take 2 (m_sections small_xclbin)"
    and n: "word_of_nat (length (take 2 (m_sections small_xclbin))) = (2 :: 32 word)"
    by (simp_all add: small_xclbin_def)
  show ?thesis
    by (intro conjI) (rule a, rule b, rule c, rule d, rule e [unfolded l n])
qed

subsection \<open>The layout of the sections\<close>

lemma bytesToAlign_aligned: "(p + bytesToAlign p) mod 8 = 0"
proof (cases "p mod 8 = 0")
  case True
  then show ?thesis by (simp add: bytesToAlign_def)
next
  case False
  define q r where "q = p div 8" and "r = p mod 8"
  have r: "r < 8" and p: "p = q * 8 + r"
    by (simp_all add: q_def r_def)
  have "p + (8 - r) = 8 * (q + 1)"
    using r p by simp
  then have "(p + (8 - r)) mod 8 = 0" by (metis mod_mult_self1_is_0)
  then have "(p + (8 - p mod 8)) mod 8 = 0" by (simp add: r_def)
  with False show ?thesis by (simp add: bytesToAlign_def)
qed

lemma bytesToAlign_le: "bytesToAlign p \<le> 7"
proof -
  have "p mod 8 < 8" by simp
  then show ?thesis by (auto simp: bytesToAlign_def)
qed

lemma bytesToAlign_add: "p mod 8 = 0 \<Longrightarrow> bytesToAlign (p + n) = bytesToAlign n"
proof -
  assume "p mod 8 = 0"
  then have "(p + n) mod 8 = n mod 8" by (metis add_cancel_right_left mod_add_left_eq)
  then show ?thesis by (simp add: bytesToAlign_def)
qed
lemma bytesToAlign_mod: "bytesToAlign (p mod 2 ^ 32) = bytesToAlign p"
proof -
  have "(8::nat) dvd 2 ^ 32" by simp
  then have "p mod 2 ^ 32 mod 8 = p mod 8" by (rule mod_mod_cancel)
  then show ?thesis by (simp add: bytesToAlign_def)
qed

lemma stream_write_append:
  "pos f = length (buf f) \<Longrightarrow>
   buf (stream_write bs f) = buf f @ bs \<and> pos (stream_write bs f) = length (buf f @ bs)"
  by (simp add: stream_write_def fixed_def)

lemma length_offsets_from [simp]: "length (offsets_from p ss) = length ss"
  by (induction ss arbitrary: p) auto

lemma length_populate [simp]: "length (populate_section_headers c ss) = length ss"
  by (induction ss arbitrary: c) (auto simp: Let_def)

lemma offsets_from_aligned: "o' \<in> set (offsets_from p ss) \<Longrightarrow> o' mod 8 = 0"
  by (induction ss arbitrary: p) (auto simp: bytesToAlign_aligned)

lemma unat_word_of_nat_64: "n < 2 ^ 64 \<Longrightarrow> unat (word_of_nat n :: 64 word) = n"
  by (simp add: unat_of_nat)

lemma write_sections_layout:
  assumes "write_sections K (zip ss (populate_section_headers cur ss)) f m = Inr (f', m')"
    and "pos f = length (buf f)"
    and "unat cur = pos f"
    and "pos f + 8 \<le> 2 ^ 64"
    and "\<forall>s \<in> set ss. length (m_pBuffer s) < 2 ^ 63"
  shows "map (\<lambda>sh. unat (m_sectionOffset sh)) (populate_section_headers cur ss) = offsets_from (pos f) ss
       \<and> map (\<lambda>sh. unat (m_sectionSize sh)) (populate_section_headers cur ss) = map (\<lambda>s. length (m_pBuffer s)) ss
       \<and> (\<forall>o' \<in> set (offsets_from (pos f) ss). o' < 2 ^ 32)
       \<and> buf f' = buf f @ payload_bytes (pos f) ss \<and> pos f' = length (buf f')"
  using assms
proof (induction ss arbitrary: cur f m)
  case Nil
  then show ?case by simp
next
  case (Cons s ss)
  define p where "p = pos f"
  define P where "P = p + bytesToAlign p"
  define aligned where "aligned = cur + (word_of_nat (bytesToAlign (unat cur)) :: 64 word)"
  have pb: "bytesToAlign p \<le> 7" by (rule bytesToAlign_le)
  have P64: "P < 2 ^ 64" using Cons.prems(4) pb by (simp add: P_def p_def)
  have ua: "unat aligned = P"
  proof -
    have "unat aligned = (unat cur + bytesToAlign (unat cur)) mod 2 ^ 64"
      using pb Cons.prems(3) by (simp add: aligned_def unat_word_ariths unat_of_nat p_def)
    then show ?thesis using P64 Cons.prems(3) by (simp add: P_def p_def)
  qed
  have ro: "(p mod 2 ^ 32 + bytesToAlign (p mod 2 ^ 32)) mod 2 ^ 32 = P mod 2 ^ 32"
    using bytesToAlign_mod [of p] by (simp add: P_def mod_add_left_eq)
  define sh where "sh = (initXclBinSectionHeader s) \<lparr> m_sectionOffset := aligned \<rparr>"
  define cur2 where "cur2 = aligned + m_sectionSize (initXclBinSectionHeader s)"
  define f1 where "f1 = (if bytesToAlign (p mod 4294967296) \<noteq> 0
                      then stream_write (replicate (bytesToAlign (p mod 4294967296)) (CHR 0x00)) f else f)"
  define f2 where "f2 = writeXclBinSectionBuffer s f1"
  define msg where "msg = runtime_error
                (''ERROR: Expected offset (0x'' @ format_x (unat (m_sectionOffset sh)) @
                 '') does not match actual (0x'' @
                 format_x ((p mod 4294967296 + bytesToAlign (p mod 4294967296)) mod 4294967296) @ '')'')"
  have eq: "write_sections K (zip (s # ss) (populate_section_headers cur (s # ss))) f m =
      (if (p mod 2 ^ 32 + bytesToAlign (p mod 2 ^ 32)) mod 2 ^ 32 \<noteq> unat aligned then Inl msg
       else case section_mirror K s sh of
              Inl e \<Rightarrow> Inl e
            | Inr e \<Rightarrow> write_sections K (zip ss (populate_section_headers cur2 ss)) f2
                         (pt_add_child ''section_header'' e m))"
    unfolding f2_def f1_def p_def aligned_def cur2_def sh_def msg_def
    by (simp add: Let_def)
  have chk0: "(p mod 2 ^ 32 + bytesToAlign (p mod 2 ^ 32)) mod 2 ^ 32 = unat aligned"
    using Cons.prems(1) unfolding eq by (simp split: if_splits)
  then have chk: "P mod 2 ^ 32 = P"
    using ro ua by simp
  from Cons.prems(1) obtain m1 where
    rec: "write_sections K (zip ss (populate_section_headers cur2 ss)) f2 m1 = Inr (f', m')"
    unfolding eq using chk0 by (auto split: sum.splits)
  then have P32: "P < 2 ^ 32"
  proof -
    have "P mod 2 ^ 32 < 2 ^ 32" by simp
    with chk show ?thesis by simp
  qed
  have f1b: "buf f1 = buf f @ replicate (bytesToAlign p) (CHR 0x00) \<and> pos f1 = length (buf f1)"
    using Cons.prems(2) stream_write_append [of f "replicate (bytesToAlign p) (CHR 0x00)"]
    using bytesToAlign_mod [of p] by (auto simp: f1_def)
  have f2b: "buf f2 = buf f @ replicate (bytesToAlign p) (CHR 0x00) @ m_pBuffer s \<and> pos f2 = length (buf f2)"
    using f1b stream_write_append [of f1 "m_pBuffer s"]
    by (simp add: f2_def writeXclBinSectionBuffer_def)
  have len: "length (m_pBuffer s) < 2 ^ 63" using Cons.prems(5) by simp
  have sz: "unat (word_of_nat (length (m_pBuffer s)) :: 64 word) = length (m_pBuffer s)"
    using len by (simp add: unat_of_nat)
  have szsh: "m_sectionSize (initXclBinSectionHeader s) = word_of_nat (length (m_pBuffer s))"
    by (simp add: initXclBinSectionHeader_def)
  have posf2: "pos f2 = P + length (m_pBuffer s)"
    using f2b Cons.prems(2) by (simp add: P_def p_def)
  have ucur2: "unat cur2 = pos f2"
  proof -
    have "P + length (m_pBuffer s) < 2 ^ 64" using P32 len by simp
    then show ?thesis using ua sz posf2 by (simp add: cur2_def szsh unat_word_ariths)
  qed
  have bound2: "pos f2 + 8 \<le> 2 ^ 64" using posf2 P32 len by simp
  have IH: "map (\<lambda>sh. unat (m_sectionOffset sh)) (populate_section_headers cur2 ss) = offsets_from (pos f2) ss
       \<and> map (\<lambda>sh. unat (m_sectionSize sh)) (populate_section_headers cur2 ss) = map (\<lambda>s. length (m_pBuffer s)) ss
       \<and> (\<forall>o' \<in> set (offsets_from (pos f2) ss). o' < 2 ^ 32)
       \<and> buf f' = buf f2 @ payload_bytes (pos f2) ss \<and> pos f' = length (buf f')"
    using Cons.IH [OF rec _ ucur2 bound2] f2b Cons.prems(5) by simp
  have pop: "populate_section_headers cur (s # ss) = sh # populate_section_headers cur2 ss"
    by (simp add: Let_def sh_def cur2_def aligned_def)
  have osh: "unat (m_sectionOffset sh) = P" and ssh: "unat (m_sectionSize sh) = length (m_pBuffer s)"
    using ua sz by (simp_all add: sh_def szsh)
  have off: "offsets_from (pos f) (s # ss) = P # offsets_from (pos f2) ss"
    and pay: "payload_bytes (pos f) (s # ss) =
              replicate (bytesToAlign p) (CHR 0x00) @ m_pBuffer s @ payload_bytes (pos f2) ss"
    by (simp_all add: posf2 P_def p_def)
  show ?case
    unfolding pop off pay using IH osh ssh P32 f2b by simp
qed

lemma offsets_from_align: "offsets_from (q + bytesToAlign q) ss = offsets_from q ss"
proof (cases ss)
  case Nil
  then show ?thesis by simp
next
  case (Cons t ts)
  have "bytesToAlign (q + bytesToAlign q) = 0"
    using bytesToAlign_aligned [of q] by (simp add: bytesToAlign_def)
  then show ?thesis using Cons by simp
qed

lemma offsets_from_closed:
  "p mod 8 = 0 \<Longrightarrow> i < length ss \<Longrightarrow>
   offsets_from p ss ! i = p + sum_list (map (\<lambda>s. padded_size (length (m_pBuffer s))) (take i ss))"
proof (induction ss arbitrary: p i)
  case Nil
  then show ?case by simp
next
  case (Cons s ss)
  have b0: "bytesToAlign p = 0" using Cons.prems(1) by (simp add: bytesToAlign_def)
  show ?case
  proof (cases i)
    case 0
    then show ?thesis using b0 by simp
  next
    case (Suc j)
    have al: "(p + padded_size (length (m_pBuffer s))) mod 8 = 0"
      using Cons.prems(1) bytesToAlign_aligned [of "length (m_pBuffer s)"]
      by (metis add_cancel_right_left mod_add_eq padded_size_def mod_0)
    have "p + length (m_pBuffer s) + bytesToAlign (p + length (m_pBuffer s))
            = p + padded_size (length (m_pBuffer s))"
      using bytesToAlign_add [OF Cons.prems(1), of "length (m_pBuffer s)"]
      by (simp add: padded_size_def)
    then have nx: "offsets_from (p + length (m_pBuffer s)) ss
              = offsets_from (p + padded_size (length (m_pBuffer s))) ss"
      using offsets_from_align [of "p + length (m_pBuffer s)" ss] by (simp only:)
    have "j < length ss" using Cons.prems(2) Suc by simp
    from Cons.IH [OF al this] show ?thesis
      using Suc b0 nx by (simp add: add.assoc)
  qed
qed

lemma offsets_from_step:
  "Suc i < length ss \<Longrightarrow>
   offsets_from p ss ! Suc i =
     offsets_from p ss ! i + length (m_pBuffer (ss ! i)) +
     bytesToAlign (offsets_from p ss ! i + length (m_pBuffer (ss ! i)))"
proof (induction ss arbitrary: p i)
  case Nil
  then show ?case by simp
next
  case (Cons s ss)
  show ?case
  proof (cases i)
    case 0
    then obtain t ts where "ss = t # ts" using Cons.prems by (cases ss) auto
    then show ?thesis using 0 by simp
  next
    case (Suc j)
    then have "Suc j < length ss" using Cons.prems by simp
    from Cons.IH [OF this] show ?thesis using Suc by simp
  qed
qed

lemma payload_located:
  "length pre = p \<Longrightarrow> i < length ss \<Longrightarrow>
   take (length (m_pBuffer (ss ! i))) (drop (offsets_from p ss ! i) (pre @ payload_bytes p ss @ post))
     = m_pBuffer (ss ! i)"
proof (induction ss arbitrary: p i pre)
  case Nil
  then show ?case by simp
next
  case (Cons s ss)
  show ?case
  proof (cases i)
    case 0
    then show ?thesis using Cons.prems by simp
  next
    case (Suc j)
    define pre' where "pre' = pre @ replicate (bytesToAlign p) (CHR 0x00) @ m_pBuffer s"
    have l: "length pre' = p + bytesToAlign p + length (m_pBuffer s)"
      using Cons.prems(1) by (simp add: pre'_def)
    have j: "j < length ss" using Cons.prems(2) Suc by simp
    have e: "pre @ payload_bytes p (s # ss) @ post
             = pre' @ payload_bytes (p + bytesToAlign p + length (m_pBuffer s)) ss @ post"
      by (simp add: pre'_def)
    show ?thesis
      unfolding e using Cons.IH [OF l j] Suc by simp
  qed
qed

lemma write_sections_succeeds:
  assumes "pos f = length (buf f)"
    and "unat cur = pos f"
    and "\<forall>s \<in> set ss. length (m_pBuffer s) < 2 ^ 63"
    and "\<forall>o' \<in> set (offsets_from (pos f) ss). o' < 2 ^ 32"
    and "\<forall>s \<in> set ss. \<forall>sh. \<not> isl (section_mirror K s sh)"
  shows "\<not> isl (write_sections K (zip ss (populate_section_headers cur ss)) f m)"
  using assms
proof (induction ss arbitrary: cur f m)
  case Nil
  then show ?case by simp
next
  case (Cons s ss)
  define p where "p = pos f"
  define P where "P = p + bytesToAlign p"
  define aligned where "aligned = cur + (word_of_nat (bytesToAlign (unat cur)) :: 64 word)"
  have P32: "P < 2 ^ 32" using Cons.prems(4) by (simp add: P_def p_def)
  have ua: "unat aligned = P"
  proof -
    have "unat aligned = (unat cur + bytesToAlign (unat cur)) mod 2 ^ 64"
      using bytesToAlign_le [of "unat cur"] by (simp add: aligned_def unat_word_ariths unat_of_nat)
    moreover have "P < 2 ^ 64" using P32 by simp
    ultimately show ?thesis using Cons.prems(2) by (simp add: P_def p_def)
  qed
  have ro: "(p mod 2 ^ 32 + bytesToAlign (p mod 2 ^ 32)) mod 2 ^ 32 = P"
    using bytesToAlign_mod [of p] P32 by (simp add: P_def mod_add_left_eq)
  define sh where "sh = (initXclBinSectionHeader s) \<lparr> m_sectionOffset := aligned \<rparr>"
  define cur2 where "cur2 = aligned + m_sectionSize (initXclBinSectionHeader s)"
  define f1 where "f1 = (if bytesToAlign (p mod 4294967296) \<noteq> 0
                      then stream_write (replicate (bytesToAlign (p mod 4294967296)) (CHR 0x00)) f else f)"
  define f2 where "f2 = writeXclBinSectionBuffer s f1"
  have "\<not> isl (section_mirror K s sh)" using Cons.prems(5) by simp
  then obtain e where e: "section_mirror K s sh = Inr e"
    by (cases "section_mirror K s sh") auto
  have eq: "write_sections K (zip (s # ss) (populate_section_headers cur (s # ss))) f m =
      write_sections K (zip ss (populate_section_headers cur2 ss)) f2
                         (pt_add_child ''section_header'' e m)"
    using ro ua e
    unfolding f2_def f1_def p_def aligned_def cur2_def sh_def
    by (simp add: Let_def)
  have f1b: "buf f1 = buf f @ replicate (bytesToAlign p) (CHR 0x00) \<and> pos f1 = length (buf f1)"
    using Cons.prems(1) stream_write_append [of f "replicate (bytesToAlign p) (CHR 0x00)"]
    using bytesToAlign_mod [of p] by (auto simp: f1_def)
  have f2b: "buf f2 = buf f @ replicate (bytesToAlign p) (CHR 0x00) @ m_pBuffer s \<and> pos f2 = length (buf f2)"
    using f1b stream_write_append [of f1 "m_pBuffer s"]
    by (simp add: f2_def writeXclBinSectionBuffer_def)
  have len: "length (m_pBuffer s) < 2 ^ 63" using Cons.prems(3) by simp
  have posf2: "pos f2 = P + length (m_pBuffer s)"
    using f2b Cons.prems(1) by (simp add: P_def p_def)
  have ucur2: "unat cur2 = pos f2"
  proof -
    have "P + length (m_pBuffer s) < 2 ^ 64" using P32 len by simp
    then show ?thesis using ua len posf2
      by (simp add: cur2_def initXclBinSectionHeader_def unat_word_ariths unat_of_nat)
  qed
  have o2: "\<forall>o' \<in> set (offsets_from (pos f2) ss). o' < 2 ^ 32"
    using Cons.prems(4) by (simp add: posf2 P_def p_def)
  show ?case
    unfolding eq
    using Cons.IH [of f2 cur2] f2b ucur2 o2 Cons.prems(3,5) by simp
qed

lemma length_table [simp]:
  "length (concat (map section_header_bytes hs)) = 40 * length hs"
  by (induction hs) auto

lemma table_start_aligned: "(456 + 40 * n) mod 8 = (0::nat)"
proof -
  have "456 + 40 * n = 8 * (57 + 5 * n)" by simp
  then show ?thesis by (metis mod_mult_self1_is_0)
qed

text \<open>
  Claim C2, as amended. For a container written by \<^verbatim>\<open>writeXclBinBinarySections\<close> right after
  its header (payloads below \<open>2^63\<close> bytes, fewer than \<open>2^32\<close> sections): the table of section
  headers lies contiguously after the header; each recorded offset is a multiple of 8
  and equals header size plus table size plus the padded sizes of the payloads before
  it; the recorded size is the payload's size and the payload lies at the recorded
  offset; the payloads do not overlap (the next offset is at least offset plus size);
  and the next offset is strictly greater exactly when the payload is not empty.
\<close>

theorem writeXclBinBinarySections_layout:
  assumes w: "writeXclBinBinarySections K xb f m = Inr (f', m')"
    and lf: "length (buf f) = sizeof_axlf - sizeof_axlf_section_header"
    and pf: "pos f = sizeof_axlf - sizeof_axlf_section_header"
    and sz: "\<forall>s \<in> set (m_sections xb). length (m_pBuffer s) < 2 ^ 63"
    and n: "length (m_sections xb) < 2 ^ 32"
  shows "take (sizeof_axlf_section_header * length (m_sections xb))
           (drop (sizeof_axlf - sizeof_axlf_section_header) (buf f'))
         = concat (map section_header_bytes (section_headers_of xb))
     \<and> (\<forall>i < length (m_sections xb).
          unat (m_sectionOffset (section_headers_of xb ! i)) mod 8 = 0
        \<and> unat (m_sectionOffset (section_headers_of xb ! i)) = spec_offset (m_sections xb) i
        \<and> unat (m_sectionSize (section_headers_of xb ! i)) = length (m_pBuffer (m_sections xb ! i))
        \<and> take (unat (m_sectionSize (section_headers_of xb ! i)))
             (drop (unat (m_sectionOffset (section_headers_of xb ! i))) (buf f'))
           = m_pBuffer (m_sections xb ! i))
     \<and> (\<forall>i. Suc i < length (m_sections xb) \<longrightarrow>
          unat (m_sectionOffset (section_headers_of xb ! i)) +
          unat (m_sectionSize (section_headers_of xb ! i))
            \<le> unat (m_sectionOffset (section_headers_of xb ! Suc i))
        \<and> (unat (m_sectionOffset (section_headers_of xb ! i))
              < unat (m_sectionOffset (section_headers_of xb ! Suc i))
            \<longleftrightarrow> 0 < unat (m_sectionSize (section_headers_of xb ! i))))"
proof (cases "m_sections xb = []")
  case True
  then show ?thesis by (simp add: section_headers_of_def)
next
  case False
  define ss where "ss = m_sections xb"
  define N where "N = length ss"
  define p where "p = 456 + 40 * N"
  define cur where "cur = (word_of_nat p :: 64 word)"
  define hs where "hs = populate_section_headers cur ss"
  define table where "table = concat (map section_header_bytes hs)"
  define f1 where "f1 = stream_write table f"
  have hs_eq: "section_headers_of xb = hs"
    by (simp add: section_headers_of_def hs_def cur_def p_def N_def ss_def
        sizeof_axlf_def sizeof_axlf_section_header_def)
  have lhs: "length hs = N" by (simp add: hs_def N_def)
  have f1b: "buf f1 = buf f @ table" "pos f1 = length (buf f1)" "pos f1 = p"
    using stream_write_append [of f table] lf pf lhs
    by (simp_all add: f1_def table_def p_def sizeof_axlf_def sizeof_axlf_section_header_def)
  have p64: "p < 2 ^ 64" using n by (simp add: p_def N_def ss_def)
  have ucur: "unat cur = pos f1"
    using p64 f1b(3) by (simp add: cur_def unat_of_nat)
  have bound: "pos f1 + 8 \<le> 2 ^ 64" using n f1b(3) by (simp add: p_def N_def ss_def)
  from w False have ws: "write_sections K (zip ss hs) f1 m = Inr (f', m')"
    by (simp add: writeXclBinBinarySections_def Let_def hs_eq f1_def table_def ss_def)
  have sz': "\<forall>s \<in> set ss. length (m_pBuffer s) < 2 ^ 63" using sz by (simp add: ss_def)
  note L = write_sections_layout [OF ws [unfolded hs_def] f1b(2) ucur bound sz']
  have offs: "map (\<lambda>sh. unat (m_sectionOffset sh)) hs = offsets_from p ss"
    and sizes: "map (\<lambda>sh. unat (m_sectionSize sh)) hs = map (\<lambda>s. length (m_pBuffer s)) ss"
    and fil: "buf f' = buf f @ table @ payload_bytes p ss"
    using L f1b by (simp_all add: hs_def)
  have pal: "p mod 8 = 0" unfolding p_def by (rule table_start_aligned)
  have off_i: "unat (m_sectionOffset (hs ! i)) = offsets_from p ss ! i" if "i < N" for i
    using that lhs nth_map [of i hs "\<lambda>sh. unat (m_sectionOffset sh)"] offs by simp
  have size_i: "unat (m_sectionSize (hs ! i)) = length (m_pBuffer (ss ! i))" if "i < N" for i
    using that lhs nth_map [of i hs "\<lambda>sh. unat (m_sectionSize sh)"] sizes
    by (simp add: N_def)
  have spec: "spec_offset ss i = p + sum_list (map (\<lambda>s. padded_size (length (m_pBuffer s))) (take i ss))" for i
    by (simp add: spec_offset_def p_def N_def sizeof_axlf_def sizeof_axlf_section_header_def)
  have c1: "take (sizeof_axlf_section_header * N) (drop (sizeof_axlf - sizeof_axlf_section_header) (buf f')) = table"
    using lf lhs by (simp add: fil table_def sizeof_axlf_def sizeof_axlf_section_header_def)
  have c2: "unat (m_sectionOffset (hs ! i)) mod 8 = 0
        \<and> unat (m_sectionOffset (hs ! i)) = spec_offset ss i
        \<and> unat (m_sectionSize (hs ! i)) = length (m_pBuffer (ss ! i))
        \<and> take (unat (m_sectionSize (hs ! i))) (drop (unat (m_sectionOffset (hs ! i))) (buf f'))
           = m_pBuffer (ss ! i)" if i: "i < N" for i
  proof -
    have a: "offsets_from p ss ! i mod 8 = 0"
      using offsets_from_aligned [of "offsets_from p ss ! i" p ss] i by (simp add: N_def)
    have b: "offsets_from p ss ! i = spec_offset ss i"
      using offsets_from_closed [OF pal, of i ss] i by (simp add: spec N_def)
    have lpre: "length (buf f @ table) = p"
      using lf lhs by (simp add: table_def p_def sizeof_axlf_def sizeof_axlf_section_header_def)
    have c: "take (length (m_pBuffer (ss ! i))) (drop (offsets_from p ss ! i) (buf f')) = m_pBuffer (ss ! i)"
      using payload_located [OF lpre, of i ss "[]"] i by (simp add: fil N_def)
    show ?thesis using a b c off_i [OF i] size_i [OF i] by simp
  qed
  have c3: "unat (m_sectionOffset (hs ! i)) + unat (m_sectionSize (hs ! i))
            \<le> unat (m_sectionOffset (hs ! Suc i))
        \<and> (unat (m_sectionOffset (hs ! i)) < unat (m_sectionOffset (hs ! Suc i))
            \<longleftrightarrow> 0 < unat (m_sectionSize (hs ! i)))" if i: "Suc i < N" for i
  proof -
    have i': "i < N" using i by simp
    define a l where "a = offsets_from p ss ! i" and "l = length (m_pBuffer (ss ! i))"
    have st: "offsets_from p ss ! Suc i = a + l + bytesToAlign (a + l)"
      using offsets_from_step [of i ss p] i by (simp add: a_def l_def N_def)
    have al: "a mod 8 = 0"
      using offsets_from_aligned [of a p ss] i' by (simp add: a_def N_def)
    have "bytesToAlign a = 0" using al by (simp add: bytesToAlign_def)
    then have "a < a + l + bytesToAlign (a + l) \<longleftrightarrow> 0 < l" by (cases "l = 0") auto
    then show ?thesis
      using st off_i [OF i] off_i [OF i'] size_i [OF i'] by (simp add: a_def l_def)
  qed
  have C1: "take (sizeof_axlf_section_header * length (m_sections xb))
           (drop (sizeof_axlf - sizeof_axlf_section_header) (buf f'))
         = concat (map section_header_bytes hs)"
    using c1 by (simp add: table_def N_def ss_def)
  have C2: "\<forall>i < length (m_sections xb).
          unat (m_sectionOffset (hs ! i)) mod 8 = 0
        \<and> unat (m_sectionOffset (hs ! i)) = spec_offset (m_sections xb) i
        \<and> unat (m_sectionSize (hs ! i)) = length (m_pBuffer (m_sections xb ! i))
        \<and> take (unat (m_sectionSize (hs ! i)))
             (drop (unat (m_sectionOffset (hs ! i))) (buf f'))
           = m_pBuffer (m_sections xb ! i)"
    using c2 unfolding N_def ss_def by blast
  have C3: "\<forall>i. Suc i < length (m_sections xb) \<longrightarrow>
          unat (m_sectionOffset (hs ! i)) + unat (m_sectionSize (hs ! i))
            \<le> unat (m_sectionOffset (hs ! Suc i))
        \<and> (unat (m_sectionOffset (hs ! i)) < unat (m_sectionOffset (hs ! Suc i))
            \<longleftrightarrow> 0 < unat (m_sectionSize (hs ! i)))"
    using c3 unfolding N_def ss_def by blast
  show ?thesis
    unfolding hs_eq by (intro conjI) (rule C1, rule C2, rule C3)
qed

lemma header_written_props:
  "length (buf (header_written xb)) = sizeof_axlf - sizeof_axlf_section_header
   \<and> pos (header_written xb) = sizeof_axlf - sizeof_axlf_section_header"
  by (simp add: header_written_def writeXclBinBinaryHeader_def stream_write_def fixed_def
      sizeof_axlf_def sizeof_axlf_section_header_def)

lemma section_mirror_small: "\<not> isl (section_mirror small_class s sh)"
  by (simp add: section_mirror_def small_class_def Let_def)

lemma writeXclBinBinarySections_succeeds:
  assumes "length (buf f) = sizeof_axlf - sizeof_axlf_section_header"
    and "pos f = sizeof_axlf - sizeof_axlf_section_header"
    and "\<forall>s \<in> set (m_sections xb). length (m_pBuffer s) < 2 ^ 63"
    and "\<forall>o' \<in> set (offsets_from (sizeof_axlf - sizeof_axlf_section_header +
            sizeof_axlf_section_header * length (m_sections xb)) (m_sections xb)). o' < 2 ^ 32"
    and "\<forall>s \<in> set (m_sections xb). \<forall>sh. \<not> isl (section_mirror K s sh)"
  shows "\<not> isl (writeXclBinBinarySections K xb f m)"
proof (cases "m_sections xb = []")
  case True
  then show ?thesis by (simp add: writeXclBinBinarySections_def)
next
  case False
  define ss where "ss = m_sections xb"
  define p where "p = 456 + 40 * length ss"
  define cur where "cur = (word_of_nat p :: 64 word)"
  define table where "table = concat (map section_header_bytes (populate_section_headers cur ss))"
  define f1 where "f1 = stream_write table f"
  have f1b: "pos f1 = length (buf f1)" "pos f1 = p"
    using stream_write_append [of f table] assms(1,2)
    by (simp_all add: f1_def table_def p_def sizeof_axlf_def sizeof_axlf_section_header_def)
  have "ss \<noteq> []" using False by (simp add: ss_def)
  then obtain s rest where sr: "ss = s # rest" by (cases ss) auto
  have "p + bytesToAlign p < 2 ^ 32"
    using assms(4) sr by (simp add: p_def ss_def [symmetric] sizeof_axlf_def sizeof_axlf_section_header_def)
  then have "p < 2 ^ 64" by simp
  then have ucur: "unat cur = pos f1" using f1b by (simp add: cur_def unat_of_nat)
  have o: "\<forall>o' \<in> set (offsets_from (pos f1) ss). o' < 2 ^ 32"
    using assms(4) f1b by (simp add: p_def ss_def sizeof_axlf_def sizeof_axlf_section_header_def)
  have "\<not> isl (write_sections K (zip ss (populate_section_headers cur ss)) f1 m)"
    using write_sections_succeeds [OF f1b(1) ucur _ o] assms(3,5) by (simp add: ss_def)
  then show ?thesis
    using False
    by (simp add: writeXclBinBinarySections_def Let_def section_headers_of_def f1_def table_def
        cur_def p_def ss_def sizeof_axlf_def sizeof_axlf_section_header_def)
qed

lemma small_offsets:
  "offsets_from (sizeof_axlf - sizeof_axlf_section_header +
            sizeof_axlf_section_header * length (m_sections small_xclbin)) (m_sections small_xclbin)
   = [576, 584, 584]"
  by (simp add: small_xclbin_def sizeof_axlf_def sizeof_axlf_section_header_def bytesToAlign_def)

lemma small_written:
  "\<not> isl (writeXclBinBinarySections small_class small_xclbin (header_written small_xclbin) pt_empty)"
proof (rule writeXclBinBinarySections_succeeds)
  show "length (buf (header_written small_xclbin)) = sizeof_axlf - sizeof_axlf_section_header"
    and "pos (header_written small_xclbin) = sizeof_axlf - sizeof_axlf_section_header"
    using header_written_props by simp_all
  show "\<forall>s \<in> set (m_sections small_xclbin). length (m_pBuffer s) < 2 ^ 63"
    by (simp add: small_xclbin_def)
  show "\<forall>o' \<in> set (offsets_from (sizeof_axlf - sizeof_axlf_section_header +
            sizeof_axlf_section_header * length (m_sections small_xclbin)) (m_sections small_xclbin)). o' < 2 ^ 32"
    unfolding small_offsets by simp
  show "\<forall>s \<in> set (m_sections small_xclbin). \<forall>sh. \<not> isl (section_mirror small_class s sh)"
    using section_mirror_small by simp
qed

lemma small_headers:
  "map (\<lambda>sh. unat (m_sectionOffset sh)) (section_headers_of small_xclbin) = [576, 584, 584]"
  by (simp add: section_headers_of_def small_xclbin_def sizeof_axlf_def sizeof_axlf_section_header_def
      bytesToAlign_def initXclBinSectionHeader_def Let_def)

text \<open>
  Claim C2 as stated fails: offsets do not strictly increase past an empty payload. The
  container of three sections is written, and its second section (empty) and third
  section get the same offset.
\<close>

theorem offsets_not_strictly_increasing:
  "\<not> isl (writeXclBinBinarySections small_class small_xclbin (header_written small_xclbin) pt_empty)
   \<and> \<not> (unat (m_sectionOffset (section_headers_of small_xclbin ! 1))
          < unat (m_sectionOffset (section_headers_of small_xclbin ! 2)))"
proof -
  have l: "length (section_headers_of small_xclbin) = 3"
    by (simp add: section_headers_of_def small_xclbin_def del: populate_section_headers.simps)
  have "unat (m_sectionOffset (section_headers_of small_xclbin ! 1)) = [576, 584, 584] ! 1"
    and "unat (m_sectionOffset (section_headers_of small_xclbin ! 2)) = [576, 584, 584] ! 2"
    using small_headers l nth_map [of _ "section_headers_of small_xclbin" "\<lambda>sh. unat (m_sectionOffset sh)"]
    by (metis One_nat_def Suc_1 lessI numeral_3_eq_3 less_SucI)+
  then show ?thesis using small_written by simp
qed

theorem writeXclBinBinarySections_layout_witness:
  "\<not> isl (writeXclBinBinarySections small_class small_xclbin (header_written small_xclbin) pt_empty)
   \<and> take (sizeof_axlf_section_header * length (m_sections small_xclbin))
           (drop (sizeof_axlf - sizeof_axlf_section_header)
             (buf (fst (projr (writeXclBinBinarySections small_class small_xclbin
                                 (header_written small_xclbin) pt_empty)))))
         = concat (map section_header_bytes (section_headers_of small_xclbin))
   \<and> unat (m_sectionOffset (section_headers_of small_xclbin ! 2)) mod 8 = 0
   \<and> unat (m_sectionOffset (section_headers_of small_xclbin ! 2)) = spec_offset (m_sections small_xclbin) 2
   \<and> unat (m_sectionSize (section_headers_of small_xclbin ! 2)) = length (m_pBuffer (m_sections small_xclbin ! 2))
   \<and> take (unat (m_sectionSize (section_headers_of small_xclbin ! 2)))
             (drop (unat (m_sectionOffset (section_headers_of small_xclbin ! 2)))
               (buf (fst (projr (writeXclBinBinarySections small_class small_xclbin
                                 (header_written small_xclbin) pt_empty)))))
           = m_pBuffer (m_sections small_xclbin ! 2)
   \<and> unat (m_sectionOffset (section_headers_of small_xclbin ! 0)) +
          unat (m_sectionSize (section_headers_of small_xclbin ! 0))
            \<le> unat (m_sectionOffset (section_headers_of small_xclbin ! Suc 0))
   \<and> unat (m_sectionOffset (section_headers_of small_xclbin ! 0))
              < unat (m_sectionOffset (section_headers_of small_xclbin ! Suc 0))"
proof -
  define W where "W = writeXclBinBinarySections small_class small_xclbin (header_written small_xclbin) pt_empty"
  have ok: "\<not> isl W" unfolding W_def by (rule small_written)
  then have w: "writeXclBinBinarySections small_class small_xclbin (header_written small_xclbin) pt_empty
                = Inr (fst (projr W), snd (projr W))"
    unfolding W_def by simp
  have lf: "length (buf (header_written small_xclbin)) = sizeof_axlf - sizeof_axlf_section_header"
    and pf: "pos (header_written small_xclbin) = sizeof_axlf - sizeof_axlf_section_header"
    using header_written_props by simp_all
  have sz: "\<forall>s \<in> set (m_sections small_xclbin). length (m_pBuffer s) < 2 ^ 63"
    by (simp add: small_xclbin_def)
  have n: "length (m_sections small_xclbin) < 2 ^ 32"
    by (simp add: small_xclbin_def)
  note T = writeXclBinBinarySections_layout [OF w lf pf sz n, unfolded W_def]
  have i2: "2 < length (m_sections small_xclbin)" and i0: "0 < length (m_sections small_xclbin)"
    and i1: "Suc 0 < length (m_sections small_xclbin)"
    by (simp_all add: small_xclbin_def)
  note A = T [THEN conjunct2, THEN conjunct1, THEN spec, THEN mp, OF i2]
  note A0 = T [THEN conjunct2, THEN conjunct1, THEN spec, THEN mp, OF i0]
  note B = T [THEN conjunct2, THEN conjunct2, THEN spec, THEN mp, OF i1]
  have "unat (m_sectionSize (section_headers_of small_xclbin ! 0)) = 5"
    using A0 by (simp add: small_xclbin_def)
  then have lt: "unat (m_sectionOffset (section_headers_of small_xclbin ! 0))
              < unat (m_sectionOffset (section_headers_of small_xclbin ! Suc 0))"
    using B by simp
  show ?thesis
    by (intro conjI) (rule ok [unfolded W_def], rule T [THEN conjunct1],
        rule A [THEN conjunct1], rule A [THEN conjunct2, THEN conjunct1],
        rule A [THEN conjunct2, THEN conjunct2, THEN conjunct1],
        rule A [THEN conjunct2, THEN conjunct2, THEN conjunct2],
        rule B [THEN conjunct1], rule lt)
qed

subsection \<open>The written file\<close>

lemma axlf_bytes_split:
  "axlf_bytes x = take 456 (axlf_bytes x) @ section_header_bytes (m_sections_1 x)"
  by (simp add: axlf_bytes_def del: le_bytes.simps)


lemma axlf_prefix_header:
  "field 304 152 (take 456 (axlf_bytes x) @ rest) = axlf_header_bytes (m_header x)"
  by (simp add: axlf_bytes_def field_def del: le_bytes.simps)

lemma m_length_of_bytes:
  "m_length (axlf_header_of_bytes (axlf_header_bytes h @ rest)) = m_length h"
  by (simp add: axlf_header_of_bytes_def axlf_header_bytes_def field_hit del: le_bytes.simps)

lemma m_numSections_of_bytes:
  "m_numSections (axlf_header_of_bytes (axlf_header_bytes h @ rest)) = m_numSections h"
  by (simp add: axlf_header_of_bytes_def axlf_header_bytes_def field_skip field_hit del: le_bytes.simps)


lemma stream_write_grows: "length (buf f) \<le> length (buf (stream_write bs f))"
  by (simp add: stream_write_def fixed_def)

lemma write_sections_grows:
  "write_sections K zs f m = Inr (f', m') \<Longrightarrow> length (buf f) \<le> length (buf f')"
proof (induction zs arbitrary: f m)
  case Nil
  then show ?case by simp
next
  case (Cons z zs)
  obtain s sh where z: "z = (s, sh)" by (cases z)
  define f1 where "f1 = (if bytesToAlign (pos f mod 4294967296) \<noteq> 0
       then stream_write (replicate (bytesToAlign (pos f mod 4294967296)) (CHR 0x00)) f else f)"
  define f2 where "f2 = writeXclBinSectionBuffer s f1"
  have "length (buf f) \<le> length (buf f1)"
    using stream_write_grows [of f] by (simp add: f1_def)
  moreover have "length (buf f1) \<le> length (buf f2)"
    using stream_write_grows [of f1 "m_pBuffer s"] by (simp add: f2_def writeXclBinSectionBuffer_def)
  ultimately have g: "length (buf f) \<le> length (buf f2)" by (rule order_trans)
  from Cons.prems obtain m1 where "write_sections K zs f2 m1 = Inr (f', m')"
    unfolding z f2_def f1_def
    by (auto simp: Let_def split: if_splits sum.splits)
  from Cons.IH [OF this] g show ?case by simp
qed

lemma write_sections_appends:
  "write_sections K zs f m = Inr (f', m') \<Longrightarrow> pos f = length (buf f) \<Longrightarrow>
   (\<exists>ext. buf f' = buf f @ ext) \<and> pos f' = length (buf f')"
proof (induction zs arbitrary: f m)
  case Nil
  then show ?case by simp
next
  case (Cons z zs)
  obtain s sh where z: "z = (s, sh)" by (cases z)
  define pad where "pad = replicate (bytesToAlign (pos f mod 4294967296)) (CHR 0x00)"
  define f1 where "f1 = (if bytesToAlign (pos f mod 4294967296) \<noteq> 0 then stream_write pad f else f)"
  define f2 where "f2 = writeXclBinSectionBuffer s f1"
  have f1b: "(\<exists>ext. buf f1 = buf f @ ext) \<and> pos f1 = length (buf f1)"
    using stream_write_append [OF Cons.prems(2), of pad] Cons.prems(2) by (simp add: f1_def)
  then have f2b: "(\<exists>ext. buf f2 = buf f @ ext) \<and> pos f2 = length (buf f2)"
    using stream_write_append [of f1 "m_pBuffer s"]
    by (auto simp: f2_def writeXclBinSectionBuffer_def)
  from Cons.prems(1) obtain m1 where "write_sections K zs f2 m1 = Inr (f', m')"
    unfolding z f2_def f1_def pad_def
    by (auto simp: Let_def split: if_splits sum.splits)
  from Cons.IH [OF this] f2b show ?case by auto
qed

lemma writeXclBinBinarySections_appends:
  assumes "writeXclBinBinarySections K xb f m = Inr (f', m')" and "pos f = length (buf f)"
  shows "(\<exists>ext. buf f' = buf f @ ext) \<and> pos f' = length (buf f')"
proof (cases "m_sections xb = []")
  case True
  then show ?thesis using assms by (simp add: writeXclBinBinarySections_def)
next
  case False
  define table where "table = concat (map section_header_bytes (section_headers_of xb))"
  define f1 where "f1 = stream_write table f"
  have f1b: "buf f1 = buf f @ table" "pos f1 = length (buf f1)"
    using stream_write_append [OF assms(2), of table] by (simp_all add: f1_def)
  have "write_sections K (zip (m_sections xb) (section_headers_of xb)) f1 m = Inr (f', m')"
    using assms(1) False by (simp add: writeXclBinBinarySections_def Let_def f1_def table_def)
  from write_sections_appends [OF this f1b(2)] f1b(1) show ?thesis by auto
qed

lemma header_written_buf:
  "buf (header_written xb) = take 456 (axlf_bytes (m_xclBinHeader xb))"
  "pos (header_written xb) = 456"
  by (simp_all add: header_written_def writeXclBinBinaryHeader_def stream_write_def fixed_def
      sizeof_axlf_def sizeof_axlf_section_header_def)

lemma fst_writeXclBinBinaryHeader:
  "fst (writeXclBinBinaryHeader xb \<lparr> buf = [], pos = 0 \<rparr> m) = header_written xb"
  by (simp add: header_written_def writeXclBinBinaryHeader_def)

lemma rewrite_header:
  "456 \<le> length (buf f) \<Longrightarrow>
   buf (fst (writeXclBinBinaryHeader xb (f \<lparr> pos := 0 \<rparr>) m))
     = take 456 (axlf_bytes (m_xclBinHeader xb)) @ drop 456 (buf f)"
  by (simp add: writeXclBinBinaryHeader_def stream_write_def fixed_def
      sizeof_axlf_def sizeof_axlf_section_header_def)

lemma writeXclBinBinary_result:
  assumes "writeXclBinBinary K name is_open skip rnd xb = Inr (xb2, file)"
  shows "\<exists>xb1 f2 m2 json body.
      (if skip then Inr xb else updateUUID rnd xb) = Inr xb1
    \<and> writeXclBinBinarySections K xb1 (header_written xb1) (first_mirror xb1) = Inr (f2, m2)
    \<and> write_json False m2 = Inr json
    \<and> buf f2 = take 456 (axlf_bytes (m_xclBinHeader xb1)) @ body
    \<and> file = take 456 (axlf_bytes (m_xclBinHeader xb2)) @ body @
               MIRROR_DATA_START @ json @ MIRROR_DATA_END
    \<and> xb2 = xb1 \<lparr> m_xclBinHeader := set_length (word_of_nat (length file)) (m_xclBinHeader xb1) \<rparr>"
proof -
  from assms obtain xb1 where u: "(if skip then Inr xb else updateUUID rnd xb) = Inr xb1"
    by (auto simp: writeXclBinBinary_def split: if_splits sum.splits)
  define m1 where "m1 = first_mirror xb1"
  from assms u obtain f2 m2 where
    s: "writeXclBinBinarySections K xb1 (header_written xb1) m1 = Inr (f2, m2)"
    by (auto simp: writeXclBinBinary_def Let_def writeXclBinBinaryHeader_def header_written_def
        m1_def first_mirror_def split: if_splits sum.splits)
  from assms u s obtain f3 where
    md: "writeXclBinBinaryMirrorData f2 m2 = Inr f3"
    by (auto simp: writeXclBinBinary_def Let_def writeXclBinBinaryHeader_def header_written_def
        m1_def first_mirror_def split: if_splits sum.splits)
  then obtain json where j: "write_json False m2 = Inr json"
    and f3: "f3 = stream_write MIRROR_DATA_END (stream_write json (stream_write MIRROR_DATA_START f2))"
    by (auto simp: writeXclBinBinaryMirrorData_def split: sum.splits)
  have hw: "pos (header_written xb1) = length (buf (header_written xb1))"
    by (simp add: header_written_buf)
  from writeXclBinBinarySections_appends [OF s hw] obtain body where
    b: "buf f2 = take 456 (axlf_bytes (m_xclBinHeader xb1)) @ body" and p2: "pos f2 = length (buf f2)"
    by (auto simp: header_written_buf)
  have b3: "buf f3 = buf f2 @ MIRROR_DATA_START @ json @ MIRROR_DATA_END"
  proof -
    have w1: "buf (stream_write MIRROR_DATA_START f2) = buf f2 @ MIRROR_DATA_START"
      and w1p: "pos (stream_write MIRROR_DATA_START f2) = length (buf (stream_write MIRROR_DATA_START f2))"
      using stream_write_append [OF p2, of MIRROR_DATA_START] by simp_all
    have w2: "buf (stream_write json (stream_write MIRROR_DATA_START f2)) = buf f2 @ MIRROR_DATA_START @ json"
      and w2p: "pos (stream_write json (stream_write MIRROR_DATA_START f2))
               = length (buf (stream_write json (stream_write MIRROR_DATA_START f2)))"
      using stream_write_append [OF w1p, of json] w1 by simp_all
    show ?thesis
      using stream_write_append [OF w2p, of MIRROR_DATA_END] w2 by (simp add: f3)
  qed
  have l3: "456 \<le> length (buf f3)" by (simp add: b3 b)
  define xb2' where "xb2' = xb1 \<lparr> m_xclBinHeader := set_length (word_of_nat (length (buf f3))) (m_xclBinHeader xb1) \<rparr>"
  have res: "xb2 = xb2' \<and> file = buf (fst (writeXclBinBinaryHeader xb2' (f3 \<lparr> pos := 0 \<rparr>) pt_empty))"
    using assms u s md
    by (auto simp: writeXclBinBinary_def Let_def fst_writeXclBinBinaryHeader xb2'_def
        m1_def first_mirror_def writeXclBinBinaryHeader_def [of xb1] header_written_def
        split: if_splits)
  then have fil: "file = take 456 (axlf_bytes (m_xclBinHeader xb2)) @ drop 456 (buf f3)"
    using rewrite_header [OF l3] by simp
  then have fl: "file = take 456 (axlf_bytes (m_xclBinHeader xb2)) @ body @
               MIRROR_DATA_START @ json @ MIRROR_DATA_END"
    by (simp add: b3 b)
  have "length file = length (buf f3)" by (simp add: fl b3 b)
  then have "xb2 = xb1 \<lparr> m_xclBinHeader := set_length (word_of_nat (length file)) (m_xclBinHeader xb1) \<rparr>"
    using res by (simp add: xb2'_def)
  with u s j b fl show ?thesis unfolding m1_def by blast
qed

lemma field_take: "off + n \<le> k \<Longrightarrow> field off n (take k bs) = field off n bs"
  by (simp add: field_def take_drop min_def)

lemma file_header_length:
  "m_length (m_header (axlf_of_bytes (stream_read (take 456 (axlf_bytes x) @ rest) 0 sizeof_axlf)))
   = m_length (m_header x)"
proof -
  have "field 304 152 (stream_read (take 456 (axlf_bytes x) @ rest) 0 sizeof_axlf)
        = axlf_header_bytes (m_header x)"
    unfolding stream_read_def sizeof_axlf_def drop_0
    by (subst field_take) (simp_all add: axlf_prefix_header)
  then show ?thesis
    using m_length_of_bytes [of "m_header x" "[]"] by (simp add: axlf_of_bytes_def)
qed

lemma writeXclBinBinaryMirrorData_appends:
  assumes md: "writeXclBinBinaryMirrorData f2 m2 = Inr f3" and p2: "pos f2 = length (buf f2)"
  shows "\<exists>json. write_json False m2 = Inr json \<and>
           buf f3 = buf f2 @ MIRROR_DATA_START @ json @ MIRROR_DATA_END \<and>
           pos f3 = length (buf f3)"
proof -
  from md obtain json where j: "write_json False m2 = Inr json"
    and f3: "f3 = stream_write MIRROR_DATA_END (stream_write json (stream_write MIRROR_DATA_START f2))"
    by (auto simp: writeXclBinBinaryMirrorData_def split: sum.splits)
  have w1: "buf (stream_write MIRROR_DATA_START f2) = buf f2 @ MIRROR_DATA_START"
    and w1p: "pos (stream_write MIRROR_DATA_START f2) = length (buf (stream_write MIRROR_DATA_START f2))"
    using stream_write_append [OF p2, of MIRROR_DATA_START] by simp_all
  have w2: "buf (stream_write json (stream_write MIRROR_DATA_START f2)) = buf f2 @ MIRROR_DATA_START @ json"
    and w2p: "pos (stream_write json (stream_write MIRROR_DATA_START f2))
             = length (buf (stream_write json (stream_write MIRROR_DATA_START f2)))"
    using stream_write_append [OF w1p, of json] w1 by simp_all
  have "buf f3 = buf f2 @ MIRROR_DATA_START @ json @ MIRROR_DATA_END" and "pos f3 = length (buf f3)"
    using stream_write_append [OF w2p, of MIRROR_DATA_END] w2 by (simp_all add: f3)
  with j show ?thesis by (intro exI conjI)
qed

lemma writeXclBinBinary_passes:
  assumes W: "writeXclBinBinary K name is_open skip rnd xb = Inr (xb2, file)"
  obtains xb1 f1 m1 f2 m2 f3 m4 where
      "(if skip then Inr xb else updateUUID rnd xb) = Inr xb1"
    and "writeXclBinBinaryHeader xb1 \<lparr> buf = [], pos = 0 \<rparr>
           (addPTreeSchemaVersion pt_empty (m_SchemaVersionMirrorWrite xb1)) = (f1, m1)"
    and "buf f1 = take (sizeof_axlf - sizeof_axlf_section_header) (axlf_bytes (m_xclBinHeader xb1))"
    and "writeXclBinBinarySections K xb1 f1 m1 = Inr (f2, m2)"
    and "writeXclBinBinaryMirrorData f2 m2 = Inr f3"
    and "take (sizeof_axlf - sizeof_axlf_section_header) (buf f3) = buf f1"
    and "xb2 = xb1 \<lparr> m_xclBinHeader := set_length (word_of_nat (length (buf f3))) (m_xclBinHeader xb1) \<rparr>"
    and "writeXclBinBinaryHeader xb2 (f3 \<lparr> pos := 0 \<rparr>) pt_empty
           = (\<lparr> buf = file, pos = sizeof_axlf - sizeof_axlf_section_header \<rparr>, m4)"
    and "length file = length (buf f3)"
    and "take (sizeof_axlf - sizeof_axlf_section_header) file
           = take (sizeof_axlf - sizeof_axlf_section_header) (axlf_bytes (m_xclBinHeader xb2))"
    and "drop (sizeof_axlf - sizeof_axlf_section_header) file
           = drop (sizeof_axlf - sizeof_axlf_section_header) (buf f3)"
proof -
  have sz: "sizeof_axlf - sizeof_axlf_section_header = 456"
    by (simp add: sizeof_axlf_def sizeof_axlf_section_header_def)
  from W obtain xb1 where u: "(if skip then Inr xb else updateUUID rnd xb) = Inr xb1"
    by (auto simp: writeXclBinBinary_def split: if_splits sum.splits)
  define hw where "hw = writeXclBinBinaryHeader xb1 \<lparr> buf = [], pos = 0 \<rparr>
           (addPTreeSchemaVersion pt_empty (m_SchemaVersionMirrorWrite xb1))"
  define f1 where "f1 = fst hw"
  define m1 where "m1 = snd hw"
  have h1: "writeXclBinBinaryHeader xb1 \<lparr> buf = [], pos = 0 \<rparr>
           (addPTreeSchemaVersion pt_empty (m_SchemaVersionMirrorWrite xb1)) = (f1, m1)"
    by (simp add: f1_def m1_def hw_def)
  have f1h: "f1 = header_written xb1"
    unfolding f1_def hw_def by (rule fst_writeXclBinBinaryHeader)
  have b1: "buf f1 = take (sizeof_axlf - sizeof_axlf_section_header) (axlf_bytes (m_xclBinHeader xb1))"
    and p1: "pos f1 = length (buf f1)"
    unfolding f1h sz by (simp_all add: header_written_buf)
  have n: "name \<noteq> []" and o: "is_open"
    using W by (auto simp: writeXclBinBinary_def split: if_splits)
  have W': "(case writeXclBinBinarySections K xb1 f1 m1 of
             Inl e \<Rightarrow> Inl e
           | Inr sw \<Rightarrow>
          (case writeXclBinBinaryMirrorData (fst sw) (snd sw) of
             Inl e \<Rightarrow> Inl e
           | Inr ofXclBin \<Rightarrow>
               Inr (xb1 \<lparr> m_xclBinHeader :=
                                  set_length (word_of_nat (length (buf ofXclBin))) (m_xclBinHeader xb1) \<rparr>,
                    buf (fst (writeXclBinBinaryHeader
                       (xb1 \<lparr> m_xclBinHeader :=
                                  set_length (word_of_nat (length (buf ofXclBin))) (m_xclBinHeader xb1) \<rparr>)
                       (ofXclBin \<lparr> pos := 0 \<rparr>) pt_empty))))) = Inr (xb2, file)"
    using W n o u unfolding writeXclBinBinary_def Let_def f1_def m1_def hw_def by simp
  then obtain f2 m2 where s: "writeXclBinBinarySections K xb1 f1 m1 = Inr (f2, m2)"
    by (cases "writeXclBinBinarySections K xb1 f1 m1") auto
  with W' obtain f3 where md: "writeXclBinBinaryMirrorData f2 m2 = Inr f3"
    by (cases "writeXclBinBinaryMirrorData f2 m2") auto
  define X where "X = xb1 \<lparr> m_xclBinHeader := set_length (word_of_nat (length (buf f3))) (m_xclBinHeader xb1) \<rparr>"
  have c: "(Inr (X, buf (fst (writeXclBinBinaryHeader X (f3 \<lparr> pos := 0 \<rparr>) pt_empty)))
             :: xcl_error + XclBin \<times> bytes) = Inr (xb2, file)"
    using W' by (auto simp add: s md X_def)
  have xX: "xb2 = X" using c by simp
  have fl: "file = buf (fst (writeXclBinBinaryHeader xb2 (f3 \<lparr> pos := 0 \<rparr>) pt_empty))"
    using c unfolding xX by simp
  have x2: "xb2 = xb1 \<lparr> m_xclBinHeader := set_length (word_of_nat (length (buf f3))) (m_xclBinHeader xb1) \<rparr>"
    unfolding xX X_def ..
  from writeXclBinBinarySections_appends [OF s p1] obtain body where
    b2: "buf f2 = buf f1 @ body" and p2: "pos f2 = length (buf f2)"
    by auto
  from writeXclBinBinaryMirrorData_appends [OF md p2] obtain json where
    b3: "buf f3 = buf f2 @ MIRROR_DATA_START @ json @ MIRROR_DATA_END"
    by auto
  have l1: "length (buf f1) = 456" unfolding b1 sz by simp
  have t3: "take (sizeof_axlf - sizeof_axlf_section_header) (buf f3) = buf f1"
    unfolding sz b3 b2 using l1 by simp
  have l3: "456 \<le> length (buf f3)" unfolding b3 b2 using l1 by simp
  have fil: "file = take 456 (axlf_bytes (m_xclBinHeader xb2)) @ drop 456 (buf f3)"
    unfolding fl by (rule rewrite_header [OF l3])
  have lf: "length file = length (buf f3)"
    unfolding fil using l3 by simp
  have tf: "take (sizeof_axlf - sizeof_axlf_section_header) file
           = take (sizeof_axlf - sizeof_axlf_section_header) (axlf_bytes (m_xclBinHeader xb2))"
    unfolding sz by (subst fil) simp
  have df: "drop (sizeof_axlf - sizeof_axlf_section_header) file
           = drop (sizeof_axlf - sizeof_axlf_section_header) (buf f3)"
    unfolding sz by (subst fil) simp
  define m4 where "m4 = snd (writeXclBinBinaryHeader xb2 (f3 \<lparr> pos := 0 \<rparr>) pt_empty)"
  have pf: "pos (fst (writeXclBinBinaryHeader xb2 (f3 \<lparr> pos := 0 \<rparr>) pt_empty)) = 456"
    by (simp add: writeXclBinBinaryHeader_def stream_write_def sizeof_axlf_def sizeof_axlf_section_header_def)
  have h2: "writeXclBinBinaryHeader xb2 (f3 \<lparr> pos := 0 \<rparr>) pt_empty
           = (\<lparr> buf = file, pos = sizeof_axlf - sizeof_axlf_section_header \<rparr>, m4)"
    unfolding sz m4_def fl using pf
    by (cases "writeXclBinBinaryHeader xb2 (f3 \<lparr> pos := 0 \<rparr>) pt_empty") auto
  show thesis by (rule that [OF u h1 b1 s md t3 x2 h2 lf tf df])
qed

text \<open>
  Claim C4. After a successful \<^verbatim>\<open>writeXclBinBinary\<close> the total-length field of the header
  in the file, and of the header in memory, is the number of bytes of the file (as a
  64-bit value; the number itself when the file is shorter than \<open>2^64\<close> bytes). The header
  is written twice. The first write, on the empty file, puts the header with the length
  not yet known at the bytes from 0 to \<^verbatim>\<open>sizeof(axlf) - sizeof(axlf_section_header)\<close>; the
  sections and the mirror follow and leave these bytes as they are. The length of that
  stream is stored in the header, and the second write, from position 0 again, puts the
  header over the same bytes: the file has the length of the stream of the first pass,
  the new header at its start, and every byte after the header as the first pass left it.
\<close>

theorem writeXclBinBinary_length:
  assumes "writeXclBinBinary K name is_open skip rnd xb = Inr (xb2, file)"
  shows "m_length (m_header (axlf_of_bytes (stream_read file 0 sizeof_axlf))) = word_of_nat (length file)
     \<and> (length file < 2 ^ 64 \<longrightarrow>
          unat (m_length (m_header (axlf_of_bytes (stream_read file 0 sizeof_axlf)))) = length file)
     \<and> m_length (m_header (m_xclBinHeader xb2)) = word_of_nat (length file)
     \<and> (\<exists>xb1 f1 m1 f2 m2 f3 m4.
          (if skip then Inr xb else updateUUID rnd xb) = Inr xb1
        \<and> writeXclBinBinaryHeader xb1 \<lparr> buf = [], pos = 0 \<rparr>
             (addPTreeSchemaVersion pt_empty (m_SchemaVersionMirrorWrite xb1)) = (f1, m1)
        \<and> buf f1 = take (sizeof_axlf - sizeof_axlf_section_header) (axlf_bytes (m_xclBinHeader xb1))
        \<and> writeXclBinBinarySections K xb1 f1 m1 = Inr (f2, m2)
        \<and> writeXclBinBinaryMirrorData f2 m2 = Inr f3
        \<and> take (sizeof_axlf - sizeof_axlf_section_header) (buf f3) = buf f1
        \<and> xb2 = xb1 \<lparr> m_xclBinHeader :=
                         set_length (word_of_nat (length (buf f3))) (m_xclBinHeader xb1) \<rparr>
        \<and> writeXclBinBinaryHeader xb2 (f3 \<lparr> pos := 0 \<rparr>) pt_empty
             = (\<lparr> buf = file, pos = sizeof_axlf - sizeof_axlf_section_header \<rparr>, m4)
        \<and> length file = length (buf f3)
        \<and> take (sizeof_axlf - sizeof_axlf_section_header) file
             = take (sizeof_axlf - sizeof_axlf_section_header) (axlf_bytes (m_xclBinHeader xb2))
        \<and> drop (sizeof_axlf - sizeof_axlf_section_header) file
             = drop (sizeof_axlf - sizeof_axlf_section_header) (buf f3))"
proof -
  from writeXclBinBinary_result [OF assms] obtain xb1 f2 m2 json body where
    fl: "file = take 456 (axlf_bytes (m_xclBinHeader xb2)) @ body @
               MIRROR_DATA_START @ json @ MIRROR_DATA_END"
    and x2: "xb2 = xb1 \<lparr> m_xclBinHeader := set_length (word_of_nat (length file)) (m_xclBinHeader xb1) \<rparr>"
    by blast
  have ml: "m_length (m_header (m_xclBinHeader xb2)) = word_of_nat (length file)"
    by (subst x2) (simp add: set_length_def)
  have fh: "m_length (m_header (axlf_of_bytes (stream_read file 0 sizeof_axlf))) = word_of_nat (length file)"
    by (subst fl) (simp only: file_header_length ml)
  have un: "length file < 2 ^ 64 \<longrightarrow>
          unat (m_length (m_header (axlf_of_bytes (stream_read file 0 sizeof_axlf)))) = length file"
    unfolding fh by (simp add: unat_of_nat)
  have ex: "\<exists>xb1 f1 m1 f2 m2 f3 m4.
          (if skip then Inr xb else updateUUID rnd xb) = Inr xb1
        \<and> writeXclBinBinaryHeader xb1 \<lparr> buf = [], pos = 0 \<rparr>
             (addPTreeSchemaVersion pt_empty (m_SchemaVersionMirrorWrite xb1)) = (f1, m1)
        \<and> buf f1 = take (sizeof_axlf - sizeof_axlf_section_header) (axlf_bytes (m_xclBinHeader xb1))
        \<and> writeXclBinBinarySections K xb1 f1 m1 = Inr (f2, m2)
        \<and> writeXclBinBinaryMirrorData f2 m2 = Inr f3
        \<and> take (sizeof_axlf - sizeof_axlf_section_header) (buf f3) = buf f1
        \<and> xb2 = xb1 \<lparr> m_xclBinHeader :=
                         set_length (word_of_nat (length (buf f3))) (m_xclBinHeader xb1) \<rparr>
        \<and> writeXclBinBinaryHeader xb2 (f3 \<lparr> pos := 0 \<rparr>) pt_empty
             = (\<lparr> buf = file, pos = sizeof_axlf - sizeof_axlf_section_header \<rparr>, m4)
        \<and> length file = length (buf f3)
        \<and> take (sizeof_axlf - sizeof_axlf_section_header) file
             = take (sizeof_axlf - sizeof_axlf_section_header) (axlf_bytes (m_xclBinHeader xb2))
        \<and> drop (sizeof_axlf - sizeof_axlf_section_header) file
             = drop (sizeof_axlf - sizeof_axlf_section_header) (buf f3)"
  proof (rule writeXclBinBinary_passes [OF assms])
    fix xb1 f1 m1 f2 m2 f3 m4
    assume "(if skip then Inr xb else updateUUID rnd xb) = Inr xb1"
      and "writeXclBinBinaryHeader xb1 \<lparr> buf = [], pos = 0 \<rparr>
             (addPTreeSchemaVersion pt_empty (m_SchemaVersionMirrorWrite xb1)) = (f1, m1)"
      and "buf f1 = take (sizeof_axlf - sizeof_axlf_section_header) (axlf_bytes (m_xclBinHeader xb1))"
      and "writeXclBinBinarySections K xb1 f1 m1 = Inr (f2, m2)"
      and "writeXclBinBinaryMirrorData f2 m2 = Inr f3"
      and "take (sizeof_axlf - sizeof_axlf_section_header) (buf f3) = buf f1"
      and "xb2 = xb1 \<lparr> m_xclBinHeader :=
                         set_length (word_of_nat (length (buf f3))) (m_xclBinHeader xb1) \<rparr>"
      and "writeXclBinBinaryHeader xb2 (f3 \<lparr> pos := 0 \<rparr>) pt_empty
             = (\<lparr> buf = file, pos = sizeof_axlf - sizeof_axlf_section_header \<rparr>, m4)"
      and "length file = length (buf f3)"
      and "take (sizeof_axlf - sizeof_axlf_section_header) file
             = take (sizeof_axlf - sizeof_axlf_section_header) (axlf_bytes (m_xclBinHeader xb2))"
      and "drop (sizeof_axlf - sizeof_axlf_section_header) file
             = drop (sizeof_axlf - sizeof_axlf_section_header) (buf f3)"
    then show ?thesis by (intro exI conjI)
  qed
  show ?thesis by (intro conjI) (rule fh, rule un, rule ml, rule ex)
qed

lemma addHeaderMirrorData_eq:
  "addHeaderMirrorData x pt_empty =
     PTree [] [(''Magic'', PTree (c_str (getMagicAsString x)) []),
               (''SignatureLength'', PTree (c_str (getSignatureLengthAsString x)) []),
               (''KeyBlock'', PTree (c_str (getKeyBlockAsString x)) []),
               (''UniqueID'', PTree (c_str (getUniqueIdAsString x)) []),
               (''TimeStamp'', PTree (c_str (getTimeStampAsString x)) []),
               (''FeatureRomTimeStamp'', PTree (c_str (getFeatureRomTimeStampAsString x)) []),
               (''Version'', PTree (c_str (getVersionAsString x)) []),
               (''Mode'', PTree (c_str (getModeAsString x)) []),
               (''FeatureRomUUID'', PTree (c_str (getFeatureRomUuidAsString x)) []),
               (''PlatformVBNV'', PTree (c_str (getPlatformVbnvAsString x)) []),
               (''XclBinUUID'', PTree (c_str (getXclBinUuidAsString x)) []),
               (''DebugBin'', PTree (c_str (getDebugBinAsString x)) [])]"
  by (simp add: addHeaderMirrorData_def pt_put_def pt_empty_def)

lemma addPTreeSchemaVersion_eq:
  "addPTreeSchemaVersion pt_empty sv =
     PTree [] [(''schema_version'',
                PTree [] [(''major'', PTree (format_d (sint (major sv))) []),
                          (''minor'', PTree (format_d (sint (minor sv))) []),
                          (''patch'', PTree (format_d (sint (patch sv))) [])])]"
  by (simp add: addPTreeSchemaVersion_def pt_put_def pt_empty_def pt_add_child_def)

lemma first_mirror_eq:
  "first_mirror xb =
     PTree [] [(''schema_version'',
                PTree [] [(''major'', PTree (format_d (sint (major (m_SchemaVersionMirrorWrite xb)))) []),
                          (''minor'', PTree (format_d (sint (minor (m_SchemaVersionMirrorWrite xb)))) []),
                          (''patch'', PTree (format_d (sint (patch (m_SchemaVersionMirrorWrite xb)))) [])]),
               (''header'', addHeaderMirrorData (m_xclBinHeader xb) pt_empty)]"
  by (simp add: first_mirror_def addPTreeSchemaVersion_eq pt_add_child_def)

lemma section_mirror_eq:
  "section_mirror K s sh =
     (case (if doesSupportAddFormatType K (m_eKind s) FT_JSON \<and>
               doesSupportDumpFormatType K (m_eKind s) FT_JSON
            then getPayload K s else Inr pt_empty) of
        Inl e \<Rightarrow> Inl e
      | Inr p \<Rightarrow>
          Inr (PTree [] ([(''Kind'', PTree (format_d (sint (m_sectionKind sh))) []),
                          (''Name'', PTree (c_str (m_sectionName sh)) []),
                          (''Offset'', PTree (''0x'' @ format_x (unat (m_sectionOffset sh))) []),
                          (''Size'', PTree (''0x'' @ format_x (unat (m_sectionSize sh))) [])]
                         @ (if pt_children p \<noteq> [] then [(''payload'', p)] else []))))"
  by (simp add: section_mirror_def pt_put_def pt_empty_def pt_add_child_def Let_def split: sum.splits)

lemma write_sections_mirror:
  "write_sections K zs f m = Inr (f', m') \<Longrightarrow>
   (\<forall>z \<in> set zs. \<not> isl (section_mirror K (fst z) (snd z))) \<and>
   m' = PTree (pt_data m)
          (pt_children m @ map (\<lambda>z. (''section_header'', projr (section_mirror K (fst z) (snd z)))) zs)"
proof (induction zs arbitrary: f m)
  case Nil
  then show ?case by simp
next
  case (Cons z zs)
  obtain s sh where z: "z = (s, sh)" by (cases z)
  define f1 where "f1 = (if bytesToAlign (pos f mod 4294967296) \<noteq> 0
       then stream_write (replicate (bytesToAlign (pos f mod 4294967296)) (CHR 0x00)) f else f)"
  define f2 where "f2 = writeXclBinSectionBuffer s f1"
  from Cons.prems obtain e where e: "section_mirror K s sh = Inr e"
    and r: "write_sections K zs f2 (pt_add_child ''section_header'' e m) = Inr (f', m')"
    unfolding z f2_def f1_def
    by (auto simp: Let_def split: if_splits sum.splits)
  from Cons.IH [OF r] e show ?case
    by (simp add: z pt_add_child_def)
qed

lemma first_mirror_data: "pt_data (first_mirror xb) = []"
  by (simp add: first_mirror_eq)

lemma first_mirror_collapse: "PTree [] (pt_children (first_mirror xb)) = first_mirror xb"
  using first_mirror_data [of xb] ptree.collapse [of "first_mirror xb"] by simp

lemma writeXclBinBinarySections_mirror:
  assumes "writeXclBinBinarySections K xb f (first_mirror xb) = Inr (f', m')"
  shows "m' = written_mirror K xb"
proof (cases "m_sections xb = []")
  case True
  then have "m' = first_mirror xb" using assms
    by (simp add: writeXclBinBinarySections_def)
  then show ?thesis using True
    by (simp add: written_mirror_def first_mirror_collapse)
next
  case False
  then have "write_sections K (zip (m_sections xb) (section_headers_of xb))
       (stream_write (concat (map section_header_bytes (section_headers_of xb))) f) (first_mirror xb)
       = Inr (f', m')"
    using assms by (simp add: writeXclBinBinarySections_def Let_def)
  from write_sections_mirror [OF this] show ?thesis
    by (simp add: written_mirror_def first_mirror_data)
qed

lemma writeXclBinBinary_succeeds:
  assumes "name \<noteq> []" and "is_open"
    and "(if skip then Inr xb else updateUUID rnd xb) = Inr xb1"
    and "\<not> isl (writeXclBinBinarySections K xb1 (header_written xb1) (first_mirror xb1))"
    and "verify_json 0 (written_mirror K xb1)"
  shows "\<not> isl (writeXclBinBinary K name is_open skip rnd xb)"
proof -
  from assms(4) obtain f2 m2 where
    s: "writeXclBinBinarySections K xb1 (header_written xb1) (first_mirror xb1) = Inr (f2, m2)"
    by (cases "writeXclBinBinarySections K xb1 (header_written xb1) (first_mirror xb1)") auto
  have m2: "m2 = written_mirror K xb1" by (rule writeXclBinBinarySections_mirror [OF s])
  have j: "write_json False m2 = Inr (write_json_helper False 0 m2 @ [CHR 0x0A])"
    using assms(5) m2 by (simp add: write_json_def)
  show ?thesis
    using assms(1,2,3) s j
    by (simp add: writeXclBinBinary_def Let_def fst_writeXclBinBinaryHeader
        writeXclBinBinaryMirrorData_def
        writeXclBinBinaryHeader_def [of xb1 "\<lparr>buf = [], pos = 0\<rparr>"] header_written_def
        first_mirror_def [symmetric])
qed

lemma writeXclBinBinarySections_file:
  assumes w: "writeXclBinBinarySections K xb f m = Inr (f', m')"
    and lf: "length (buf f) = 456" and pf: "pos f = 456"
    and sz: "\<forall>s \<in> set (m_sections xb). length (m_pBuffer s) < 2 ^ 63"
    and n: "length (m_sections xb) < 2 ^ 32"
  shows "buf f' = buf f @ concat (map section_header_bytes (section_headers_of xb)) @
                  payload_bytes (456 + 40 * length (m_sections xb)) (m_sections xb)
       \<and> map (\<lambda>sh. unat (m_sectionOffset sh)) (section_headers_of xb)
           = offsets_from (456 + 40 * length (m_sections xb)) (m_sections xb)
       \<and> map (\<lambda>sh. unat (m_sectionSize sh)) (section_headers_of xb)
           = map (\<lambda>s. length (m_pBuffer s)) (m_sections xb)"
proof (cases "m_sections xb = []")
  case True
  then show ?thesis using w by (simp add: writeXclBinBinarySections_def section_headers_of_def)
next
  case False
  define ss where "ss = m_sections xb"
  define p where "p = 456 + 40 * length ss"
  define cur where "cur = (word_of_nat p :: 64 word)"
  define hs where "hs = populate_section_headers cur ss"
  define table where "table = concat (map section_header_bytes hs)"
  define f1 where "f1 = stream_write table f"
  have hs_eq: "section_headers_of xb = hs"
    by (simp add: section_headers_of_def hs_def cur_def p_def ss_def
        sizeof_axlf_def sizeof_axlf_section_header_def)
  have f1b: "buf f1 = buf f @ table" "pos f1 = length (buf f1)" "pos f1 = p"
    using stream_write_append [of f table] lf pf
    by (simp_all add: f1_def table_def p_def hs_def)
  have p64: "p < 2 ^ 64" using n by (simp add: p_def ss_def)
  have ucur: "unat cur = pos f1"
    using p64 f1b(3) by (simp add: cur_def unat_of_nat)
  have bound: "pos f1 + 8 \<le> 2 ^ 64" using n f1b(3) by (simp add: p_def ss_def)
  from w False have ws: "write_sections K (zip ss hs) f1 m = Inr (f', m')"
    by (simp add: writeXclBinBinarySections_def Let_def hs_eq f1_def table_def ss_def)
  have sz': "\<forall>s \<in> set ss. length (m_pBuffer s) < 2 ^ 63" using sz by (simp add: ss_def)
  note L = write_sections_layout [OF ws [unfolded hs_def] f1b(2) ucur bound sz']
  show ?thesis
    unfolding hs_eq using L f1b by (simp add: hs_def table_def p_def ss_def)
qed

lemma pt_children_empty: "pt_children pt_empty = []" and pt_data_empty: "pt_data pt_empty = []"
  by (simp_all add: pt_empty_def)

lemma verify_json_small: "verify_json 0 (written_mirror small_class xb)"
  by (auto simp: written_mirror_def first_mirror_eq addHeaderMirrorData_eq section_mirror_eq
      small_class_def pt_children_empty)

lemma small_write_ok:
  "\<not> isl (writeXclBinBinary small_class ''a.xclbin'' True True (0, 0) small_xclbin)"
proof (rule writeXclBinBinary_succeeds [where ?xb1.0 = small_xclbin])
  show "''a.xclbin'' \<noteq> []" by simp
  show True by simp
  show "(if True then Inr small_xclbin else updateUUID (0, 0) small_xclbin) = Inr small_xclbin"
    by simp
  show "verify_json 0 (written_mirror small_class small_xclbin)" by (rule verify_json_small)
  show "\<not> isl (writeXclBinBinarySections small_class small_xclbin (header_written small_xclbin)
                 (first_mirror small_xclbin))"
  proof (rule writeXclBinBinarySections_succeeds)
    show "length (buf (header_written small_xclbin)) = sizeof_axlf - sizeof_axlf_section_header"
      and "pos (header_written small_xclbin) = sizeof_axlf - sizeof_axlf_section_header"
      using header_written_props by simp_all
    show "\<forall>s \<in> set (m_sections small_xclbin). length (m_pBuffer s) < 2 ^ 63"
      by (simp add: small_xclbin_def)
    show "\<forall>o' \<in> set (offsets_from (sizeof_axlf - sizeof_axlf_section_header +
            sizeof_axlf_section_header * length (m_sections small_xclbin)) (m_sections small_xclbin)). o' < 2 ^ 32"
      unfolding small_offsets by simp
    show "\<forall>s \<in> set (m_sections small_xclbin). \<forall>sh. \<not> isl (section_mirror small_class s sh)"
      using section_mirror_small by simp
  qed
qed

lemma small_json_length:
  "length (write_json_helper False 0 (written_mirror small_class small_xclbin)) < 4000"
  by code_simp

lemma updateUUID_sections:
  "(if skip then Inr xb else updateUUID rnd xb) = Inr xb1 \<Longrightarrow>
   m_sections xb1 = m_sections xb \<and>
   m_SchemaVersionMirrorWrite xb1 = m_SchemaVersionMirrorWrite xb \<and>
   (skip \<longrightarrow> xb1 = xb) \<and>
   (\<not> skip \<longrightarrow> (\<exists>u. hexStringToBinaryBuffer (hex16 (fst rnd) @ hex16 (snd rnd)) 16 = Inr u \<and>
                    m_xclBinHeader xb1 = set_uuid u (m_xclBinHeader xb)))"
  by (auto simp: updateUUID_def split: if_splits sum.splits)

lemma section_headers_of_cong:
  "m_sections xb1 = m_sections xb \<Longrightarrow> section_headers_of xb1 = section_headers_of xb"
  by (simp add: section_headers_of_def)

lemma writeXclBinBinary_file:
  assumes w: "writeXclBinBinary K name is_open skip rnd xb = Inr (xb2, file)"
    and sz: "\<forall>s \<in> set (m_sections xb). length (m_pBuffer s) < 2 ^ 63"
    and n: "length (m_sections xb) < 2 ^ 32"
  obtains xb1 where
      "(if skip then Inr xb else updateUUID rnd xb) = Inr xb1"
    and "file = take 456 (axlf_bytes (m_xclBinHeader xb2)) @
             concat (map section_header_bytes (section_headers_of xb)) @
             payload_bytes (456 + 40 * length (m_sections xb)) (m_sections xb) @
             MIRROR_DATA_START @
             (write_json_helper False 0 (written_mirror K xb1) @ [CHR 0x0A]) @
             MIRROR_DATA_END"
    and "verify_json 0 (written_mirror K xb1)"
    and "xb2 = xb1 \<lparr> m_xclBinHeader := set_length (word_of_nat (length file)) (m_xclBinHeader xb1) \<rparr>"
    and "map (\<lambda>sh. unat (m_sectionOffset sh)) (section_headers_of xb)
           = offsets_from (456 + 40 * length (m_sections xb)) (m_sections xb)"
    and "map (\<lambda>sh. unat (m_sectionSize sh)) (section_headers_of xb)
           = map (\<lambda>s. length (m_pBuffer s)) (m_sections xb)"
    and "\<forall>z \<in> set (zip (m_sections xb) (section_headers_of xb)).
          \<not> isl (section_mirror K (fst z) (snd z))"
proof -
  from writeXclBinBinary_result [OF w] obtain xb1 f2 m2 json body where
    u: "(if skip then Inr xb else updateUUID rnd xb) = Inr xb1"
    and s: "writeXclBinBinarySections K xb1 (header_written xb1) (first_mirror xb1) = Inr (f2, m2)"
    and j: "write_json False m2 = Inr json"
    and b: "buf f2 = take 456 (axlf_bytes (m_xclBinHeader xb1)) @ body"
    and fl: "file = take 456 (axlf_bytes (m_xclBinHeader xb2)) @ body @
               MIRROR_DATA_START @ json @ MIRROR_DATA_END"
    and x2: "xb2 = xb1 \<lparr> m_xclBinHeader := set_length (word_of_nat (length file)) (m_xclBinHeader xb1) \<rparr>"
    by blast
  have ss: "m_sections xb1 = m_sections xb" using updateUUID_sections [OF u] by simp
  have hh: "section_headers_of xb1 = section_headers_of xb" by (rule section_headers_of_cong [OF ss])
  have m2: "m2 = written_mirror K xb1" by (rule writeXclBinBinarySections_mirror [OF s])
  have vj: "verify_json 0 (written_mirror K xb1)"
    using j m2 by (auto simp: write_json_def split: if_splits)
  have js: "json = write_json_helper False 0 (written_mirror K xb1) @ [CHR 0x0A]"
    using j m2 by (auto simp: write_json_def split: if_splits)
  note F = writeXclBinBinarySections_file [OF s _ _ sz [folded ss] n [folded ss], unfolded ss hh]
  have F': "buf f2 = buf (header_written xb1) @ concat (map section_header_bytes (section_headers_of xb)) @
                  payload_bytes (456 + 40 * length (m_sections xb)) (m_sections xb)"
    and o: "map (\<lambda>sh. unat (m_sectionOffset sh)) (section_headers_of xb)
           = offsets_from (456 + 40 * length (m_sections xb)) (m_sections xb)"
    and z: "map (\<lambda>sh. unat (m_sectionSize sh)) (section_headers_of xb)
           = map (\<lambda>s. length (m_pBuffer s)) (m_sections xb)"
    using F by (simp_all add: header_written_buf)
  have body: "body = concat (map section_header_bytes (section_headers_of xb)) @
                  payload_bytes (456 + 40 * length (m_sections xb)) (m_sections xb)"
    using F' b by (simp add: header_written_buf)
  have mi: "\<forall>z \<in> set (zip (m_sections xb) (section_headers_of xb)).
          \<not> isl (section_mirror K (fst z) (snd z))"
  proof (cases "m_sections xb = []")
    case True
    then show ?thesis by simp
  next
    case False
    then have "write_sections K (zip (m_sections xb1) (section_headers_of xb1))
       (stream_write (concat (map section_header_bytes (section_headers_of xb1))) (header_written xb1))
       (first_mirror xb1) = Inr (f2, m2)"
      using s ss by (simp add: writeXclBinBinarySections_def Let_def)
    from write_sections_mirror [OF this] show ?thesis by (simp add: ss hh)
  qed
  have fl': "file = take 456 (axlf_bytes (m_xclBinHeader xb2)) @
             concat (map section_header_bytes (section_headers_of xb)) @
             payload_bytes (456 + 40 * length (m_sections xb)) (m_sections xb) @
             MIRROR_DATA_START @
             (write_json_helper False 0 (written_mirror K xb1) @ [CHR 0x0A]) @
             MIRROR_DATA_END"
    using fl body js by simp
  show thesis by (rule that [OF u fl' vj x2 o z mi])
qed

lemma small_sections_bounds:
  "(\<forall>s \<in> set (m_sections small_xclbin). length (m_pBuffer s) < 2 ^ 63) \<and>
   length (m_sections small_xclbin) < 2 ^ 32"
  by (simp add: small_xclbin_def)

lemma length_payload_bytes:
  "length (payload_bytes p ss) \<le> 8 * length ss + sum_list (map (\<lambda>s. length (m_pBuffer s)) ss)"
proof (induction ss arbitrary: p)
  case Nil
  then show ?case by simp
next
  case (Cons s ss)
  have "bytesToAlign p \<le> 8" by (simp add: bytesToAlign_def)
  then show ?case using Cons [of "p + bytesToAlign p + length (m_pBuffer s)"] by simp
qed

lemma length_section_headers_of [simp]:
  "length (section_headers_of xb) = length (m_sections xb)"
  by (simp add: section_headers_of_def del: populate_section_headers.simps)

lemma length_payload_bytes_small:
  "length (payload_bytes (456 + 40 * length (m_sections small_xclbin)) (m_sections small_xclbin)) < 100"
proof -
  have "8 * length (m_sections small_xclbin) +
        sum_list (map (\<lambda>s. length (m_pBuffer s)) (m_sections small_xclbin)) < 100"
    by (simp add: small_xclbin_def)
  then show ?thesis
    using length_payload_bytes [of "456 + 40 * length (m_sections small_xclbin)" "m_sections small_xclbin"]
    by linarith
qed

lemma length_table_small:
  "length (concat (map section_header_bytes (section_headers_of small_xclbin))) = 120"
  by (simp add: small_xclbin_def)

lemma small_file_length:
  assumes "writeXclBinBinary small_class ''a.xclbin'' True True (0, 0) small_xclbin = Inr (xb2, file)"
  shows "length file < 5000"
proof -
  obtain xb1 where u: "(if True then Inr small_xclbin else updateUUID (0, 0) small_xclbin) = Inr xb1"
    and fl: "file = take 456 (axlf_bytes (m_xclBinHeader xb2)) @
             concat (map section_header_bytes (section_headers_of small_xclbin)) @
             payload_bytes (456 + 40 * length (m_sections small_xclbin)) (m_sections small_xclbin) @
             MIRROR_DATA_START @
             (write_json_helper False 0 (written_mirror small_class xb1) @ [CHR 0x0A]) @
             MIRROR_DATA_END"
    by (rule writeXclBinBinary_file [OF assms small_sections_bounds [THEN conjunct1]
          small_sections_bounds [THEN conjunct2]])
  have x: "xb1 = small_xclbin" using u by simp
  have "length file \<le> 456 + 120 + length (payload_bytes (456 + 40 * length (m_sections small_xclbin)) (m_sections small_xclbin))
       + length MIRROR_DATA_START + (length (write_json_helper False 0 (written_mirror small_class small_xclbin)) + 1)
       + length MIRROR_DATA_END"
    unfolding fl x
    by (simp only: length_append length_take length_axlf_bytes length_table_small list.size)
  also have "\<dots> < 5000"
    using length_payload_bytes_small small_json_length
    by (simp add: MIRROR_DATA_START_def MIRROR_DATA_END_def del: write_json_helper.simps)
  finally show ?thesis .
qed

theorem writeXclBinBinary_length_witness:
  "\<not> isl (writeXclBinBinary small_class ''a.xclbin'' True True (0, 0) small_xclbin)
   \<and> length (snd (projr (writeXclBinBinary small_class ''a.xclbin'' True True (0, 0) small_xclbin))) < 2 ^ 64
   \<and> unat (m_length (m_header (axlf_of_bytes (stream_read
        (snd (projr (writeXclBinBinary small_class ''a.xclbin'' True True (0, 0) small_xclbin))) 0 sizeof_axlf))))
      = length (snd (projr (writeXclBinBinary small_class ''a.xclbin'' True True (0, 0) small_xclbin)))
   \<and> m_length (m_header (m_xclBinHeader
        (fst (projr (writeXclBinBinary small_class ''a.xclbin'' True True (0, 0) small_xclbin)))))
      = word_of_nat (length (snd (projr (writeXclBinBinary small_class ''a.xclbin'' True True (0, 0) small_xclbin))))
   \<and> (\<exists>f1 m1 f2 m2 f3 m4.
          writeXclBinBinaryHeader small_xclbin \<lparr> buf = [], pos = 0 \<rparr>
             (addPTreeSchemaVersion pt_empty (m_SchemaVersionMirrorWrite small_xclbin)) = (f1, m1)
        \<and> buf f1 = take 456 (axlf_bytes (m_xclBinHeader small_xclbin))
        \<and> writeXclBinBinarySections small_class small_xclbin f1 m1 = Inr (f2, m2)
        \<and> writeXclBinBinaryMirrorData f2 m2 = Inr f3
        \<and> take 456 (buf f3) = buf f1
        \<and> fst (projr (writeXclBinBinary small_class ''a.xclbin'' True True (0, 0) small_xclbin))
            = small_xclbin \<lparr> m_xclBinHeader :=
                         set_length (word_of_nat (length (buf f3))) (m_xclBinHeader small_xclbin) \<rparr>
        \<and> writeXclBinBinaryHeader
             (fst (projr (writeXclBinBinary small_class ''a.xclbin'' True True (0, 0) small_xclbin)))
             (f3 \<lparr> pos := 0 \<rparr>) pt_empty
             = (\<lparr> buf = snd (projr (writeXclBinBinary small_class ''a.xclbin'' True True (0, 0) small_xclbin)),
                  pos = 456 \<rparr>, m4)
        \<and> length (snd (projr (writeXclBinBinary small_class ''a.xclbin'' True True (0, 0) small_xclbin)))
            = length (buf f3)
        \<and> drop 456 (snd (projr (writeXclBinBinary small_class ''a.xclbin'' True True (0, 0) small_xclbin)))
            = drop 456 (buf f3))"
proof -
  define W where "W = writeXclBinBinary small_class ''a.xclbin'' True True (0, 0) small_xclbin"
  have sz: "sizeof_axlf - sizeof_axlf_section_header = 456"
    by (simp add: sizeof_axlf_def sizeof_axlf_section_header_def)
  have ok: "\<not> isl W" unfolding W_def by (rule small_write_ok)
  then have W: "writeXclBinBinary small_class ''a.xclbin'' True True (0, 0) small_xclbin
       = Inr (fst (projr W), snd (projr W))"
    unfolding W_def by (cases "writeXclBinBinary small_class ''a.xclbin'' True True (0, 0) small_xclbin") simp_all
  have len: "length (snd (projr W)) < 2 ^ 64"
    using small_file_length [OF W] by simp
  note T = writeXclBinBinary_length [OF W]
  have a: "unat (m_length (m_header (axlf_of_bytes (stream_read (snd (projr W)) 0 sizeof_axlf))))
      = length (snd (projr W))"
    by (rule T [THEN conjunct2, THEN conjunct1, THEN mp, OF len])
  have b: "m_length (m_header (m_xclBinHeader (fst (projr W)))) = word_of_nat (length (snd (projr W)))"
    by (rule T [THEN conjunct2, THEN conjunct2, THEN conjunct1])
  from T [THEN conjunct2, THEN conjunct2, THEN conjunct2] obtain xb1 f1 m1 f2 m2 f3 m4 where
    H: "(if True then Inr small_xclbin else updateUUID (0, 0) small_xclbin) = Inr xb1
        \<and> writeXclBinBinaryHeader xb1 \<lparr> buf = [], pos = 0 \<rparr>
             (addPTreeSchemaVersion pt_empty (m_SchemaVersionMirrorWrite xb1)) = (f1, m1)
        \<and> buf f1 = take (sizeof_axlf - sizeof_axlf_section_header) (axlf_bytes (m_xclBinHeader xb1))
        \<and> writeXclBinBinarySections small_class xb1 f1 m1 = Inr (f2, m2)
        \<and> writeXclBinBinaryMirrorData f2 m2 = Inr f3
        \<and> take (sizeof_axlf - sizeof_axlf_section_header) (buf f3) = buf f1
        \<and> fst (projr W) = xb1 \<lparr> m_xclBinHeader :=
                         set_length (word_of_nat (length (buf f3))) (m_xclBinHeader xb1) \<rparr>
        \<and> writeXclBinBinaryHeader (fst (projr W)) (f3 \<lparr> pos := 0 \<rparr>) pt_empty
             = (\<lparr> buf = snd (projr W), pos = sizeof_axlf - sizeof_axlf_section_header \<rparr>, m4)
        \<and> length (snd (projr W)) = length (buf f3)
        \<and> take (sizeof_axlf - sizeof_axlf_section_header) (snd (projr W))
             = take (sizeof_axlf - sizeof_axlf_section_header) (axlf_bytes (m_xclBinHeader (fst (projr W))))
        \<and> drop (sizeof_axlf - sizeof_axlf_section_header) (snd (projr W))
             = drop (sizeof_axlf - sizeof_axlf_section_header) (buf f3)"
    by (elim exE)
  have x: "xb1 = small_xclbin" using H [THEN conjunct1] by simp
  note H' = H [unfolded x sz]
  have c: "\<exists>f1 m1 f2 m2 f3 m4.
          writeXclBinBinaryHeader small_xclbin \<lparr> buf = [], pos = 0 \<rparr>
             (addPTreeSchemaVersion pt_empty (m_SchemaVersionMirrorWrite small_xclbin)) = (f1, m1)
        \<and> buf f1 = take 456 (axlf_bytes (m_xclBinHeader small_xclbin))
        \<and> writeXclBinBinarySections small_class small_xclbin f1 m1 = Inr (f2, m2)
        \<and> writeXclBinBinaryMirrorData f2 m2 = Inr f3
        \<and> take 456 (buf f3) = buf f1
        \<and> fst (projr W)
            = small_xclbin \<lparr> m_xclBinHeader :=
                         set_length (word_of_nat (length (buf f3))) (m_xclBinHeader small_xclbin) \<rparr>
        \<and> writeXclBinBinaryHeader (fst (projr W)) (f3 \<lparr> pos := 0 \<rparr>) pt_empty
             = (\<lparr> buf = snd (projr W), pos = 456 \<rparr>, m4)
        \<and> length (snd (projr W)) = length (buf f3)
        \<and> drop 456 (snd (projr W)) = drop 456 (buf f3)"
    by (intro exI conjI)
       (rule H' [THEN conjunct2, THEN conjunct1],
        rule H' [THEN conjunct2, THEN conjunct2, THEN conjunct1],
        rule H' [THEN conjunct2, THEN conjunct2, THEN conjunct2, THEN conjunct1],
        rule H' [THEN conjunct2, THEN conjunct2, THEN conjunct2, THEN conjunct2, THEN conjunct1],
        rule H' [THEN conjunct2, THEN conjunct2, THEN conjunct2, THEN conjunct2, THEN conjunct2, THEN conjunct1],
        rule H' [THEN conjunct2, THEN conjunct2, THEN conjunct2, THEN conjunct2, THEN conjunct2, THEN conjunct2, THEN conjunct1],
        rule H' [THEN conjunct2, THEN conjunct2, THEN conjunct2, THEN conjunct2, THEN conjunct2, THEN conjunct2, THEN conjunct2, THEN conjunct1],
        rule H' [THEN conjunct2, THEN conjunct2, THEN conjunct2, THEN conjunct2, THEN conjunct2, THEN conjunct2, THEN conjunct2, THEN conjunct2, THEN conjunct1],
        rule H' [THEN conjunct2, THEN conjunct2, THEN conjunct2, THEN conjunct2, THEN conjunct2, THEN conjunct2, THEN conjunct2, THEN conjunct2, THEN conjunct2, THEN conjunct2])
  show ?thesis using ok len a b c unfolding W_def by (intro conjI)
qed

subsection \<open>Reading a file back\<close>

lemma stream_read_prefix:
  "length a = n \<Longrightarrow> stream_read (a @ b) 0 n = a"
  by (simp add: stream_read_def)

lemma stream_read_skip:
  "length a = off \<Longrightarrow> stream_read (a @ b) off n = take n b"
  by (simp add: stream_read_def)

lemma readXclBinBinaryHeader_image:
  assumes "wf_axlf x" and "c_str (m_magic x) = ''xclbin2''"
  shows "readXclBinBinaryHeader (axlf_bytes x @ rest) = Inr x"
proof -
  have r: "stream_read (axlf_bytes x @ rest) 0 sizeof_axlf = axlf_bytes x"
    by (rule stream_read_prefix) (simp add: sizeof_axlf_def)
  have d: "axlf_of_bytes (axlf_bytes x) = x"
    using axlf_of_bytes_image [OF assms(1), of "[]"] by simp
  show ?thesis
    unfolding readXclBinBinaryHeader_def r Let_def d
    using assms(2) by (simp add: sizeof_axlf_def getMagicAsString_def)
qed

lemma read_sections_sections:
  "read_sections K file idxs xb = Inr xb' \<Longrightarrow>
     (\<exists>added. m_sections xb' = m_sections xb @ added \<and>
        (added = [] \<longrightarrow> xb' = xb) \<and>
        (added \<noteq> [] \<longrightarrow>
           m_numSections (m_header (m_xclBinHeader xb')) = word_of_nat (length (m_sections xb'))))"
proof (induction idxs arbitrary: xb)
  case Nil
  then show ?case by simp
next
  case (Cons index rest)
  let ?bs = "stream_read file (sizeof_axlf + index * sizeof_axlf_section_header - sizeof_axlf_section_header)
               sizeof_axlf_section_header"
  from Cons.prems have len: "length ?bs = sizeof_axlf_section_header"
    by (auto simp: Let_def split: if_splits)
  show ?case
  proof (cases "createSectionObjectOfKind K (m_sectionKind (section_header_of_bytes ?bs)) []")
    case None
    with Cons.prems len have "read_sections K file rest xb = Inr xb'"
      by (simp add: Let_def)
    from Cons.IH [OF this] show ?thesis .
  next
    case (Some pSection)
    with Cons.prems len obtain s where
      s: "Section_readXclBinBinary file (section_header_of_bytes ?bs) pSection = Inr s"
      and r: "read_sections K file rest (addSection (Some s) xb) = Inr xb'"
      by (auto simp: Let_def split: sum.splits)
    from Cons.IH [OF r] obtain added where
      a: "m_sections xb' = m_sections (addSection (Some s) xb) @ added"
      and e: "added = [] \<longrightarrow> xb' = addSection (Some s) xb"
      and n: "added \<noteq> [] \<longrightarrow>
           m_numSections (m_header (m_xclBinHeader xb')) = word_of_nat (length (m_sections xb'))"
      by blast
    have "m_sections xb' = m_sections xb @ (s # added)"
      using a by (simp add: addSection_def)
    moreover have "m_numSections (m_header (m_xclBinHeader xb')) = word_of_nat (length (m_sections xb'))"
    proof (cases "added = []")
      case True
      with e have "xb' = addSection (Some s) xb" by simp
      then show ?thesis by (simp add: addSection_def set_numSections_def)
    next
      case False
      with n show ?thesis by simp
    qed
    ultimately show ?thesis by blast
  qed
qed

lemma unknown_kind_header_wf:
  "wf_axlf unknown_kind_header \<and> c_str (m_magic unknown_kind_header) = ''xclbin2''
   \<and> m_numSections (m_header unknown_kind_header) = 1
   \<and> m_sectionKind (m_sections_1 unknown_kind_header) = 99"
  by (simp add: unknown_kind_header_def wf_axlf_def wf_axlf_header_def wf_section_header_def
      zero_axlf_def set_numSections_def safeStringCopy_def fixed_def c_str_def)

lemma unknown_kind_table:
  "stream_read unknown_kind_file 456 40 = section_header_bytes (m_sections_1 unknown_kind_header)"
proof -
  have "unknown_kind_file = take 456 (axlf_bytes unknown_kind_header) @
          (section_header_bytes (m_sections_1 unknown_kind_header) @ ''data'')"
    unfolding unknown_kind_file_def using axlf_bytes_split [of unknown_kind_header]
    by (metis append.assoc)
  then have e: "stream_read unknown_kind_file 456 40
      = stream_read (take 456 (axlf_bytes unknown_kind_header) @
          (section_header_bytes (m_sections_1 unknown_kind_header) @ ''data'')) 456 40"
    by (rule arg_cong)
  show ?thesis
    unfolding e
    by (subst stream_read_skip) simp_all
qed

text \<open>
  Claim C10 at a file whose header counts one section and whose only table entry is of a
  kind the factory has no constructor for: the read raises no error and the container
  holds no section, but the section count of its header is still 1, the count of the
  file, and not 0, the number of sections added.
\<close>

theorem readXclBinBinary_unknown_kind_count:
  "readXclBinBinary small_class ''in.xclbin'' (Some unknown_kind_file) False empty_xclbin
     = Inr (empty_xclbin \<lparr> m_xclBinHeader := unknown_kind_header \<rparr>)
   \<and> m_sections (empty_xclbin \<lparr> m_xclBinHeader := unknown_kind_header \<rparr>) = []
   \<and> unat (m_numSections (m_header (m_xclBinHeader
              (empty_xclbin \<lparr> m_xclBinHeader := unknown_kind_header \<rparr>)))) = 1"
proof -
  note w = unknown_kind_header_wf
  have h: "readXclBinBinaryHeader unknown_kind_file = Inr unknown_kind_header"
    unfolding unknown_kind_file_def
    by (rule readXclBinBinaryHeader_image [OF w [THEN conjunct1] w [THEN conjunct2, THEN conjunct1]])
  have d: "section_header_of_bytes (section_header_bytes (m_sections_1 unknown_kind_header))
            = m_sections_1 unknown_kind_header"
    using section_header_of_bytes_image [of "m_sections_1 unknown_kind_header" "[]"] w
    by (simp add: wf_axlf_def)
  have c: "createSectionObjectOfKind small_class 99 [] = None"
    by (simp add: createSectionObjectOfKind_def small_defs)
  have s: "readXclBinBinarySections small_class unknown_kind_file
             (empty_xclbin \<lparr> m_xclBinHeader := unknown_kind_header \<rparr>)
           = Inr (empty_xclbin \<lparr> m_xclBinHeader := unknown_kind_header \<rparr>)"
    using w
    by (simp add: readXclBinBinarySections_def sizeof_axlf_def sizeof_axlf_section_header_def
        unknown_kind_table d c Let_def)
  have "readXclBinBinary small_class ''in.xclbin'' (Some unknown_kind_file) False empty_xclbin
     = Inr (empty_xclbin \<lparr> m_xclBinHeader := unknown_kind_header \<rparr>)"
    by (simp add: readXclBinBinary_def h bind_def s)
  moreover have "m_sections (empty_xclbin \<lparr> m_xclBinHeader := unknown_kind_header \<rparr>) = []"
    by (simp add: empty_xclbin_def)
  moreover have "unat (m_numSections (m_header (m_xclBinHeader
              (empty_xclbin \<lparr> m_xclBinHeader := unknown_kind_header \<rparr>)))) = 1"
    using w by simp
  ultimately show ?thesis by (intro conjI)
qed

subsection \<open>The search for the mirror\<close>



















subsection \<open>Writing a container and reading it back\<close>












lemma set_numSections_twice [simp]: "set_numSections a (set_numSections b x) = set_numSections a x"
  by (simp add: set_numSections_def)










end
